theory Spec2Isabelle
  imports Complex_Main "HOL-Library.Log_Nat"
begin

section \<open>Wardex: the evaluation engine, the shield and the approval tokens\<close>

text \<open>
  A shallow embedding of the TypeScript sources of Wardex: the middleware pipeline
  (\<^verbatim>\<open>pipeline.ts\<close>), the context analyzer, the transaction decoder, the value assessor,
  the risk aggregator and the policy engine, the shield orchestrator (\<^verbatim>\<open>shield.ts\<close>)
  and the approval tokens of the isolated signer.

  Conventions. A field \<^verbatim>\<open>r.f\<close> of a source object keeps its name \<open>f\<close>; where two
  objects of the source share a field name, or the name is reserved in Isabelle, the
  field is written \<open>r_f\<close> (\<^verbatim>\<open>tx.to\<close> is \<open>tx_to\<close>, \<^verbatim>\<open>ctx.reasons\<close> is \<open>ctx_reasons\<close>).
  An optional field is an \<open>option\<close>. Strings are \<open>string\<close>s of 8-bit characters.
  The human-readable \<^verbatim>\<open>message\<close> of a security reason is not modelled.
\<close>

subsection \<open>JavaScript values: strings, BigInt, Number\<close>

datatype error = SyntaxError string | Error string | RangeError string

definition lowerChar :: "char \<Rightarrow> char" where
  "lowerChar c = (let n = (of_char c :: nat) in if 65 \<le> n \<and> n \<le> 90 then char_of (n + 32) else c)"

definition toLowerCase :: "string \<Rightarrow> string" where
  "toLowerCase s = map lowerChar s"

text \<open>\<^verbatim>\<open>s.slice(a, b)\<close> and \<^verbatim>\<open>s.slice(a)\<close> for non-negative indices.\<close>

definition slice :: "nat \<Rightarrow> nat \<Rightarrow> 'a list \<Rightarrow> 'a list" where
  "slice a b s = take (b - a) (drop a s)"

definition sliceFrom :: "nat \<Rightarrow> 'a list \<Rightarrow> 'a list" where
  "sliceFrom a s = drop a s"

text \<open>\<^verbatim>\<open>xs.slice(-n)\<close>: the last \<open>n\<close> elements (all of them when there are fewer).\<close>

definition sliceLast :: "nat \<Rightarrow> 'a list \<Rightarrow> 'a list" where
  "sliceLast n xs = drop (length xs - n) xs"

fun startsWith :: "string \<Rightarrow> string \<Rightarrow> bool" where
  "startsWith s [] = True"
| "startsWith [] (p # ps) = False"
| "startsWith (c # cs) (p # ps) = (c = p \<and> startsWith cs ps)"

fun includes_str :: "string \<Rightarrow> string \<Rightarrow> bool" where
  "includes_str [] t = (t = [])"
| "includes_str (c # cs) t = (startsWith (c # cs) t \<or> includes_str cs t)"

definition digitVal :: "char \<Rightarrow> nat option" where
  "digitVal c = (let n = (of_char c :: nat) in
     if 48 \<le> n \<and> n \<le> 57 then Some (n - 48)
     else if 97 \<le> n \<and> n \<le> 102 then Some (n - 87)
     else if 65 \<le> n \<and> n \<le> 70 then Some (n - 55)
     else None)"

definition isHexChar :: "char \<Rightarrow> bool" where
  "isHexChar c = (digitVal c \<noteq> None)"

text \<open>The digits of a numeric literal in the given radix, most significant first;
  \<open>None\<close> when a character is not a digit of that radix.\<close>

fun parseDigitsFrom :: "int \<Rightarrow> int \<Rightarrow> string \<Rightarrow> int option" where
  "parseDigitsFrom radix acc [] = Some acc"
| "parseDigitsFrom radix acc (c # cs) =
     (case digitVal c of
        None \<Rightarrow> None
      | Some d \<Rightarrow> if int d < radix then parseDigitsFrom radix (acc * radix + int d) cs else None)"

definition parseDigits :: "int \<Rightarrow> string \<Rightarrow> int option" where
  "parseDigits radix s = (if s = [] then None else parseDigitsFrom radix 0 s)"

definition isWhiteSpace :: "char \<Rightarrow> bool" where
  "isWhiteSpace c = (let n = (of_char c :: nat) in n = 32 \<or> (9 \<le> n \<and> n \<le> 13) \<or> n = 160)"

definition trim :: "string \<Rightarrow> string" where
  "trim s = rev (dropWhile isWhiteSpace (rev (dropWhile isWhiteSpace s)))"

text \<open>
  \<^verbatim>\<open>BigInt(s)\<close> for a string argument (ECMAScript StringToBigInt): surrounding white space
  is trimmed, the empty string is \<open>0n\<close>, a literal is either decimal with an optional
  sign or unsigned with one of the prefixes \<^verbatim>\<open>0x 0o 0b\<close>; anything else throws a
  SyntaxError.
\<close>

definition StringToBigInt :: "string \<Rightarrow> int option" where
  "StringToBigInt s =
     (let t = trim s in
      if t = [] then Some 0
      else if startsWith (toLowerCase t) ''0x'' then parseDigits 16 (drop 2 t)
      else if startsWith (toLowerCase t) ''0o'' then parseDigits 8 (drop 2 t)
      else if startsWith (toLowerCase t) ''0b'' then parseDigits 2 (drop 2 t)
      else if startsWith t ''-'' then map_option uminus (parseDigits 10 (drop 1 t))
      else if startsWith t ''+'' then parseDigits 10 (drop 1 t)
      else parseDigits 10 t)"

definition BigInt :: "string \<Rightarrow> error + int" where
  "BigInt s = (case StringToBigInt s of
                 None \<Rightarrow> Inl (SyntaxError (''Cannot convert '' @ s @ '' to a BigInt''))
               | Some n \<Rightarrow> Inr n)"

text \<open>
  A Number is an IEEE-754 double. A finite double is a rational number, and every
  arithmetic operation returns the double nearest to the exact result, ties to the even
  significand (\<open>fl\<close>, 53 bits of precision). The model covers the finite Numbers within
  the exponent range of a double: it has no NaN and no infinity, and \<open>fl\<close> neither
  overflows nor underflows. Where a statement depends on it, the statement says that
  its Numbers are finite; \<open>finiteAsNumber\<close> holds for the integers that \<^verbatim>\<open>Number(b)\<close>
  converts to a finite double (the others become an infinity).
\<close>

type_synonym number = rat

text \<open>For \<open>x > 0\<close>, the exponent \<open>e\<close> with \<open>2^e \<le> x < 2^(e+1)\<close>.\<close>

definition ilog2 :: "rat \<Rightarrow> int" where
  "ilog2 x = (let (p, q) = quotient_of x;
                  d = bitlen p - bitlen q
              in if 2 powi d \<le> x then d else d - 1)"

definition roundTiesToEven :: "rat \<Rightarrow> int" where
  "roundTiesToEven q = (let f = \<lfloor>q\<rfloor>; r = q - of_int f in
     if r < 1/2 then f else if 1/2 < r then f + 1 else if even f then f else f + 1)"

definition fl :: "rat \<Rightarrow> number" where
  "fl x = (if x = 0 then 0 else
     let u = 2 powi (ilog2 \<bar>x\<bar> - 52) in of_int (roundTiesToEven (x / u)) * u)"

definition js_add :: "number \<Rightarrow> number \<Rightarrow> number" where
  "js_add a b = fl (a + b)"

definition js_mul :: "number \<Rightarrow> number \<Rightarrow> number" where
  "js_mul a b = fl (a * b)"

definition js_div :: "number \<Rightarrow> number \<Rightarrow> number" where
  "js_div a b = fl (a / b)"

text \<open>\<^verbatim>\<open>Number(b)\<close> for a BigInt, and a decimal literal of the source text.\<close>

definition Number :: "int \<Rightarrow> number" where
  "Number b = fl (of_int b)"

definition finiteAsNumber :: "int \<Rightarrow> bool" where
  "finiteAsNumber b = (\<bar>b\<bar> < 2 ^ 1024 - 2 ^ 970)"

definition literal :: "rat \<Rightarrow> number" where
  "literal x = fl x"

text \<open>\<^verbatim>\<open>Math.round\<close>: the nearest integer, a tie going towards \<open>+\<infinity>\<close>.\<close>

definition Math_round :: "number \<Rightarrow> number" where
  "Math_round x = of_int \<lfloor>x + 1/2\<rfloor>"

definition Math_max :: "number \<Rightarrow> number \<Rightarrow> number" where
  "Math_max a b = (if a < b then b else a)"

definition Math_min :: "number \<Rightarrow> number \<Rightarrow> number" where
  "Math_min a b = (if b < a then b else a)"

subsection \<open>The data model\<close>

datatype severity = Info | Low | Medium | High | Critical

datatype reasonSource = SrcContext | SrcTransaction | SrcAddress | SrcContract | SrcBehavioral | SrcPolicy

record SecurityReason =
  code :: string
  severity :: severity
  source :: reasonSource

record TransactionRequest =
  tx_to :: string
  tx_value :: "string option"
  tx_data :: "string option"
  tx_chainId :: number

datatype role = RoleUser | RoleAssistant | RoleTool | RoleSystem

record Message =
  role :: role
  content :: string

datatype sourceType = TypeUser | TypeAssistant | TypeTool | TypeUnknown

datatype trustLevel = TrustHigh | TrustMedium | TrustLow | Untrusted

record InstructionSource =
  source_type :: sourceType
  source_identifier :: string
  trustLevel :: trustLevel

record ToolCall =
  call_tool :: string
  call_output :: string

record ConversationContext =
  messages :: "Message list"
  cc_source :: InstructionSource
  toolCallChain :: "ToolCall list option"

text \<open>\<^verbatim>\<open>decoded.parameters\<close> is a dictionary of strings and booleans.\<close>

datatype param = PString string | PBool bool

record DecodedTransaction =
  raw :: TransactionRequest
  functionName :: "string option"
  parameters :: "(string \<times> param) list option"
  isApproval :: bool
  isTransfer :: bool
  involvesEth :: bool
  estimatedValueUsd :: number

record RiskScore =
  risk_context :: number
  risk_transaction :: number
  risk_behavioral :: number
  risk_composite :: number

text \<open>\<^verbatim>\<open>ctx.riskScores\<close> is a \<^verbatim>\<open>Partial<RiskScore>\<close>: every score may be missing.\<close>

record PartialRiskScore =
  rs_context :: "number option"
  rs_transaction :: "number option"
  rs_behavioral :: "number option"
  rs_composite :: "number option"

datatype mode = Audit | Copilot | Guardian | Fortress

record Triggers =
  minValueAtRiskUsd :: "number option"
  maxValueAtRiskUsd :: "number option"
  targetAddresses :: "string list option"
  functionSignatures :: "string list option"

record Enforcement =
  mode :: mode
  blockThreshold :: number
  requireHumanApproval :: bool
  notifyOperator :: bool
  requireOnChainProof :: bool
  timeLockSeconds :: "number option"

record SecurityTierConfig =
  tier_id :: string
  tier_name :: string
  triggers :: Triggers
  enforcement :: Enforcement

record Allowlists =
  allow_addresses :: "string list"
  allow_contracts :: "string list"
  allow_protocols :: "string list"

record Denylists =
  deny_addresses :: "string list"
  deny_patterns :: "string list"

record Limits =
  maxTransactionValueWei :: string
  maxDailyVolumeWei :: string
  maxApprovalAmountWei :: string
  maxGasPriceGwei :: number

datatype sensitivity = SensLow | SensMedium | SensHigh

record Behavioral =
  behavioral_enabled :: bool
  learningPeriodDays :: number
  sensitivityLevel :: sensitivity

record ContextAnalysis =
  enablePromptInjectionDetection :: bool
  enableCoherenceChecking :: bool
  suspiciousPatterns :: "string list"
  enableEscalationDetection :: bool
  enableSourceVerification :: bool

record SecurityPolicy =
  tiers :: "SecurityTierConfig list"
  allowlists :: Allowlists
  denylists :: Denylists
  limits :: Limits
  policy_behavioral :: Behavioral
  contextAnalysis :: ContextAnalysis

datatype decision = Approve | Advise | Block | Freeze

datatype requiredAction = ActionNone | HumanApproval | Delay

record SecurityVerdict =
  decision :: decision
  riskScore :: RiskScore
  reasons :: "SecurityReason list"
  suggestions :: "string list"
  requiredAction :: "requiredAction option"
  delaySeconds :: "number option"
  timestamp :: string
  evaluationId :: string
  tierId :: string

record AuditEntry =
  entry_evaluationId :: string
  entry_timestamp :: string
  entry_transaction :: TransactionRequest
  entry_verdict :: SecurityVerdict
  contextSummary :: "string option"
  executed :: bool

subsection \<open>The middleware pipeline (pipeline.ts)\<close>

text \<open>
  The evaluation context that the stages mutate. Of the free-form \<^verbatim>\<open>metadata\<close>
  dictionary the two keys that the stages use are modelled.
\<close>

record MiddlewareContext =
  ctx_transaction :: TransactionRequest
  ctx_conversationContext :: "ConversationContext option"
  ctx_riskScores :: PartialRiskScore
  ctx_reasons :: "SecurityReason list"
  ctx_policy :: SecurityPolicy
  ctx_tier :: "SecurityTierConfig option"
  ctx_decoded :: "DecodedTransaction option"
  ctx_metadata_verdict :: "SecurityVerdict option"
  ctx_metadata_estimatedValueUsd :: "number option"

text \<open>
  The state that a run of the pipeline threads through its stages: the context object,
  the variable \<^verbatim>\<open>index\<close> of \<^verbatim>\<open>compose\<close>, and the escalation tracker that the context
  analyzer keeps between evaluations (value in USD and time stamp of each sample).
\<close>

record PipelineState = MiddlewareContext +
  index :: int
  recentTransactionValues :: "(number \<times> int) list"

text \<open>
  A stage either completes (\<open>None\<close>) or throws (\<open>Some e\<close>); in both cases the state it
  leaves behind is returned. \<^verbatim>\<open>next\<close> is the continuation.
\<close>

type_synonym completion = "error option \<times> PipelineState"
type_synonym continuation = "PipelineState \<Rightarrow> completion"
type_synonym middleware = "PipelineState \<Rightarrow> continuation \<Rightarrow> completion"

definition isValidEthereumAddress :: "string \<Rightarrow> bool" where
  "isValidEthereumAddress address =
     (length address = 42 \<and> take 2 address = ''0x'' \<and> list_all isHexChar (drop 2 address))"

definition isInteger :: "number \<Rightarrow> bool" where
  "isInteger x = (of_int \<lfloor>x\<rfloor> = x)"

text \<open>
  The error message, or \<open>None\<close> for \<^verbatim>\<open>null\<close>. \<open>quote\<close> is the double quote of the
  messages; \<open>numberToString\<close> is \<^verbatim>\<open>Number.prototype.toString\<close> of the runtime, which the
  template of the chain id message applies to the chain id.
\<close>

definition quote :: string where
  "quote = [CHR 0x22]"

definition validateTransactionRequest :: "(number \<Rightarrow> string) \<Rightarrow> TransactionRequest \<Rightarrow> string option" where
  "validateTransactionRequest numberToString tx =
     (if tx_to tx = [] then Some (''Transaction is missing the '' @ quote @ ''to'' @ quote @ '' address'')
      else if \<not> isValidEthereumAddress (tx_to tx) then
        Some (''Invalid '' @ quote @ ''to'' @ quote @ '' address: '' @ quote @ tx_to tx @ quote
              @ '' is not a valid Ethereum address (expected 0x + 40 hex chars)'')
      else if \<not> isInteger (tx_chainId tx) \<or> tx_chainId tx \<le> 0 then
        Some (''Invalid chainId: '' @ numberToString (tx_chainId tx))
      else case (case tx_value tx of
                   None \<Rightarrow> None
                 | Some v \<Rightarrow>
                     (case BigInt v of
                        Inr val \<Rightarrow> if val < 0 then Some ''Transaction value cannot be negative'' else None
                      | Inl e \<Rightarrow> Some (''Invalid transaction value: '' @ quote @ v @ quote
                                         @ '' is not a valid integer''))) of
             Some msg \<Rightarrow> Some msg
           | None \<Rightarrow>
               (case tx_data tx of
                  None \<Rightarrow> None
                | Some d \<Rightarrow>
                    if d \<noteq> [] \<and> \<not> (take 2 d = ''0x'' \<and> list_all isHexChar (drop 2 d))
                    then Some ''Invalid transaction data: must be a hex string starting with 0x''
                    else None))"

function dispatch :: "middleware list \<Rightarrow> continuation \<Rightarrow> nat \<Rightarrow> PipelineState \<Rightarrow> completion" where
  "dispatch middlewares next i s =
     (if int i \<le> index s then
        (Some (Error ''next() called multiple times in the same middleware''), s)
      else
        let s' = s\<lparr>index := int i\<rparr> in
        if i < length middlewares then
          (middlewares ! i) s' (\<lambda>s''. dispatch middlewares next (i + 1) s'')
        else next s')"
  by pat_completeness auto
termination
  by (relation "measure (\<lambda>(middlewares, next, i, s). length middlewares - i)") auto

definition compose :: "middleware list \<Rightarrow> middleware" where
  "compose middlewares = (\<lambda>ctx next. dispatch middlewares next 0 (ctx\<lparr>index := - 1\<rparr>))"

definition emptyPolicy :: SecurityPolicy where
  "emptyPolicy =
     \<lparr>tiers = [],
      allowlists = \<lparr>allow_addresses = [], allow_contracts = [], allow_protocols = []\<rparr>,
      denylists = \<lparr>deny_addresses = [], deny_patterns = []\<rparr>,
      limits = \<lparr>maxTransactionValueWei = ''0'', maxDailyVolumeWei = ''0'',
                maxApprovalAmountWei = ''0'', maxGasPriceGwei = 0\<rparr>,
      policy_behavioral = \<lparr>behavioral_enabled = False, learningPeriodDays = 7,
                           sensitivityLevel = SensMedium\<rparr>,
      contextAnalysis = \<lparr>enablePromptInjectionDetection = True, enableCoherenceChecking = True,
                         suspiciousPatterns = [], enableEscalationDetection = True,
                         enableSourceVerification = True\<rparr>\<rparr>"

text \<open>
  \<^verbatim>\<open>createMiddlewareContext(overrides)\<close> for the overrides that the shield passes: the
  transaction, the conversation context and the policy.
\<close>

definition createMiddlewareContext ::
  "TransactionRequest option \<Rightarrow> ConversationContext option \<Rightarrow> SecurityPolicy option
     \<Rightarrow> MiddlewareContext" where
  "createMiddlewareContext transaction conversationContext policy =
     \<lparr>ctx_transaction =
        (case transaction of
           Some tx \<Rightarrow> tx
         | None \<Rightarrow> \<lparr>tx_to = [], tx_value = None, tx_data = None, tx_chainId = 1\<rparr>),
      ctx_conversationContext = conversationContext,
      ctx_riskScores = \<lparr>rs_context = None, rs_transaction = None, rs_behavioral = None,
                         rs_composite = None\<rparr>,
      ctx_reasons = [],
      ctx_policy = (case policy of Some p \<Rightarrow> p | None \<Rightarrow> emptyPolicy),
      ctx_tier = None,
      ctx_decoded = None,
      ctx_metadata_verdict = None,
      ctx_metadata_estimatedValueUsd = None\<rparr>"

subsection \<open>The environment of one evaluation\<close>

text \<open>
  What one evaluation reads from outside the modelled code: the clock (\<^verbatim>\<open>Date.now()\<close>,
  \<^verbatim>\<open>new Date().toISOString()\<close>, \<^verbatim>\<open>new Date().toDateString()\<close>), the random identifier,
  the regular-expression engine (\<open>regexTest name text\<close> is the result of testing the
  injection pattern called \<open>name\<close> against \<open>text\<close>; \<open>newRegExp p\<close> compiles an operator
  pattern and is \<open>None\<close> when the constructor throws), and the three stages that the
  shield takes from outside the modelled code: the address checker and the contract
  checker as \<^verbatim>\<open>createShield\<close> has built them (with the reputation and the contract
  analysis of the intelligence provider when one is configured and installed, without
  them otherwise), and the behavioral comparator, which is not among the sources.
\<close>

record Env =
  Date_now :: int
  toISOString :: string
  toDateString :: string
  randomUUID :: string
  regexTest :: "string \<Rightarrow> string \<Rightarrow> bool"
  newRegExp :: "string \<Rightarrow> (string \<Rightarrow> bool) option"
  addressChecker :: middleware
  contractChecker :: middleware
  behavioralComparator :: middleware

subsection \<open>Stage 1: the context analyzer\<close>

definition INJECTION_PATTERNS :: "(string \<times> severity) list" where
  "INJECTION_PATTERNS =
     [(''IGNORE_INSTRUCTIONS'', Critical),
      (''ROLE_OVERRIDE'', High),
      (''SYSTEM_PROMPT_INJECTION'', Critical),
      (''JAILBREAK_PATTERN'', Critical),
      (''BASE64_INSTRUCTION'', High),
      (''HIDDEN_INSTRUCTION_MARKER'', High),
      (''URGENCY_MANIPULATION'', Medium),
      (''AUTHORIZATION_CLAIM'', High),
      (''SEED_PHRASE_REQUEST'', Critical),
      (''REDIRECT_FUNDS'', High)]"

definition ESCALATION_WINDOW_MS :: int where
  "ESCALATION_WINDOW_MS = 30 * 60 * 1000"

definition ESCALATION_THRESHOLD :: number where
  "ESCALATION_THRESHOLD = 5"

text \<open>
  \<^verbatim>\<open>detectEscalation(tracker, currentValueUsd)\<close>: the reason, if any, and the tracker as
  the call leaves it.
\<close>

definition detectEscalation ::
  "int \<Rightarrow> (number \<times> int) list \<Rightarrow> number
     \<Rightarrow> SecurityReason option \<times> (number \<times> int) list" where
  "detectEscalation now tracker currentValueUsd =
     (let kept = filter (\<lambda>(valueUsd, timestamp). now - timestamp < ESCALATION_WINDOW_MS) tracker;
          recent = kept @ [(currentValueUsd, now)]
      in if length recent < 2 then (None, recent)
         else case recent of
                [] \<Rightarrow> (None, recent)
              | oldest # rest \<Rightarrow>
                  let newest = last recent in
                  if 0 < fst oldest \<and> ESCALATION_THRESHOLD \<le> js_div (fst newest) (fst oldest)
                  then (Some \<lparr>code = ''VALUE_ESCALATION'', severity = High, source = SrcContext\<rparr>,
                        recent)
                  else (None, recent))"

definition crossMcp :: "Env \<Rightarrow> ToolCall \<Rightarrow> SecurityReason list" where
  "crossMcp env call =
     (if call_output call \<noteq> [] \<and>
         list_ex (\<lambda>(name, sev). regexTest env name (call_output call)) INJECTION_PATTERNS
      then [\<lparr>code = ''CROSS_MCP_INJECTION'', severity = Critical, source = SrcContext\<rparr>]
      else [])"

definition evaluateSource :: "Env \<Rightarrow> ConversationContext \<Rightarrow> SecurityReason list" where
  "evaluateSource env context =
     (if trustLevel (cc_source context) = Untrusted
      then [\<lparr>code = ''UNTRUSTED_SOURCE'', severity = Critical, source = SrcContext\<rparr>] else [])
     @ (if source_type (cc_source context) = TypeUnknown
        then [\<lparr>code = ''UNKNOWN_SOURCE'', severity = High, source = SrcContext\<rparr>] else [])
     @ (case toolCallChain context of
          None \<Rightarrow> []
        | Some chain \<Rightarrow> concat (map (crossMcp env) chain))"

fun join :: "string \<Rightarrow> string list \<Rightarrow> string" where
  "join sep [] = []"
| "join sep [x] = x"
| "join sep (x # y # ys) = x @ sep @ join sep (y # ys)"

definition cryptoTerms :: "string list" where
  "cryptoTerms =
     [''send'', ''transfer'', ''swap'', ''trade'', ''approve'', ''token'', ''eth'',
      ''wallet'', ''contract'', ''defi'', ''uniswap'', ''aave'', ''pool'', ''liquidity'',
      ''stake'', ''bridge'', ''mint'', ''burn'', ''withdraw'', ''deposit'', ''exchange'',
      ''price'', ''buy'', ''sell'', ''gas'', ''nft'', ''erc20'', ''erc721'']"

definition checkCoherence :: "ConversationContext \<Rightarrow> SecurityReason option" where
  "checkCoherence context =
     (if messages context = [] then None
      else
        let recentMessages = sliceLast 5 (messages context);
            conversationText = toLowerCase (join '' '' (map content recentMessages));
            hasCryptoContext = list_ex (\<lambda>term. includes_str conversationText term) cryptoTerms
        in if \<not> hasCryptoContext
           then Some \<lparr>code = ''INCOHERENT_CONTEXT'', severity = Medium, source = SrcContext\<rparr>
           else None)"

definition scanMessages :: "Env \<Rightarrow> Message list \<Rightarrow> SecurityReason list" where
  "scanMessages env msgs =
     concat (map (\<lambda>message.
        map (\<lambda>(name, sev). \<lparr>code = ''INJECTION_'' @ name, severity = sev, source = SrcContext\<rparr>)
            (filter (\<lambda>(name, sev). regexTest env name (content message)) INJECTION_PATTERNS))
        msgs)"

text \<open>
  The loop over the operator's patterns: the reasons pushed, and the SyntaxError of the
  first pattern that does not compile.
\<close>

fun scanCustomPatterns ::
  "Env \<Rightarrow> string list \<Rightarrow> Message list \<Rightarrow> SecurityReason list \<times> error option" where
  "scanCustomPatterns env [] msgs = ([], None)"
| "scanCustomPatterns env (customPattern # ps) msgs =
     (case newRegExp env customPattern of
        None \<Rightarrow> ([], Some (SyntaxError (''Invalid regular expression: '' @ customPattern)))
      | Some test \<Rightarrow>
          let here = map (\<lambda>message. \<lparr>code = ''CUSTOM_PATTERN_MATCH'', severity = Medium,
                                      source = SrcContext\<rparr>)
                         (filter (\<lambda>message. test (content message)) msgs);
              (later, err) = scanCustomPatterns env ps msgs
          in (here @ later, err))"

definition contextWeight :: "severity \<Rightarrow> number" where
  "contextWeight sev =
     (case sev of Critical \<Rightarrow> 40 | High \<Rightarrow> 25 | Medium \<Rightarrow> 15 | Low \<Rightarrow> 5 | Info \<Rightarrow> 0)"

text \<open>\<^verbatim>\<open>ctx.reasons.push(...rs)\<close>\<close>

definition push :: "SecurityReason list \<Rightarrow> PipelineState \<Rightarrow> PipelineState" where
  "push rs ctx = ctx\<lparr>ctx_reasons := ctx_reasons ctx @ rs\<rparr>"

text \<open>The four numbered blocks of the middleware and the computation of the score.\<close>

definition promptInjectionDetection ::
  "Env \<Rightarrow> ContextAnalysis \<Rightarrow> ConversationContext \<Rightarrow> SecurityReason list \<times> error option" where
  "promptInjectionDetection env config conversation =
     (if enablePromptInjectionDetection config then
        let found = scanMessages env (messages conversation);
            (custom, e) = scanCustomPatterns env (suspiciousPatterns config) (messages conversation)
        in (found @ custom, e)
      else ([], None))"

definition sourceVerification ::
  "Env \<Rightarrow> ContextAnalysis \<Rightarrow> ConversationContext \<Rightarrow> PipelineState \<Rightarrow> PipelineState" where
  "sourceVerification env config conversation ctx =
     (if enableSourceVerification config then push (evaluateSource env conversation) ctx else ctx)"

definition coherenceChecking ::
  "ContextAnalysis \<Rightarrow> ConversationContext \<Rightarrow> PipelineState \<Rightarrow> PipelineState" where
  "coherenceChecking config conversation ctx =
     (if enableCoherenceChecking config then
        (case checkCoherence conversation of
           Some coherenceReason \<Rightarrow> push [coherenceReason] ctx
         | None \<Rightarrow> ctx)
      else ctx)"

definition escalationDetection :: "Env \<Rightarrow> ContextAnalysis \<Rightarrow> PipelineState \<Rightarrow> PipelineState" where
  "escalationDetection env config ctx =
     (if enableEscalationDetection config then
        (case ctx_decoded ctx of
           None \<Rightarrow> ctx
         | Some decoded \<Rightarrow>
             let (escalationReason, tracker) =
                   detectEscalation (Date_now env) (recentTransactionValues ctx)
                     (estimatedValueUsd decoded)
             in (push (case escalationReason of Some r \<Rightarrow> [r] | None \<Rightarrow> []) ctx)
                  \<lparr>recentTransactionValues := tracker\<rparr>)
      else ctx)"

definition contextRiskScore :: "PipelineState \<Rightarrow> PipelineState" where
  "contextRiskScore ctx =
     (let contextReasons = filter (\<lambda>r. source r = SrcContext) (ctx_reasons ctx);
          contextScore = sum_list (map (\<lambda>r. contextWeight (severity r)) contextReasons)
      in ctx\<lparr>ctx_riskScores := (ctx_riskScores ctx)\<lparr>rs_context := Some (Math_min 100 contextScore)\<rparr>\<rparr>)"

definition contextAnalyzer :: "Env \<Rightarrow> middleware" where
  "contextAnalyzer env ctx next =
     (case ctx_conversationContext ctx of
        None \<Rightarrow> next ctx
      | Some conversation \<Rightarrow>
          let config = contextAnalysis (ctx_policy ctx);
              (injections, thrown) = promptInjectionDetection env config conversation;
              ctx1 = push injections ctx
          in case thrown of
               Some e \<Rightarrow> (Some e, ctx1)
             | None \<Rightarrow>
                 next (contextRiskScore
                         (escalationDetection env config
                            (coherenceChecking config conversation
                               (sourceVerification env config conversation ctx1)))))"

subsection \<open>Stage 2: the transaction decoder\<close>

text \<open>The table of known selectors; of an entry only the \<^verbatim>\<open>name\<close> is used.\<close>

definition KNOWN_SELECTORS :: "(string \<times> string) list" where
  "KNOWN_SELECTORS =
     [(''0xa9059cbb'', ''transfer''),
      (''0x23b872dd'', ''transferFrom''),
      (''0x095ea7b3'', ''approve''),
      (''0x42842e0e'', ''safeTransferFrom''),
      (''0xb88d4fde'', ''safeTransferFrom''),
      (''0xa22cb465'', ''setApprovalForAll''),
      (''0x38ed1739'', ''swapExactTokensForTokens''),
      (''0x7ff36ab5'', ''swapExactETHForTokens''),
      (''0x18cbafe5'', ''swapExactTokensForETH''),
      (''0x5ae401dc'', ''multicall''),
      (''0xac9650d8'', ''multicall''),
      (''0x1fad948c'', ''handleOps''),
      (''0x00000000'', ''fallback'')]"

definition MAX_UINT256 :: string where
  "MAX_UINT256 = replicate 64 (CHR ''f'')"

definition decodeSelector :: "string \<Rightarrow> string option" where
  "decodeSelector data =
     (if data = [] \<or> length data < 10 then None
      else map_of KNOWN_SELECTORS (toLowerCase (slice 0 10 data)))"

definition decodeAddress :: "string \<Rightarrow> string" where
  "decodeAddress param = ''0x'' @ toLowerCase (sliceFrom 24 param)"

definition decodeUint256 :: "string \<Rightarrow> error + int" where
  "decodeUint256 param = BigInt (''0x'' @ param)"

definition isInfiniteApproval :: "string \<Rightarrow> bool" where
  "isInfiniteApproval amountHex =
     (let cleaned = toLowerCase (if startsWith amountHex ''0x'' then drop 2 amountHex else amountHex)
      in if cleaned = MAX_UINT256 then True
         else case BigInt (''0x'' @ cleaned) of
                Inr v \<Rightarrow> 2 ^ 128 < v
              | Inl e \<Rightarrow> False)"

function chunks64 :: "string \<Rightarrow> string list" where
  "chunks64 paramData = (if paramData = [] then [] else take 64 paramData # chunks64 (drop 64 paramData))"
  by pat_completeness auto
termination
  by (relation "measure length") auto

definition extractParams :: "string \<Rightarrow> string list" where
  "extractParams data = (if data = [] \<or> length data \<le> 10 then [] else chunks64 (sliceFrom 10 data))"

text \<open>
  The \<^verbatim>\<open>switch\<close> on the name of the selector: the decoded transaction and the reasons
  pushed, or the SyntaxError of \<^verbatim>\<open>decodeUint256\<close>.
\<close>

definition decodeCall ::
  "string \<Rightarrow> string list \<Rightarrow> DecodedTransaction
     \<Rightarrow> error + (DecodedTransaction \<times> SecurityReason list)" where
  "decodeCall name params decoded =
     (if name = ''approve'' then
        let d = decoded\<lparr>isApproval := True\<rparr> in
        if 2 \<le> length params then
          let spender = decodeAddress (params ! 0);
              amount = params ! 1
          in Inr (d\<lparr>parameters := Some [(''spender'', PString spender),
                                        (''amount'', PString (''0x'' @ amount))]\<rparr>,
                  if isInfiniteApproval amount
                  then [\<lparr>code = ''INFINITE_APPROVAL'', severity = Critical, source = SrcTransaction\<rparr>]
                  else [])
        else Inr (d, [])
      else if name = ''setApprovalForAll'' then
        let d = decoded\<lparr>isApproval := True\<rparr> in
        if 2 \<le> length params then
          let operator = decodeAddress (params ! 0) in
          case decodeUint256 (params ! 1) of
            Inl e \<Rightarrow> Inl e
          | Inr n \<Rightarrow>
              let approved = (n \<noteq> 0) in
              Inr (d\<lparr>parameters := Some [(''operator'', PString operator),
                                         (''approved'', PBool approved)]\<rparr>,
                   if approved
                   then [\<lparr>code = ''SET_APPROVAL_FOR_ALL'', severity = High, source = SrcTransaction\<rparr>]
                   else [])
        else Inr (d, [])
      else if name = ''transfer'' then
        let d = decoded\<lparr>isTransfer := True\<rparr> in
        if 2 \<le> length params then
          Inr (d\<lparr>parameters := Some [(''to'', PString (decodeAddress (params ! 0))),
                                     (''amount'', PString (''0x'' @ params ! 1))]\<rparr>, [])
        else Inr (d, [])
      else if name = ''transferFrom'' then
        let d = decoded\<lparr>isTransfer := True\<rparr> in
        if 3 \<le> length params then
          Inr (d\<lparr>parameters := Some [(''from'', PString (decodeAddress (params ! 0))),
                                     (''to'', PString (decodeAddress (params ! 1))),
                                     (''amount'', PString (''0x'' @ params ! 2))]\<rparr>, [])
        else Inr (d, [])
      else if name = ''multicall'' then
        Inr (decoded, [\<lparr>code = ''MULTICALL_DETECTED'', severity = Medium, source = SrcTransaction\<rparr>])
      else Inr (decoded, []))"

text \<open>
  The parts of the middleware: the decoding of the selector and of the call, the block
  for empty calldata, and the flag for value sent along with calldata.
\<close>

definition decodeData ::
  "TransactionRequest \<Rightarrow> string \<Rightarrow> int \<Rightarrow> error + (DecodedTransaction \<times> SecurityReason list)" where
  "decodeData transaction data wei =
     (let decoded0 = \<lparr>raw = transaction, functionName = None, parameters = None,
                      isApproval = False, isTransfer = False, involvesEth = (0 < wei),
                      estimatedValueUsd = 0\<rparr>;
          selectorInfo = decodeSelector data;
          decoded1 = decoded0\<lparr>functionName := selectorInfo\<rparr>;
          params = extractParams data
      in case selectorInfo of
           None \<Rightarrow> Inr (decoded1, [])
         | Some name \<Rightarrow> decodeCall name params decoded1)"

definition plainTransfer :: "TransactionRequest \<Rightarrow> string \<Rightarrow> DecodedTransaction \<Rightarrow> DecodedTransaction" where
  "plainTransfer transaction data decoded =
     (if (data = [] \<or> data = ''0x'') \<and> tx_to transaction \<noteq> []
      then decoded\<lparr>isTransfer := True, involvesEth := True\<rparr>
      else decoded)"

definition ethWithCalldata :: "string \<Rightarrow> DecodedTransaction \<Rightarrow> SecurityReason list" where
  "ethWithCalldata data decoded =
     (if involvesEth decoded \<and> data \<noteq> [] \<and> data \<noteq> ''0x'' \<and> 2 < length data
      then [\<lparr>code = ''ETH_WITH_CALLDATA'', severity = Low, source = SrcTransaction\<rparr>]
      else [])"

definition transactionDecoder :: middleware where
  "transactionDecoder ctx next =
     (let transaction = ctx_transaction ctx;
          data = (case tx_data transaction of None \<Rightarrow> [] | Some d \<Rightarrow> d)
      in case BigInt (case tx_value transaction of None \<Rightarrow> ''0'' | Some v \<Rightarrow> v) of
           Inl e \<Rightarrow> (Some e, ctx)
         | Inr wei \<Rightarrow>
             (case decodeData transaction data wei of
                Inl e \<Rightarrow> (Some e, ctx)
              | Inr (decoded2, pushed) \<Rightarrow>
                  let decoded3 = plainTransfer transaction data decoded2
                  in next ((push (pushed @ ethWithCalldata data decoded3) ctx)
                             \<lparr>ctx_decoded := Some decoded3\<rparr>)))"

subsection \<open>Stage 3: the value assessor\<close>

definition DEFAULT_ETH_PRICE_USD :: number where
  "DEFAULT_ETH_PRICE_USD = 3500"

record ValueAssessorConfig =
  ethPriceUsd :: "number option"
  tokenPricesUsd :: "(string \<times> number) list option"

text \<open>\<^verbatim>\<open>Number(amount) / 1e18 * price\<close>, in that order.\<close>

definition usdOf :: "int \<Rightarrow> number \<Rightarrow> number" where
  "usdOf amount price = js_mul (js_div (Number amount) (literal 1000000000000000000)) price"

text \<open>
  The estimate for a decoded transaction: the block \<^verbatim>\<open>// 2. Calculate token value for
  approvals and transfers\<close>, given the estimate of the native value.
\<close>

definition tokenValue ::
  "(string \<times> number) list \<Rightarrow> string \<Rightarrow> DecodedTransaction \<Rightarrow> number \<Rightarrow> number" where
  "tokenValue tokenPrices target decoded est0 =
     (let amount = (case parameters decoded of
                      None \<Rightarrow> None
                    | Some ps \<Rightarrow> map_of ps ''amount'');
          est1 =
            (if isApproval decoded \<and> parameters decoded \<noteq> None then
               (case amount of
                  Some (PString a) \<Rightarrow>
                    (case BigInt a of
                       Inr amountBig \<Rightarrow>
                         if 2 ^ 128 < amountBig then Math_max est0 100000
                         else (case map_of tokenPrices target of
                                 Some tokenPrice \<Rightarrow>
                                   if target \<noteq> [] then js_add est0 (usdOf amountBig tokenPrice)
                                   else est0
                               | None \<Rightarrow> est0)
                     | Inl e \<Rightarrow> Math_max est0 1000)
                | _ \<Rightarrow> est0)
             else est0)
      in if isTransfer decoded \<and> parameters decoded \<noteq> None then
           (case amount of
              Some (PString a) \<Rightarrow>
                (case map_of tokenPrices target of
                   Some tokenPrice \<Rightarrow>
                     if target \<noteq> [] then
                       (case BigInt a of
                          Inr amountBig \<Rightarrow> js_add est1 (usdOf amountBig tokenPrice)
                        | Inl e \<Rightarrow> Math_max est1 100)
                     else est1
                 | None \<Rightarrow> est1)
            | _ \<Rightarrow> est1)
         else est1)"

definition createValueAssessor :: "ValueAssessorConfig option \<Rightarrow> middleware" where
  "createValueAssessor config ctx next =
     (let ethPrice = (case config of
                        None \<Rightarrow> DEFAULT_ETH_PRICE_USD
                      | Some c \<Rightarrow> (case ethPriceUsd c of None \<Rightarrow> DEFAULT_ETH_PRICE_USD | Some p \<Rightarrow> p));
          tokenPrices = (case config of
                           None \<Rightarrow> []
                         | Some c \<Rightarrow> (case tokenPricesUsd c of None \<Rightarrow> [] | Some m \<Rightarrow> m))
      in case BigInt (case tx_value (ctx_transaction ctx) of None \<Rightarrow> ''0'' | Some v \<Rightarrow> v) of
           Inl e \<Rightarrow> (Some e, ctx)
         | Inr weiValue \<Rightarrow>
             let est0 = (if 0 < weiValue then js_add 0 (usdOf weiValue ethPrice) else 0) in
             case ctx_decoded ctx of
               None \<Rightarrow> next (ctx\<lparr>ctx_metadata_estimatedValueUsd := Some est0\<rparr>)
             | Some decoded \<Rightarrow>
                 let est = tokenValue tokenPrices (toLowerCase (tx_to (ctx_transaction ctx))) decoded est0
                 in next (ctx\<lparr>ctx_decoded := Some (decoded\<lparr>estimatedValueUsd := est\<rparr>),
                              ctx_metadata_estimatedValueUsd := Some est\<rparr>))"

subsection \<open>Stages 4 and 5 without an intelligence provider\<close>

text \<open>
  \<^verbatim>\<open>createAddressChecker()\<close> and \<^verbatim>\<open>createContractChecker()\<close>, as the shield calls them
  when no intelligence is configured: the address checker compares the target with the
  lists of the policy and adds its score to the transaction score, the contract
  checker passes the context on.
\<close>

definition normalizeAddress :: "string \<Rightarrow> string" where
  "normalizeAddress address =
     (if startsWith (toLowerCase address) ''0x'' then toLowerCase address
      else ''0x'' @ toLowerCase address)"

definition addressScoreOf :: "SecurityReason list \<Rightarrow> number" where
  "addressScoreOf addressReasons =
     foldl (\<lambda>score r. case severity r of
                          Critical \<Rightarrow> js_add score 50
                        | High \<Rightarrow> js_add score 25
                        | Medium \<Rightarrow> js_add score 15
                        | Low \<Rightarrow> js_add score 5
                        | Info \<Rightarrow> score) 0 addressReasons"

definition createAddressChecker :: middleware where
  "createAddressChecker ctx next =
     (if tx_to (ctx_transaction ctx) = [] then
        next (push [\<lparr>code = ''CONTRACT_CREATION'', severity = Medium, source = SrcAddress\<rparr>] ctx)
      else
        let target = normalizeAddress (tx_to (ctx_transaction ctx));
            isDenied = list_ex (\<lambda>addr. normalizeAddress addr = target)
                         (deny_addresses (denylists (ctx_policy ctx)));
            ctx1 = (if isDenied
                    then push [\<lparr>code = ''DENYLISTED_ADDRESS'', severity = Critical, source = SrcAddress\<rparr>] ctx
                    else ctx);
            isAllowed = (list_ex (\<lambda>addr. normalizeAddress addr = target)
                           (allow_addresses (allowlists (ctx_policy ctx)))
                         \<or> list_ex (\<lambda>addr. normalizeAddress addr = target)
                              (allow_contracts (allowlists (ctx_policy ctx))));
            addressReasons = filter (\<lambda>r. source r = SrcAddress) (ctx_reasons ctx1);
            addressScore = (if isDenied then 100 else if isAllowed then 0
                            else addressScoreOf addressReasons);
            before = (case rs_transaction (ctx_riskScores ctx1) of None \<Rightarrow> 0 | Some v \<Rightarrow> v)
        in next (ctx1\<lparr>ctx_riskScores :=
                   (ctx_riskScores ctx1)\<lparr>rs_transaction :=
                      Some (Math_min 100 (js_add before addressScore))\<rparr>\<rparr>))"

definition createContractChecker :: middleware where
  "createContractChecker ctx next = next ctx"

subsection \<open>Stage 8: the risk aggregator\<close>

definition minValueOr0 :: "SecurityTierConfig \<Rightarrow> number" where
  "minValueOr0 tier = (case minValueAtRiskUsd (triggers tier) of None \<Rightarrow> 0 | Some m \<Rightarrow> m)"

text \<open>
  \<^verbatim>\<open>[...policy.tiers].sort((a, b) => (b.min ?? 0) - (a.min ?? 0))\<close>: the tiers by
  descending minimum; the sort is stable, as \<^verbatim>\<open>Array.prototype.sort\<close> is.
\<close>

definition sortedTiers :: "SecurityPolicy \<Rightarrow> SecurityTierConfig list" where
  "sortedTiers policy = sort_key (\<lambda>tier. - minValueOr0 tier) (tiers policy)"

text \<open>
  The three tests of the loop body; the tier is returned when one of them holds. A
  missing maximum is \<^verbatim>\<open>Infinity\<close> in the source, which every finite estimate is below.
\<close>

definition addressTrigger :: "string \<Rightarrow> SecurityTierConfig \<Rightarrow> bool" where
  "addressTrigger targetAddress tier =
     (case targetAddresses (triggers tier) of
        None \<Rightarrow> False
      | Some as \<Rightarrow> targetAddress \<noteq> [] \<and>
                    list_ex (\<lambda>a. toLowerCase a = toLowerCase targetAddress) as)"

definition signatureTrigger :: "string option \<Rightarrow> SecurityTierConfig \<Rightarrow> bool" where
  "signatureTrigger functionSignature tier =
     (case functionSignatures (triggers tier) of
        None \<Rightarrow> False
      | Some sigs \<Rightarrow>
          (case functionSignature of
             None \<Rightarrow> False
           | Some f \<Rightarrow> f \<noteq> [] \<and> f \<in> set sigs))"

definition valueTrigger :: "number \<Rightarrow> SecurityTierConfig \<Rightarrow> bool" where
  "valueTrigger valueUsd tier =
     (minValueOr0 tier \<le> valueUsd \<and>
      (case maxValueAtRiskUsd (triggers tier) of
         None \<Rightarrow> True
       | Some maxValue \<Rightarrow> valueUsd < maxValue))"

definition determineTier ::
  "SecurityPolicy \<Rightarrow> number \<Rightarrow> string \<Rightarrow> string option \<Rightarrow> SecurityTierConfig option" where
  "determineTier policy valueUsd targetAddress functionSignature =
     (case find (\<lambda>tier. addressTrigger targetAddress tier
                        \<or> signatureTrigger functionSignature tier
                        \<or> valueTrigger valueUsd tier) (sortedTiers policy) of
        Some tier \<Rightarrow> Some tier
      | None \<Rightarrow> if sortedTiers policy = [] then None else Some (last (sortedTiers policy)))"

definition orZero :: "number option \<Rightarrow> number" where
  "orZero x = (case x of None \<Rightarrow> 0 | Some v \<Rightarrow> v)"

text \<open>
  \<^verbatim>\<open>context * 0.40 + transaction * 0.35 + behavioral * 0.25\<close> as the source evaluates
  it: each product and each sum is rounded to a double, from left to right.
\<close>

definition weightedSum :: "number \<Rightarrow> number \<Rightarrow> number \<Rightarrow> number" where
  "weightedSum c t b =
     js_add (js_add (js_mul c (literal (40/100))) (js_mul t (literal (35/100))))
            (js_mul b (literal (25/100)))"

definition aggregate :: "PartialRiskScore \<Rightarrow> RiskScore" where
  "aggregate riskScores =
     (let c = orZero (rs_context riskScores);
          t = orZero (rs_transaction riskScores);
          b = orZero (rs_behavioral riskScores);
          weighted = Math_round (weightedSum c t b);
          clamped = Math_max 0 (Math_min 100 weighted);
          composite = (if 90 \<le> c \<or> 90 \<le> t \<or> 90 \<le> b then Math_max clamped 80 else clamped)
      in \<lparr>risk_context = c, risk_transaction = t, risk_behavioral = b, risk_composite = composite\<rparr>)"

definition riskAggregator :: middleware where
  "riskAggregator ctx next =
     (let scores = aggregate (ctx_riskScores ctx);
          ctx1 = ctx\<lparr>ctx_riskScores :=
                   \<lparr>rs_context = Some (risk_context scores),
                    rs_transaction = Some (risk_transaction scores),
                    rs_behavioral = Some (risk_behavioral scores),
                    rs_composite = Some (risk_composite scores)\<rparr>\<rparr>;
          estimatedValue = (case ctx_decoded ctx1 of None \<Rightarrow> 0 | Some d \<Rightarrow> estimatedValueUsd d);
          tier = determineTier (ctx_policy ctx1) estimatedValue (tx_to (ctx_transaction ctx1))
                   (case ctx_decoded ctx1 of None \<Rightarrow> None | Some d \<Rightarrow> functionName d)
      in next (case tier of None \<Rightarrow> ctx1 | Some t \<Rightarrow> ctx1\<lparr>ctx_tier := Some t\<rparr>))"

subsection \<open>Stage 9: the policy engine\<close>

text \<open>The decision and the required action of the \<^verbatim>\<open>switch\<close> on the enforcement mode.\<close>

definition modeDecision ::
  "Enforcement \<Rightarrow> number \<Rightarrow> decision \<times> requiredAction \<times> number option" where
  "modeDecision enf compositeScore =
     (case mode enf of
        Audit \<Rightarrow> (Approve, ActionNone, None)
      | Copilot \<Rightarrow> (if 50 < compositeScore then (Advise, ActionNone, None) else (Approve, ActionNone, None))
      | Guardian \<Rightarrow>
          if blockThreshold enf \<le> compositeScore then (Block, HumanApproval, None)
          else if js_mul (blockThreshold enf) (literal (6/10)) \<le> compositeScore then (Advise, ActionNone, None)
          else (Approve, ActionNone, None)
      | Fortress \<Rightarrow>
          (case timeLockSeconds enf of
             None \<Rightarrow> (Block, HumanApproval, None)
           | Some secs \<Rightarrow> if secs \<noteq> 0 then (Block, Delay, Some secs)
                           else (Block, HumanApproval, None)))"

definition tierDecision ::
  "SecurityTierConfig option \<Rightarrow> number \<Rightarrow> SecurityReason list
     \<Rightarrow> decision \<times> requiredAction \<times> number option" where
  "tierDecision tier compositeScore rs =
     (case tier of
        None \<Rightarrow> (if 70 < compositeScore then (Block, ActionNone, None)
                   else if 30 < compositeScore then (Advise, ActionNone, None)
                   else (Approve, ActionNone, None))
      | Some t \<Rightarrow>
          let enf = enforcement t;
              (d0, a0, delay) = modeDecision enf compositeScore;
              hasCritical = list_ex (\<lambda>r. severity r = Critical) rs;
              (d1, a1) = (if hasCritical \<and> mode enf \<noteq> Audit then (Block, HumanApproval) else (d0, a0));
              hasHighContext = list_ex (\<lambda>r. source r = SrcContext \<and>
                                              (severity r = High \<or> severity r = Critical)) rs;
              d2 = (if hasHighContext \<and> d1 = Approve \<and> mode enf \<noteq> Audit then Advise else d1)
          in (d2, a1, delay))"

definition blockSuggestions :: "SecurityReason list \<Rightarrow> string list" where
  "blockSuggestions rs =
     (if list_ex (\<lambda>r. code r = ''INFINITE_APPROVAL'') rs
      then [''Use a specific approval amount instead of infinite approval''] else [])
     @ (if list_ex (\<lambda>r. code r = ''DENYLISTED_ADDRESS'') rs
        then [''Verify the target address - it appears on known threat lists''] else [])
     @ (if list_ex (\<lambda>r. source r = SrcContext) rs
        then [''Review the conversation context for potential prompt injection''] else [])
     @ (if list_ex (\<lambda>r. code r = ''NEW_ADDRESS'') rs
        then [''The target address is very new - consider waiting or verifying through an independent channel'']
        else [])"

definition policyEngine :: "Env \<Rightarrow> middleware" where
  "policyEngine env ctx next =
     (let scores = \<lparr>risk_context = orZero (rs_context (ctx_riskScores ctx)),
                    risk_transaction = orZero (rs_transaction (ctx_riskScores ctx)),
                    risk_behavioral = orZero (rs_behavioral (ctx_riskScores ctx)),
                    risk_composite = orZero (rs_composite (ctx_riskScores ctx))\<rparr>;
          tier = ctx_tier ctx;
          (decision0, action0, delay) = tierDecision tier (risk_composite scores) (ctx_reasons ctx)
      in case BigInt (case tx_value (ctx_transaction ctx) of None \<Rightarrow> ''0'' | Some v \<Rightarrow> v) of
           Inl e \<Rightarrow> (Some e, ctx)
         | Inr txValue \<Rightarrow>
             (case BigInt (maxTransactionValueWei (limits (ctx_policy ctx))) of
                Inl e \<Rightarrow> (Some e, ctx)
              | Inr maxValue \<Rightarrow>
                  let exceeds = (maxValue < txValue);
                      decision1 = (if exceeds then Block else decision0);
                      action1 = (if exceeds then HumanApproval else action0);
                      ctx1 = (if exceeds
                              then ctx\<lparr>ctx_reasons := ctx_reasons ctx @
                                     [\<lparr>code = ''EXCEEDS_TX_LIMIT'', severity = High, source = SrcPolicy\<rparr>]\<rparr>
                              else ctx);
                      verdict = \<lparr>decision = decision1,
                                 riskScore = scores,
                                 reasons = ctx_reasons ctx1,
                                 suggestions = (if decision1 = Block then blockSuggestions (ctx_reasons ctx1)
                                                else []),
                                 requiredAction = Some action1,
                                 delaySeconds = delay,
                                 timestamp = toISOString env,
                                 evaluationId = randomUUID env,
                                 tierId = (case tier of None \<Rightarrow> ''unknown'' | Some t \<Rightarrow> tier_id t)\<rparr>
                  in (None, ctx1\<lparr>ctx_metadata_verdict := Some verdict\<rparr>)))"

subsection \<open>The shield (shield.ts)\<close>

text \<open>
  The configuration: the initial policy, whether an intelligence provider is configured,
  and the operator's callbacks. A callback either returns (\<open>None\<close>) or throws.
\<close>

record WardexConfig =
  config_policy :: SecurityPolicy
  intelligence :: bool
  onBlock :: "(SecurityVerdict \<Rightarrow> error option) option"
  onAdvisory :: "(SecurityVerdict \<Rightarrow> error option) option"
  onFreeze :: "(string \<Rightarrow> error option) option"
  onThreat :: "(string \<Rightarrow> error option) option"

text \<open>
  The variables of the closure of \<^verbatim>\<open>createShield\<close>, and the tracker in the closure of
  the context analyzer that the shield creates.
\<close>

record Shield =
  policy :: SecurityPolicy
  frozen :: bool
  freezeReason :: string
  evaluationCount :: nat
  blockCount :: nat
  advisoryCount :: nat
  dailyVolumeWei :: int
  dailyVolumeResetDate :: string
  signerHealthy :: bool
  lastSignerCheck :: number
  intelligenceLastUpdated :: "string option"
  auditLog :: "AuditEntry list"
  customMiddlewares :: "middleware list"
  escalationTracker :: "(number \<times> int) list"

definition digitChar :: "nat \<Rightarrow> char" where
  "digitChar d = ''0123456789abcdefghijklmnopqrstuvwxyz'' ! d"

text \<open>
  \<^verbatim>\<open>n.toString(radix)\<close> for an integer and a radix from 2 to 36: the digits of the
  magnitude, after a minus sign when the number is negative.
\<close>

function toStringRadix :: "int \<Rightarrow> int \<Rightarrow> string" where
  "toStringRadix radix n =
     (if n < 0 then CHR ''-'' # toStringRadix radix (- n)
      else if n < radix \<or> radix < 2 then [digitChar (nat n)]
      else toStringRadix radix (n div radix) @ [digitChar (nat (n mod radix))])"
  by pat_completeness auto
termination
  by (relation "measure (\<lambda>(radix, n). if n < 0 then Suc (nat (- n)) else nat n)")
     (auto simp: pos_imp_zdiv_neg_iff intro!: int_div_less_self)

definition createShield :: "WardexConfig \<Rightarrow> Env \<Rightarrow> Shield" where
  "createShield config env =
     \<lparr>policy = config_policy config, frozen = False, freezeReason = [],
      evaluationCount = 0, blockCount = 0, advisoryCount = 0, dailyVolumeWei = 0,
      dailyVolumeResetDate = toDateString env, signerHealthy = True, lastSignerCheck = 0,
      intelligenceLastUpdated = None, auditLog = [], customMiddlewares = [],
      escalationTracker = []\<rparr>"

text \<open>The array that \<^verbatim>\<open>buildPipeline\<close> composes.\<close>

definition stages :: "Env \<Rightarrow> Shield \<Rightarrow> middleware list" where
  "stages env sh =
     [contextAnalyzer env,
      transactionDecoder,
      createValueAssessor None,
      addressChecker env,
      contractChecker env,
      behavioralComparator env]
     @ customMiddlewares sh
     @ [riskAggregator,
        policyEngine env]"

definition buildPipeline :: "Env \<Rightarrow> Shield \<Rightarrow> middleware" where
  "buildPipeline env sh = compose (stages env sh)"

definition checkDailyReset :: "Env \<Rightarrow> Shield \<Rightarrow> Shield" where
  "checkDailyReset env sh =
     (if toDateString env \<noteq> dailyVolumeResetDate sh
      then sh\<lparr>dailyVolumeWei := 0, dailyVolumeResetDate := toDateString env\<rparr>
      else sh)"

definition recordAudit ::
  "Shield \<Rightarrow> TransactionRequest \<Rightarrow> SecurityVerdict \<Rightarrow> ConversationContext option
     \<Rightarrow> bool option \<Rightarrow> Shield" where
  "recordAudit sh tx verdict conversation executedFlag =
     (let entry = \<lparr>entry_evaluationId = evaluationId verdict,
                    entry_timestamp = timestamp verdict,
                    entry_transaction = tx,
                    entry_verdict = verdict,
                    contextSummary =
                      (case conversation of
                         None \<Rightarrow> None
                       | Some c \<Rightarrow> Some (toStringRadix 10 (int (length (messages c))) @ '' messages, source: ''
                                         @ source_identifier (cc_source c))),
                    executed = (case executedFlag of
                                  Some b \<Rightarrow> b
                                | None \<Rightarrow> decision verdict = Approve)\<rparr>;
          pushed = auditLog sh @ [entry]
      in sh\<lparr>auditLog := (if 10000 < length pushed then drop (length pushed - 10000) pushed
                           else pushed)\<rparr>)"

definition frozenVerdict :: "Env \<Rightarrow> SecurityVerdict" where
  "frozenVerdict env =
     \<lparr>decision = Freeze,
      riskScore = \<lparr>risk_context = 0, risk_transaction = 0, risk_behavioral = 0, risk_composite = 100\<rparr>,
      reasons = [\<lparr>code = ''SYSTEM_FROZEN'', severity = Critical, source = SrcPolicy\<rparr>],
      suggestions = [''Contact operator to unfreeze the system''],
      requiredAction = Some HumanApproval,
      delaySeconds = None,
      timestamp = toISOString env,
      evaluationId = randomUUID env,
      tierId = ''frozen''\<rparr>"

definition fallbackVerdict :: "Env \<Rightarrow> SecurityVerdict" where
  "fallbackVerdict env =
     \<lparr>decision = Block,
      riskScore = \<lparr>risk_context = 0, risk_transaction = 0, risk_behavioral = 0, risk_composite = 50\<rparr>,
      reasons = [\<lparr>code = ''PIPELINE_ERROR'', severity = High, source = SrcPolicy\<rparr>],
      suggestions = [''Check Wardex configuration''],
      requiredAction = None,
      delaySeconds = None,
      timestamp = toISOString env,
      evaluationId = randomUUID env,
      tierId = ''error''\<rparr>"

definition callHandler :: "('a \<Rightarrow> error option) option \<Rightarrow> 'a \<Rightarrow> error option" where
  "callHandler handler event = (case handler of None \<Rightarrow> None | Some h \<Rightarrow> h event)"

definition isBlocking :: "decision \<Rightarrow> bool" where
  "isBlocking d = (d = Block \<or> d = Freeze)"

text \<open>The block \<^verbatim>\<open>// Update counters\<close>.\<close>

definition updateCounters :: "WardexConfig \<Rightarrow> SecurityVerdict \<Rightarrow> Shield \<Rightarrow> error option \<times> Shield" where
  "updateCounters config verdict sh =
     (if isBlocking (decision verdict) then
        (callHandler (onBlock config) verdict, sh\<lparr>blockCount := blockCount sh + 1\<rparr>)
      else if decision verdict = Advise then
        (callHandler (onAdvisory config) verdict, sh\<lparr>advisoryCount := advisoryCount sh + 1\<rparr>)
      else (None, sh))"

text \<open>The block \<^verbatim>\<open>// Track daily volume for approved transactions\<close>.\<close>

definition trackDailyVolume ::
  "TransactionRequest \<Rightarrow> SecurityVerdict \<Rightarrow> Shield \<Rightarrow> error option \<times> SecurityVerdict \<times> Shield" where
  "trackDailyVolume tx verdict sh =
     (if decision verdict = Approve then
        (case BigInt (case tx_value tx of None \<Rightarrow> ''0'' | Some v \<Rightarrow> v) of
           Inl e \<Rightarrow> (Some e, verdict, sh)
         | Inr wei \<Rightarrow>
             let sh1 = sh\<lparr>dailyVolumeWei := dailyVolumeWei sh + wei\<rparr> in
             (case BigInt (maxDailyVolumeWei (limits (policy sh1))) of
                Inl e \<Rightarrow> (Some e, verdict, sh1)
              | Inr maxDaily \<Rightarrow>
                  if maxDaily < dailyVolumeWei sh1 then
                    (None,
                     verdict\<lparr>decision := Block,
                             requiredAction := Some HumanApproval,
                             reasons := reasons verdict @
                               [\<lparr>code = ''DAILY_VOLUME_EXCEEDED'', severity = High, source = SrcPolicy\<rparr>]\<rparr>,
                     sh1\<lparr>blockCount := blockCount sh1 + 1\<rparr>)
                  else (None, verdict, sh1)))
      else (None, verdict, sh))"

text \<open>The block \<^verbatim>\<open>// Auto-freeze on multiple consecutive blocks\<close>.\<close>

definition autoFreeze :: "WardexConfig \<Rightarrow> SecurityVerdict \<Rightarrow> Shield \<Rightarrow> error option \<times> Shield" where
  "autoFreeze config verdict sh =
     (if isBlocking (decision verdict) then
        let recentEntries = sliceLast 10 (auditLog sh);
            recentBlocks = filter (\<lambda>e. isBlocking (decision (entry_verdict e))) recentEntries
        in if 5 \<le> length recentBlocks then
             let reason = ''Auto-freeze: '' @ toStringRadix 10 (int (length recentBlocks))
                          @ '' blocked transactions in last ''
                          @ toStringRadix 10 (int (length recentEntries)) @ '' evaluations'';
                 sh1 = sh\<lparr>frozen := True, freezeReason := reason\<rparr>
             in case callHandler (onFreeze config) reason of
                  Some e \<Rightarrow> (Some e, sh1)
                | None \<Rightarrow> (callHandler (onThreat config) reason, sh1)
           else (None, sh)
      else (None, sh))"

text \<open>The state in which the composed pipeline is started on a fresh context.\<close>

definition startState :: "MiddlewareContext \<Rightarrow> (number \<times> int) list \<Rightarrow> PipelineState" where
  "startState c tracker =
     \<lparr>ctx_transaction = ctx_transaction c,
      ctx_conversationContext = ctx_conversationContext c,
      ctx_riskScores = ctx_riskScores c,
      ctx_reasons = ctx_reasons c,
      ctx_policy = ctx_policy c,
      ctx_tier = ctx_tier c,
      ctx_decoded = ctx_decoded c,
      ctx_metadata_verdict = ctx_metadata_verdict c,
      ctx_metadata_estimatedValueUsd = ctx_metadata_estimatedValueUsd c,
      index = - 1,
      recentTransactionValues = tracker\<rparr>"

text \<open>
  \<^verbatim>\<open>evaluateInternal(tx, context)\<close>: the verdict returned or the exception thrown to the
  caller, and the shield as the call leaves it. The function is written in four parts:
  the statements before the pipeline, the run of the pipeline on a fresh context, the
  statements after a verdict has been extracted, and the function itself.
\<close>

definition beginEvaluation :: "WardexConfig \<Rightarrow> Env \<Rightarrow> Shield \<Rightarrow> Shield" where
  "beginEvaluation config env sh =
     (let sh1 = checkDailyReset env sh;
          sh2 = sh1\<lparr>evaluationCount := evaluationCount sh1 + 1\<rparr>
      in if intelligence config
         then sh2\<lparr>intelligenceLastUpdated := Some (toISOString env)\<rparr> else sh2)"

definition noop :: continuation where
  "noop s = (None, s)"

definition runPipeline ::
  "Env \<Rightarrow> Shield \<Rightarrow> TransactionRequest \<Rightarrow> ConversationContext option \<Rightarrow> completion" where
  "runPipeline env sh tx conversation =
     buildPipeline env sh
       (startState (createMiddlewareContext (Some tx) conversation (Some (policy sh)))
          (escalationTracker sh))
       noop"

definition settle ::
  "WardexConfig \<Rightarrow> TransactionRequest \<Rightarrow> ConversationContext option \<Rightarrow> SecurityVerdict
     \<Rightarrow> Shield \<Rightarrow> (error + SecurityVerdict) \<times> Shield" where
  "settle config tx conversation verdict sh =
     (case updateCounters config verdict sh of
        (Some e, sh1) \<Rightarrow> (Inl e, sh1)
      | (None, sh1) \<Rightarrow>
          (case trackDailyVolume tx verdict sh1 of
             (Some e, verdict1, sh2) \<Rightarrow> (Inl e, sh2)
           | (None, verdict1, sh2) \<Rightarrow>
               (case autoFreeze config verdict1 (recordAudit sh2 tx verdict1 conversation None) of
                  (Some e, sh3) \<Rightarrow> (Inl e, sh3)
                | (None, sh3) \<Rightarrow> (Inr verdict1, sh3))))"

definition evaluateInternal ::
  "WardexConfig \<Rightarrow> Env \<Rightarrow> Shield \<Rightarrow> TransactionRequest \<Rightarrow> ConversationContext option
     \<Rightarrow> (error + SecurityVerdict) \<times> Shield" where
  "evaluateInternal config env sh tx conversation =
     (if frozen sh then
        (Inr (frozenVerdict env), recordAudit sh tx (frozenVerdict env) conversation (Some False))
      else
        let sh1 = beginEvaluation config env sh;
            (thrown, final) = runPipeline env sh1 tx conversation;
            sh2 = sh1\<lparr>escalationTracker := recentTransactionValues final\<rparr>
        in case thrown of
             Some e \<Rightarrow> (Inl e, sh2)
           | None \<Rightarrow>
               (case ctx_metadata_verdict final of
                  None \<Rightarrow>
                    (Inr (fallbackVerdict env),
                     recordAudit sh2 tx (fallbackVerdict env) conversation (Some False))
                | Some verdict \<Rightarrow> settle config tx conversation verdict sh2))"

definition evaluate ::
  "WardexConfig \<Rightarrow> Env \<Rightarrow> Shield \<Rightarrow> TransactionRequest \<Rightarrow> (error + SecurityVerdict) \<times> Shield" where
  "evaluate config env sh tx = evaluateInternal config env sh tx None"

definition evaluateWithContext ::
  "WardexConfig \<Rightarrow> Env \<Rightarrow> Shield \<Rightarrow> TransactionRequest \<Rightarrow> ConversationContext
     \<Rightarrow> (error + SecurityVerdict) \<times> Shield" where
  "evaluateWithContext config env sh tx conversation =
     evaluateInternal config env sh tx (Some conversation)"

text \<open>
  Modelled from the spec: \<^verbatim>\<open>mergePolicy\<close> of \<^verbatim>\<open>policy.ts\<close>, which \<^verbatim>\<open>updatePolicy\<close> calls
  and which is not among the sources. The overrides are a partial policy; the merged
  policy takes each field from the overrides where it is present. The merged policy is
  validated: at least one tier is present, and at least one tier has the mode guardian
  or fortress; when the validation fails, an error is raised.
\<close>

record PolicyOverrides =
  over_tiers :: "SecurityTierConfig list option"
  over_allowlists :: "Allowlists option"
  over_denylists :: "Denylists option"
  over_limits :: "Limits option"
  over_behavioral :: "Behavioral option"
  over_contextAnalysis :: "ContextAnalysis option"

definition orElse :: "'a option \<Rightarrow> 'a \<Rightarrow> 'a" where
  "orElse x d = (case x of None \<Rightarrow> d | Some v \<Rightarrow> v)"

definition isBlockingTier :: "SecurityTierConfig \<Rightarrow> bool" where
  "isBlockingTier tier = (mode (enforcement tier) = Guardian \<or> mode (enforcement tier) = Fortress)"

definition mergePolicy :: "SecurityPolicy \<Rightarrow> PolicyOverrides \<Rightarrow> error + SecurityPolicy" where
  "mergePolicy base overrides =
     (let merged = \<lparr>tiers = orElse (over_tiers overrides) (tiers base),
                     allowlists = orElse (over_allowlists overrides) (allowlists base),
                     denylists = orElse (over_denylists overrides) (denylists base),
                     limits = orElse (over_limits overrides) (limits base),
                     policy_behavioral = orElse (over_behavioral overrides) (policy_behavioral base),
                     contextAnalysis = orElse (over_contextAnalysis overrides) (contextAnalysis base)\<rparr>
      in if tiers merged = [] then
           Inl (Error ''Policy must define at least one security tier'')
         else if \<not> list_ex isBlockingTier (tiers merged) then
           Inl (Error ''Policy must keep at least one blocking tier (guardian or fortress)'')
         else Inr merged)"

text \<open>\<^verbatim>\<open>updatePolicy(overrides) { policy = mergePolicy(policy, overrides); }\<close>\<close>

definition updatePolicy :: "Shield \<Rightarrow> PolicyOverrides \<Rightarrow> error option \<times> Shield" where
  "updatePolicy sh overrides =
     (case mergePolicy (policy sh) overrides of
        Inl e \<Rightarrow> (Some e, sh)
      | Inr merged \<Rightarrow> (None, sh\<lparr>policy := merged\<rparr>))"

definition getAuditLog :: "Shield \<Rightarrow> nat option \<Rightarrow> AuditEntry list" where
  "getAuditLog sh limit =
     (case limit of
        None \<Rightarrow> auditLog sh
      | Some n \<Rightarrow> if n \<noteq> 0 then sliceLast n (auditLog sh) else auditLog sh)"

definition use :: "Shield \<Rightarrow> middleware \<Rightarrow> Shield" where
  "use sh m = sh\<lparr>customMiddlewares := customMiddlewares sh @ [m]\<rparr>"

definition isFrozen :: "Shield \<Rightarrow> bool" where
  "isFrozen sh = frozen sh"

definition freeze :: "WardexConfig \<Rightarrow> Shield \<Rightarrow> string \<Rightarrow> error option \<times> Shield" where
  "freeze config sh reason =
     (callHandler (onFreeze config) reason, sh\<lparr>frozen := True, freezeReason := reason\<rparr>)"

definition unfreeze :: "Shield \<Rightarrow> Shield" where
  "unfreeze sh = sh\<lparr>frozen := False, freezeReason := []\<rparr>"

text \<open>The calls that a client makes on a shield, and a run of a sequence of calls.\<close>

datatype call =
    Evaluate Env TransactionRequest "ConversationContext option"
  | UpdatePolicy PolicyOverrides
  | Use middleware
  | FreezeCall string
  | Unfreeze

datatype response = Verdict SecurityVerdict | Thrown error | Done

definition perform :: "WardexConfig \<Rightarrow> Shield \<Rightarrow> call \<Rightarrow> response \<times> Shield" where
  "perform config sh c =
     (case c of
        Evaluate env tx conversation \<Rightarrow>
          (case evaluateInternal config env sh tx conversation of
             (Inr v, sh') \<Rightarrow> (Verdict v, sh')
           | (Inl e, sh') \<Rightarrow> (Thrown e, sh'))
      | UpdatePolicy overrides \<Rightarrow>
          (case updatePolicy sh overrides of
             (Some e, sh') \<Rightarrow> (Thrown e, sh')
           | (None, sh') \<Rightarrow> (Done, sh'))
      | Use m \<Rightarrow> (Done, use sh m)
      | FreezeCall reason \<Rightarrow>
          (case freeze config sh reason of
             (Some e, sh') \<Rightarrow> (Thrown e, sh')
           | (None, sh') \<Rightarrow> (Done, sh'))
      | Unfreeze \<Rightarrow> (Done, unfreeze sh))"

fun performAll :: "WardexConfig \<Rightarrow> Shield \<Rightarrow> call list \<Rightarrow> response list \<times> Shield" where
  "performAll config sh [] = ([], sh)"
| "performAll config sh (c # cs) =
     (let (r, sh1) = perform config sh c;
          (rs, sh2) = performAll config sh1 cs
      in (r # rs, sh2))"

subsection \<open>Approval tokens (the isolated signer)\<close>

text \<open>
  HMAC-SHA256 comes from the runtime's \<^verbatim>\<open>crypto\<close> module and is a parameter \<open>hmac\<close> of
  the model: \<open>hmac key msg\<close> is the 256-bit tag as an integer. \<^verbatim>\<open>digest('hex')\<close> prints
  the 32 bytes as 64 lower-case hexadecimal digits. A time stamp is a non-negative
  integer number of milliseconds; below \<open>2^53\<close> a Number holds it exactly.
\<close>

definition padStart :: "nat \<Rightarrow> char \<Rightarrow> string \<Rightarrow> string" where
  "padStart n c s = replicate (n - length s) c @ s"

definition digestHex :: "int \<Rightarrow> string" where
  "digestHex tag = padStart 64 (CHR ''0'') (toStringRadix 16 (tag mod 2 ^ 256))"

definition generateApprovalToken ::
  "(string \<Rightarrow> string \<Rightarrow> int) \<Rightarrow> int \<Rightarrow> string \<Rightarrow> string \<Rightarrow> int option \<Rightarrow> string" where
  "generateApprovalToken hmac now transactionHash sharedSecret stamp =
     (let ts = (case stamp of None \<Rightarrow> now | Some t \<Rightarrow> t);
          mac = digestHex (hmac sharedSecret (transactionHash @ toStringRadix 10 ts));
          tsHex = padStart 16 (CHR ''0'') (toStringRadix 16 ts)
      in mac @ tsHex)"

definition APPROVAL_TOKEN_MAX_AGE_MS :: int where
  "APPROVAL_TOKEN_MAX_AGE_MS = 5 * 60 * 1000"

text \<open>
  \<^verbatim>\<open>parseInt(s, 16)\<close> on a string without sign, prefix or white space: the value of the
  longest prefix of hexadecimal digits, \<open>None\<close> (NaN) when there is none. (From \<open>2^53\<close> on
  the source's result is rounded to a double; such a time stamp lies after every
  \<^verbatim>\<open>Date.now()\<close>, and the age test rejects it with or without the rounding.)
\<close>

definition parseIntHex :: "string \<Rightarrow> int option" where
  "parseIntHex s = parseDigits 16 (takeWhile isHexChar s)"

text \<open>\<^verbatim>\<open>Buffer.from(s, 'hex')\<close>: one byte for each pair of digits, up to the first pair
  that is not hexadecimal.\<close>

fun bufferFromHex :: "string \<Rightarrow> nat list" where
  "bufferFromHex (a # b # rest) =
     (case (digitVal a, digitVal b) of
        (Some x, Some y) \<Rightarrow> (if x < 16 \<and> y < 16 then (16 * x + y) # bufferFromHex rest else [])
      | _ \<Rightarrow> [])"
| "bufferFromHex s = []"

definition timingSafeEqual :: "nat list \<Rightarrow> nat list \<Rightarrow> error + bool" where
  "timingSafeEqual a b =
     (if length a \<noteq> length b then Inl (RangeError ''Input buffers must have the same byte length'')
      else Inr (a = b))"

definition verifyApprovalToken ::
  "(string \<Rightarrow> string \<Rightarrow> int) \<Rightarrow> int \<Rightarrow> string \<Rightarrow> string \<Rightarrow> string \<Rightarrow> bool" where
  "verifyApprovalToken hmac now token transactionHash sharedSecret =
     (if \<not> (length token = 80 \<and> list_all isHexChar token) then False
      else
        let receivedMac = slice 0 64 token;
            tsHex = sliceFrom 64 token;
            stamp = parseIntHex tsHex;
            tooOld = (case stamp of
                        None \<Rightarrow> False
                      | Some t \<Rightarrow> APPROVAL_TOKEN_MAX_AGE_MS < now - t \<or> now - t < 0)
        in if tooOld then False
           else
             let expectedMac = digestHex (hmac sharedSecret
                                 (transactionHash @ (case stamp of
                                                       None \<Rightarrow> ''NaN''
                                                     | Some t \<Rightarrow> toStringRadix 10 t)))
             in case timingSafeEqual (bufferFromHex receivedMac) (bufferFromHex expectedMac) of
                  Inr equal \<Rightarrow> equal
                | Inl e \<Rightarrow> False)"

subsection \<open>Concrete inputs\<close>

text \<open>\<^verbatim>\<open>makeTier\<close> of the risk-tiering tests, with the two optional trigger lists.\<close>

definition makeTier ::
  "string \<Rightarrow> mode \<Rightarrow> number option \<Rightarrow> number option \<Rightarrow> string list option
     \<Rightarrow> string list option \<Rightarrow> SecurityTierConfig" where
  "makeTier ident m minUsd maxUsd addresses signatures =
     \<lparr>tier_id = ident,
      tier_name = ident,
      triggers = \<lparr>minValueAtRiskUsd = minUsd, maxValueAtRiskUsd = maxUsd,
                   targetAddresses = addresses, functionSignatures = signatures\<rparr>,
      enforcement = \<lparr>mode = m,
                      blockThreshold = (if m = Fortress then 30 else if m = Guardian then 70 else 100),
                      requireHumanApproval = (m = Fortress),
                      notifyOperator = (m = Guardian \<or> m = Fortress),
                      requireOnChainProof = (m = Fortress),
                      timeLockSeconds = (if m = Fortress then Some 900 else None)\<rparr>\<rparr>"

definition SPECIAL_ADDRESS :: string where
  "SPECIAL_ADDRESS = ''0x2222222222222222222222222222222222222222''"

definition LOW_VALUE_ADDRESS :: string where
  "LOW_VALUE_ADDRESS = ''0x1111111111111111111111111111111111111111''"

definition policyWith :: "SecurityTierConfig list \<Rightarrow> string \<Rightarrow> string \<Rightarrow> SecurityPolicy" where
  "policyWith ts maxTx maxDaily =
     emptyPolicy\<lparr>tiers := ts,
                 limits := \<lparr>maxTransactionValueWei = maxTx, maxDailyVolumeWei = maxDaily,
                            maxApprovalAmountWei = ''0'', maxGasPriceGwei = 100\<rparr>\<rparr>"

text \<open>
  The tiers of the test `should prioritize targetAddress trigger over value-based
  tiering', except that the tier of the special address sets no minimum value, as the
  protocol-specific tier of the tier documentation does.
\<close>

definition overrideTiers :: "SecurityTierConfig list" where
  "overrideTiers =
     [makeTier ''tier-audit'' Audit (Some 0) (Some 1000) None None,
      makeTier ''tier-guardian'' Guardian (Some 1000) None None None,
      makeTier ''tier-address-override'' Fortress None None (Some [SPECIAL_ADDRESS]) None]"

text \<open>
  A stage that passes the context on, and the environment of a shield without
  intelligence provider at a given time: the address checker and the contract checker
  are the ones above, the behavioral comparator (not among the sources) passes the
  context on, and no injection pattern matches.
\<close>

definition passThrough :: middleware where
  "passThrough ctx next = next ctx"

definition neverMatches :: "string \<Rightarrow> string \<Rightarrow> bool" where
  "neverMatches name text = False"

definition compiles :: "string \<Rightarrow> (string \<Rightarrow> bool) option" where
  "compiles p = Some (neverMatches p)"

definition envAt :: "int \<Rightarrow> Env" where
  "envAt now =
     \<lparr>Date_now = now,
      toISOString = ''2026-02-13T00:00:00.000Z'',
      toDateString = ''Fri Feb 13 2026'',
      randomUUID = ''00000000-0000-4000-8000-000000000000'',
      regexTest = neverMatches,
      newRegExp = compiles,
      addressChecker = createAddressChecker,
      contractChecker = createContractChecker,
      behavioralComparator = passThrough\<rparr>"

definition plainConfig :: "SecurityPolicy \<Rightarrow> WardexConfig" where
  "plainConfig p =
     \<lparr>config_policy = p, intelligence = False, onBlock = None, onAdvisory = None,
      onFreeze = None, onThreat = None\<rparr>"

definition transfer :: "string \<Rightarrow> string \<Rightarrow> TransactionRequest" where
  "transfer target wei = \<lparr>tx_to = target, tx_value = Some wei, tx_data = None, tx_chainId = 1\<rparr>"

text \<open>A fresh context that carries the given risk scores.\<close>

definition scoredContext :: "number option \<Rightarrow> number option \<Rightarrow> number option \<Rightarrow> PipelineState" where
  "scoredContext c t b =
     (startState (createMiddlewareContext None None None) [])
       \<lparr>ctx_riskScores := \<lparr>rs_context = c, rs_transaction = t, rs_behavioral = b, rs_composite = None\<rparr>\<rparr>"

text \<open>
  The first two tiers of the risk-tiering tests, and a context in which the given tier
  has been matched, for a transfer of the given value under the given limits.
\<close>

definition auditTier :: SecurityTierConfig where
  "auditTier = makeTier ''tier-audit'' Audit (Some 0) (Some 1000) None None"

definition guardianTier :: SecurityTierConfig where
  "guardianTier = makeTier ''tier-guardian'' Guardian (Some 1000) None None None"

definition auditGuardianTiers :: "SecurityTierConfig list" where
  "auditGuardianTiers = [auditTier, guardianTier]"

definition auditGuardianPolicy :: "string \<Rightarrow> string \<Rightarrow> SecurityPolicy" where
  "auditGuardianPolicy maxTx maxDaily = policyWith auditGuardianTiers maxTx maxDaily"

text \<open>The tier, the decision and the reason codes of a verdict.\<close>

definition summary :: "SecurityVerdict \<Rightarrow> string \<times> decision \<times> string list" where
  "summary v = (tierId v, decision v, map code (reasons v))"

definition outcome :: "(error + SecurityVerdict) \<times> Shield \<Rightarrow> error + string \<times> decision \<times> string list" where
  "outcome r = map_sum id summary (fst r)"

definition tieredContext ::
  "SecurityTierConfig \<Rightarrow> string \<Rightarrow> string \<Rightarrow> SecurityReason list \<Rightarrow> PipelineState" where
  "tieredContext tier wei maxTx rs =
     (startState (createMiddlewareContext (Some (transfer LOW_VALUE_ADDRESS wei)) None
                    (Some (auditGuardianPolicy maxTx maxTx))) [])
       \<lparr>ctx_tier := Some tier, ctx_reasons := rs\<rparr>"

definition denylisted :: SecurityReason where
  "denylisted = \<lparr>code = ''DENYLISTED_ADDRESS'', severity = Critical, source = SrcAddress\<rparr>"

subsection \<open>Notions used in the statements\<close>

text \<open>A stage that completes hands its state to the continuation; one that throws does not.\<close>

definition andThen :: "completion \<Rightarrow> continuation \<Rightarrow> completion" where
  "andThen r next = (case r of (None, s') \<Rightarrow> next s' | (Some e, s') \<Rightarrow> (Some e, s'))"

text \<open>No reason of the context has the code \<^verbatim>\<open>VALUE_ESCALATION\<close>.\<close>

definition quiet :: "PipelineState \<Rightarrow> bool" where
  "quiet s = list_all (\<lambda>r. code r \<noteq> ''VALUE_ESCALATION'') (ctx_reasons s)"

text \<open>
  What a stage leaves alone: the escalation tracker, the transaction and the verdict
  slot; and it adds no \<^verbatim>\<open>VALUE_ESCALATION\<close>.
\<close>

definition sameRun :: "PipelineState \<Rightarrow> PipelineState \<Rightarrow> bool" where
  "sameRun s s' = (recentTransactionValues s' = recentTransactionValues s
                   \<and> ctx_transaction s' = ctx_transaction s
                   \<and> ctx_metadata_verdict s' = ctx_metadata_verdict s
                   \<and> (quiet s \<longrightarrow> quiet s'))"

text \<open>
  A stage that does its work and then calls \<^verbatim>\<open>next\<close> as its last statement (or
  throws), and that leaves alone what \<open>sameRun\<close> lists and the variable of \<^verbatim>\<open>compose\<close>.
\<close>

definition tailStage :: "middleware \<Rightarrow> bool" where
  "tailStage m = (\<forall>s next. m s next = andThen (m s noop) next
                            \<and> sameRun s (snd (m s noop))
                            \<and> index (snd (m s noop)) = index s)"

text \<open>The decisions recorded in the audit log, oldest first.\<close>

definition decisions :: "Shield \<Rightarrow> decision list" where
  "decisions sh = map (\<lambda>e. decision (entry_verdict e)) (auditLog sh)"

text \<open>The stages between the context analyzer and the policy engine.\<close>

definition middleStages :: "Env \<Rightarrow> Shield \<Rightarrow> middleware list" where
  "middleStages env sh =
     [transactionDecoder, createValueAssessor None, addressChecker env, contractChecker env,
      behavioralComparator env] @ customMiddlewares sh @ [riskAggregator]"

text \<open>The verdict slot holds no verdict with a \<^verbatim>\<open>VALUE_ESCALATION\<close> reason.\<close>

definition silentVerdict :: "PipelineState \<Rightarrow> bool" where
  "silentVerdict s =
     (case ctx_metadata_verdict s of
        None \<Rightarrow> True
      | Some v \<Rightarrow> list_all (\<lambda>r. code r \<noteq> ''VALUE_ESCALATION'') (reasons v))"

text \<open>The reason codes of the verdict that an evaluation returns (none when it throws).\<close>

definition verdictCodes :: "(error + SecurityVerdict) \<times> Shield \<Rightarrow> string list" where
  "verdictCodes r = (case fst r of Inl e \<Rightarrow> [] | Inr v \<Rightarrow> map code (reasons v))"

text \<open>The verdict that the pipeline leaves in the context during an evaluation, if any.\<close>

definition pipelineVerdict ::
  "WardexConfig \<Rightarrow> Env \<Rightarrow> Shield \<Rightarrow> TransactionRequest \<Rightarrow> ConversationContext option
     \<Rightarrow> SecurityVerdict option" where
  "pipelineVerdict config env sh tx conversation =
     ctx_metadata_verdict (snd (runPipeline env (beginEvaluation config env sh) tx conversation))"

text \<open>How many of the ten most recent audit entries are blocks or freezes.\<close>

definition recentBlockCount :: "Shield \<Rightarrow> nat" where
  "recentBlockCount sh =
     length (filter (\<lambda>e. isBlocking (decision (entry_verdict e))) (sliceLast 10 (auditLog sh)))"

text \<open>The responses to the evaluations among the calls, in order.\<close>

fun evaluations :: "call list \<Rightarrow> response list \<Rightarrow> response list" where
  "evaluations (Evaluate env tx conversation # cs) (r # rs) = r # evaluations cs rs"
| "evaluations (c # cs) (r # rs) = evaluations cs rs"
| "evaluations cs rs = []"

definition isFreezeVerdict :: "response \<Rightarrow> bool" where
  "isFreezeVerdict r = (case r of Verdict v \<Rightarrow> decision v = Freeze | _ \<Rightarrow> False)"

text \<open>A custom middleware that returns without calling \<^verbatim>\<open>next\<close>.\<close>

definition swallow :: middleware where
  "swallow ctx next = (None, ctx)"

text \<open>The conversation and the two transfers of the escalation tests.\<close>

definition paymentConversation :: ConversationContext where
  "paymentConversation =
     \<lparr>messages = [\<lparr>role = RoleUser, content = ''Please transfer ETH for this payment flow.''\<rparr>],
      cc_source = \<lparr>source_type = TypeUser, source_identifier = ''direct'', trustLevel = TrustHigh\<rparr>,
      toolCallChain = None\<rparr>"

text \<open>What the statements after the pipeline leave alone.\<close>

definition kept :: "Shield \<Rightarrow> Shield \<Rightarrow> bool" where
  "kept sh sh' = (customMiddlewares sh' = customMiddlewares sh
                  \<and> escalationTracker sh' = escalationTracker sh
                  \<and> policy sh' = policy sh
                  \<and> (frozen sh \<longrightarrow> frozen sh'))"

text \<open>
  The shield of the escalation tests after its first evaluation: a transfer of 0.01 ETH
  at the time \<open>t0\<close>, evaluated with the payment conversation. The second transfer, of
  0.05 ETH, follows five minutes later.
\<close>

definition testConfig :: WardexConfig where
  "testConfig = plainConfig (auditGuardianPolicy ''1000000000000000000000'' ''1000000000000000000000'')"

definition afterFirstTransfer :: "int \<Rightarrow> Shield" where
  "afterFirstTransfer t0 =
     snd (evaluateWithContext testConfig (envAt t0) (createShield testConfig (envAt t0))
            (transfer LOW_VALUE_ADDRESS ''10000000000000000'') paymentConversation)"

definition secondTransfer :: "int \<Rightarrow> (error + SecurityVerdict) \<times> Shield" where
  "secondTransfer t0 =
     evaluateWithContext testConfig (envAt (t0 + 5 * 60 * 1000)) (afterFirstTransfer t0)
       (transfer LOW_VALUE_ADDRESS ''50000000000000000'') paymentConversation"

text \<open>A shield that the operator has frozen, and the overrides \<^verbatim>\<open>{ tiers: [] }\<close>.\<close>

definition frozenShield :: Shield where
  "frozenShield = snd (freeze testConfig (createShield testConfig (envAt 0)) ''manual freeze'')"

definition noOverrides :: PolicyOverrides where
  "noOverrides =
     \<lparr>over_tiers = None, over_allowlists = None, over_denylists = None, over_limits = None,
      over_behavioral = None, over_contextAnalysis = None\<rparr>"

definition noTiers :: PolicyOverrides where
  "noTiers = noOverrides\<lparr>over_tiers := Some []\<rparr>"

text \<open>The decision of the verdict that an evaluation returns (none when it throws).\<close>

definition returnedDecision :: "(error + SecurityVerdict) \<times> Shield \<Rightarrow> decision option" where
  "returnedDecision r = (case fst r of Inl e \<Rightarrow> None | Inr v \<Rightarrow> Some (decision v))"

text \<open>
  A shield with the custom middleware \<open>swallow\<close>, and five evaluations of a transfer of
  one wei on it.
\<close>

definition swallowedRun :: "response list \<times> Shield" where
  "swallowedRun =
     performAll testConfig (createShield testConfig (envAt 0))
       (Use swallow # replicate 5 (Evaluate (envAt 0) (transfer LOW_VALUE_ADDRESS ''1'') None))"

text \<open>
  A shield with a limit of 1000 wei for a transaction, whose audit log holds four
  blocked evaluations.
\<close>

definition limitedConfig :: WardexConfig where
  "limitedConfig = plainConfig (auditGuardianPolicy ''1000'' ''1000'')"

definition blockedEntry :: AuditEntry where
  "blockedEntry =
     \<lparr>entry_evaluationId = randomUUID (envAt 0),
      entry_timestamp = toISOString (envAt 0),
      entry_transaction = transfer LOW_VALUE_ADDRESS ''2000'',
      entry_verdict = fallbackVerdict (envAt 0),
      contextSummary = None,
      executed = False\<rparr>"

definition fourBlocks :: Shield where
  "fourBlocks =
     (createShield limitedConfig (envAt 0))
       \<lparr>evaluationCount := 4, blockCount := 4, auditLog := replicate 4 blockedEntry\<rparr>"

text \<open>
  An unlimited approval: \<^verbatim>\<open>approve(spender, 2^256 - 1)\<close> on a token contract, and the
  fresh context of its evaluation.
\<close>

definition infiniteApprove :: TransactionRequest where
  "infiniteApprove =
     \<lparr>tx_to = SPECIAL_ADDRESS,
      tx_value = None,
      tx_data = Some (''0x095ea7b3'' @ replicate 24 (CHR ''0'') @ drop 2 LOW_VALUE_ADDRESS
                      @ replicate 64 (CHR ''f'')),
      tx_chainId = 1\<rparr>"

definition approveContext :: PipelineState where
  "approveContext =
     startState (createMiddlewareContext (Some infiniteApprove) None (Some (config_policy testConfig))) []"

text \<open>
  A keyed tag for the concrete runs of the token functions; the statements about them
  hold for every function in the place of HMAC-SHA256.
\<close>

definition sampleMac :: "string \<Rightarrow> string \<Rightarrow> int" where
  "sampleMac key msg = foldl (\<lambda>acc c. (acc * 257 + int (of_char c)) mod 2 ^ 256) 7 (key @ msg)"

definition issuedAt :: int where
  "issuedAt = 1770940800000"

definition sampleToken :: string where
  "sampleToken = generateApprovalToken sampleMac issuedAt ''0xabc123'' ''shared-secret'' (Some issuedAt)"

text \<open>
  The unlimited approval with a value that is not an integer, and the shield with four
  recorded blocks and the custom middleware \<open>swallow\<close>.
\<close>

definition malformedApprove :: TransactionRequest where
  "malformedApprove = infiniteApprove\<lparr>tx_value := Some ''abc''\<rparr>"

definition malformedApproveContext :: PipelineState where
  "malformedApproveContext =
     startState (createMiddlewareContext (Some malformedApprove) None (Some (config_policy testConfig))) []"

definition swallowingShield :: Shield where
  "swallowingShield = use fourBlocks swallow"

section \<open>Properties\<close>

subsection \<open>The arithmetic of Numbers on known values\<close>

text \<open>
  The doubles of \<^verbatim>\<open>0.1\<close>, of \<^verbatim>\<open>0.1 + 0.2\<close> (0.30000000000000004) and of \<^verbatim>\<open>6 * 0.35\<close>
  (2.0999999999999996), the conversion of \<open>2^53 + 1\<close>, and \<^verbatim>\<open>Math.round\<close> at a tie.
\<close>

lemma double_arithmetic_examples:
  "literal (1/10) = 3602879701896397 / 2 ^ 55
   \<and> js_add (literal (1/10)) (literal (2/10)) = 1351079888211149 / 2 ^ 52
   \<and> js_mul 6 (literal (35/100)) = 1182194902184755 / 2 ^ 49
   \<and> Number (2 ^ 53 + 1) = 2 ^ 53
   \<and> Math_round (5/2) = 3 \<and> Math_round (- 5/2) = - 2"
  by code_simp

subsection \<open>C1: the composite risk score\<close>

text \<open>
  C1 says that for every evaluation the composite score equals
  \<^verbatim>\<open>round(0.40*context + 0.35*transaction + 0.25*behavioral)\<close>, clamped to \<open>[0, 100]\<close>.
  The risk aggregator computes the weighted sum in the arithmetic of Numbers, where
  each product and each sum is rounded to a double: for the scores 1, 6, 0 the sum is
  2.4999999999999996 and the composite is 2, where the formula gives 2.5 and 3. And the
  verdicts that the shield makes up without the pipeline, the one of a frozen shield
  and the one for a pipeline that ended without a verdict, carry the composites 100
  and 50 with all three components 0.
\<close>

theorem composite_differs_from_exact_formula:
  "rs_composite (ctx_riskScores (snd (riskAggregator (scoredContext (Some 1) (Some 6) (Some 0)) noop)))
     = Some 2
   \<and> Math_round (40/100 * 1 + 35/100 * 6 + 25/100 * 0) = 3
   \<and> riskScore (frozenVerdict (envAt 0))
       = \<lparr>risk_context = 0, risk_transaction = 0, risk_behavioral = 0, risk_composite = 100\<rparr>
   \<and> riskScore (fallbackVerdict (envAt 0))
       = \<lparr>risk_context = 0, risk_transaction = 0, risk_behavioral = 0, risk_composite = 50\<rparr>"
proof -
  have "rs_composite (ctx_riskScores (snd (riskAggregator (scoredContext (Some 1) (Some 6) (Some 0)) noop)))
          = Some 2"
    by code_simp
  moreover have "Math_round (40/100 * 1 + 35/100 * 6 + 25/100 * 0) = 3"
    by (simp add: Math_round_def)
  ultimately show ?thesis
    by (simp add: frozenVerdict_def fallbackVerdict_def)
qed

text \<open>
  C1, amended. In every evaluation the risk aggregator computes, from the finite
  component scores \<open>c\<close>, \<open>t\<close>, \<open>b\<close> (a missing one counts as 0), the weighted sum
  \<^verbatim>\<open>c * 0.40 + t * 0.35 + b * 0.25\<close> in double arithmetic, every product and every sum
  rounded to the nearest double from left to right; it rounds the sum to the nearest
  integer (a tie upwards), clamps it to \<open>[0, 100]\<close> and raises it to at least 80
  whenever a single component is at least 90. It stores the three components and this
  composite, which lies in \<open>[0, 100]\<close>, and the policy engine, the next stage of the
  pipeline, when it completes on that context, puts these four numbers into the verdict. (The verdicts of a frozen shield
  and of a pipeline without verdict carry fixed scores instead.)
\<close>

theorem riskAggregator_composite:
  assumes "c = orZero (rs_context (ctx_riskScores ctx))"
      and "t = orZero (rs_transaction (ctx_riskScores ctx))"
      and "b = orZero (rs_behavioral (ctx_riskScores ctx))"
      and "weighted = fl (fl (fl (c * fl (40/100)) + fl (t * fl (35/100))) + fl (b * fl (25/100)))"
      and "rounded = of_int \<lfloor>weighted + 1/2\<rfloor>"
      and "clamped = (if rounded < 0 then 0 else if 100 < rounded then 100 else rounded)"
      and "composite = (if 90 \<le> c \<or> 90 \<le> t \<or> 90 \<le> b then max 80 clamped else clamped)"
  shows "\<exists>ctx'. riskAggregator ctx next = next ctx'
           \<and> ctx_riskScores ctx'
               = \<lparr>rs_context = Some c, rs_transaction = Some t, rs_behavioral = Some b,
                  rs_composite = Some composite\<rparr>
           \<and> 0 \<le> composite \<and> composite \<le> 100
           \<and> (\<forall>i. fst (policyEngine env (ctx'\<lparr>index := i\<rparr>) noop) = None \<longrightarrow>
                 map_option riskScore
                   (ctx_metadata_verdict (snd (policyEngine env (ctx'\<lparr>index := i\<rparr>) noop)))
                   = Some \<lparr>risk_context = c, risk_transaction = t, risk_behavioral = b,
                           risk_composite = composite\<rparr>)"
proof -
  have w: "weightedSum c t b = weighted"
    by (simp add: weightedSum_def js_add_def js_mul_def literal_def assms(4))
  have r: "Math_round weighted = rounded"
    by (simp add: Math_round_def assms(5))
  define scores where "scores = aggregate (ctx_riskScores ctx)"
  have agg: "scores = \<lparr>risk_context = c, risk_transaction = t, risk_behavioral = b, risk_composite = composite\<rparr>"
    unfolding scores_def aggregate_def Let_def assms(1-3) [symmetric] w r
    by (simp add: Math_max_def Math_min_def assms(6,7) max_def)
  have range: "0 \<le> composite \<and> composite \<le> 100"
    using assms(6,7) by (auto simp: max_def)
  obtain ctx' where run: "riskAggregator ctx next = next ctx'"
    and stored: "ctx_riskScores ctx'
               = \<lparr>rs_context = Some c, rs_transaction = Some t, rs_behavioral = Some b,
                  rs_composite = Some composite\<rparr>"
    using agg by (auto simp: riskAggregator_def scores_def Let_def split: option.splits)
  have verdict: "\<forall>i. fst (policyEngine env (ctx'\<lparr>index := i\<rparr>) noop) = None \<longrightarrow>
                 map_option riskScore
                   (ctx_metadata_verdict (snd (policyEngine env (ctx'\<lparr>index := i\<rparr>) noop)))
                   = Some \<lparr>risk_context = c, risk_transaction = t, risk_behavioral = b,
                           risk_composite = composite\<rparr>"
    using stored
    by (auto simp: policyEngine_def Let_def orZero_def split: sum.splits prod.splits)
  show ?thesis
    using run stored range verdict by (intro exI [of _ ctx']) simp
qed

theorem riskAggregator_composite_witness:
  "rs_composite (ctx_riskScores (snd (riskAggregator (scoredContext (Some 50) (Some 40) (Some 20)) noop)))
     = Some 39
   \<and> rs_composite (ctx_riskScores (snd (riskAggregator (scoredContext (Some 95) None None) noop)))
       = Some 80"
proof -
  let ?ctx = "scoredContext (Some 50) (Some 40) (Some 20)"
  have c: "(50::number) = orZero (rs_context (ctx_riskScores ?ctx))"
    and t: "(40::number) = orZero (rs_transaction (ctx_riskScores ?ctx))"
    and b: "(20::number) = orZero (rs_behavioral (ctx_riskScores ?ctx))"
    by (simp_all add: scoredContext_def orZero_def)
  have w: "(39::number) = fl (fl (fl (50 * fl (40/100)) + fl (40 * fl (35/100))) + fl (20 * fl (25/100)))"
    by code_simp
  have r: "(39::number) = of_int \<lfloor>(39::number) + 1/2\<rfloor>"
    by code_simp
  have cl: "(39::number) = (if (39::number) < 0 then 0 else if 100 < (39::number) then 100 else 39)"
    by simp
  have cmp: "(39::number) = (if 90 \<le> (50::number) \<or> 90 \<le> (40::number) \<or> 90 \<le> (20::number)
                             then max 80 39 else 39)"
    by simp
  let ?hi = "scoredContext (Some 95) None None"
  have c2: "(95::number) = orZero (rs_context (ctx_riskScores ?hi))"
    and t2: "(0::number) = orZero (rs_transaction (ctx_riskScores ?hi))"
    and b2: "(0::number) = orZero (rs_behavioral (ctx_riskScores ?hi))"
    by (simp_all add: scoredContext_def orZero_def)
  have w2: "(38::number) = fl (fl (fl (95 * fl (40/100)) + fl (0 * fl (35/100))) + fl (0 * fl (25/100)))"
    by code_simp
  have r2: "(38::number) = of_int \<lfloor>(38::number) + 1/2\<rfloor>"
    by code_simp
  have cl2: "(38::number) = (if (38::number) < 0 then 0 else if 100 < (38::number) then 100 else 38)"
    by simp
  have cmp2: "(80::number) = (if 90 \<le> (95::number) \<or> 90 \<le> (0::number) \<or> 90 \<le> (0::number)
                              then max 80 38 else 38)"
    by simp
  from riskAggregator_composite [OF c t b w r cl cmp, of noop "envAt 0"]
  obtain x where x: "riskAggregator ?ctx noop = noop x" "rs_composite (ctx_riskScores x) = Some 39"
    by auto
  from riskAggregator_composite [OF c2 t2 b2 w2 r2 cl2 cmp2, of noop "envAt 0"]
  obtain y where y: "riskAggregator ?hi noop = noop y" "rs_composite (ctx_riskScores y) = Some 80"
    by auto
  from x y show ?thesis
    by (simp add: noop_def)
qed

subsection \<open>C2: tier resolution\<close>

text \<open>
  C2 says that a tier whose triggers list the target address has absolute precedence
  over every value-based match. \<open>determineTier\<close> walks the tiers by descending minimum
  and returns the first tier that matches in any of the three ways, so a value-based
  match of a tier that comes earlier in that order wins over the address trigger of a
  later one. Here the fortress tier that lists the special address sets no minimum: a
  transfer of 0.0001 ETH (0.35 USD) to that address is resolved to the audit tier.
\<close>

theorem determineTier_value_match_before_address_trigger:
  "list_ex (addressTrigger SPECIAL_ADDRESS) overrideTiers
   \<and> map tier_id (sortedTiers (policyWith overrideTiers ''0'' ''0''))
       = [''tier-guardian'', ''tier-audit'', ''tier-address-override'']
   \<and> map_option tier_id
        (determineTier (policyWith overrideTiers ''0'' ''0'')
           (usdOf 100000000000000 DEFAULT_ETH_PRICE_USD) SPECIAL_ADDRESS None)
       = Some ''tier-audit''"
  by code_simp

subsection \<open>C3: the audit mode\<close>

text \<open>
  C3 says that the verdict of a transaction in an audit tier is always approve,
  whatever the reasons, policy limits included. It is not: the global limit is checked
  after the mode, for every mode. A transfer of 2000 wei under a limit of 1000 wei per
  transaction falls into the audit tier and is blocked with \<^verbatim>\<open>EXCEEDS_TX_LIMIT\<close>.
\<close>

theorem audit_tier_blocks_over_limit:
  "tier_id auditTier = ''tier-audit''
   \<and> mode (enforcement auditTier) = Audit
   \<and> outcome (evaluate (plainConfig (auditGuardianPolicy ''1000'' ''1000'')) (envAt 0)
                 (createShield (plainConfig (auditGuardianPolicy ''1000'' ''1000'')) (envAt 0))
                 (transfer LOW_VALUE_ADDRESS ''2000''))
     = Inr (''tier-audit'', Block, [''EXCEEDS_TX_LIMIT''])"
  by code_simp

text \<open>
  C3, amended. When the matched tier has the mode audit, the policy engine decides
  approve whatever reasons have accumulated (critical findings included), unless the
  value of the transaction exceeds \<^verbatim>\<open>limits.maxTransactionValueWei\<close>, in which case it
  decides block; the shield then turns an approve into a block when the volume of the
  day, this transaction included, exceeds \<^verbatim>\<open>limits.maxDailyVolumeWei\<close>.
\<close>

theorem policyEngine_audit_tier:
  assumes "ctx_tier ctx = Some tier"
      and "mode (enforcement tier) = Audit"
      and "BigInt (case tx_value (ctx_transaction ctx) of None \<Rightarrow> ''0'' | Some v \<Rightarrow> v) = Inr txValue"
      and "BigInt (maxTransactionValueWei (limits (ctx_policy ctx))) = Inr maxValue"
      and "BigInt (maxDailyVolumeWei (limits (policy sh))) = Inr maxDaily"
  shows "\<exists>ctx' verdict verdict' sh'.
           policyEngine env ctx next = (None, ctx')
           \<and> ctx_metadata_verdict ctx' = Some verdict
           \<and> decision verdict = (if maxValue < txValue then Block else Approve)
           \<and> trackDailyVolume (ctx_transaction ctx) verdict sh = (None, verdict', sh')
           \<and> decision verdict' =
               (if maxValue < txValue \<or> maxDaily < dailyVolumeWei sh + txValue
                then Block else Approve)"
proof -
  have td: "tierDecision (Some tier) sc rs = (Approve, ActionNone, None)" for sc rs
    using assms(2) by (simp add: tierDecision_def modeDecision_def Let_def)
  show ?thesis
    using assms(1,3,4,5)
    by (auto simp: policyEngine_def td Let_def trackDailyVolume_def)
qed

theorem policyEngine_audit_tier_witness:
  "\<exists>ctx' verdict verdict' sh'.
     policyEngine (envAt 0) (tieredContext auditTier ''1'' ''10'' [denylisted]) noop = (None, ctx')
     \<and> ctx_metadata_verdict ctx' = Some verdict
     \<and> decision verdict = Approve
     \<and> trackDailyVolume (ctx_transaction (tieredContext auditTier ''1'' ''10'' [denylisted])) verdict
           (createShield (plainConfig (auditGuardianPolicy ''10'' ''10'')) (envAt 0))
         = (None, verdict', sh')
     \<and> decision verdict' = Approve"
proof -
  let ?ctx = "tieredContext auditTier ''1'' ''10'' [denylisted]"
  let ?sh = "createShield (plainConfig (auditGuardianPolicy ''10'' ''10'')) (envAt 0)"
  have a: "ctx_tier ?ctx = Some auditTier"
    by (simp add: tieredContext_def)
  have b: "mode (enforcement auditTier) = Audit"
    by (simp add: auditTier_def makeTier_def)
  have c: "BigInt (case tx_value (ctx_transaction ?ctx) of None \<Rightarrow> ''0'' | Some v \<Rightarrow> v) = Inr 1"
    by code_simp
  have d: "BigInt (maxTransactionValueWei (limits (ctx_policy ?ctx))) = Inr 10"
    by code_simp
  have e: "BigInt (maxDailyVolumeWei (limits (policy ?sh))) = Inr 10"
    by code_simp
  have f: "dailyVolumeWei ?sh = 0"
    by (simp add: createShield_def)
  from policyEngine_audit_tier [OF a b c d e, of "envAt 0" noop] f
  show ?thesis by auto
qed

subsection \<open>Lemmas about the stages and the pipeline\<close>

declare dispatch.simps [simp del] toStringRadix.simps [simp del] chunks64.simps [simp del]

lemma dispatch_step:
  "index s < int i \<Longrightarrow> i < length ms \<Longrightarrow>
   dispatch ms next i s = (ms ! i) (s\<lparr>index := int i\<rparr>) (dispatch ms next (Suc i))"
  by (subst dispatch.simps) (simp add: Let_def)

lemma dispatch_end:
  "index s < int i \<Longrightarrow> length ms \<le> i \<Longrightarrow> dispatch ms next i s = next (s\<lparr>index := int i\<rparr>)"
  by (subst dispatch.simps) (simp add: Let_def)

lemma contextAnalyzer_next:
  "contextAnalyzer env s next = andThen (contextAnalyzer env s noop) next"
  by (simp add: contextAnalyzer_def andThen_def noop_def Let_def split: option.splits prod.splits)

lemma scanMessages_codes: "list_all (\<lambda>r. code r \<noteq> ''VALUE_ESCALATION'') (scanMessages env ms)"
  by (auto simp: scanMessages_def list_all_iff)

lemma scanCustomPatterns_codes:
  "list_all (\<lambda>r. code r \<noteq> ''VALUE_ESCALATION'') (fst (scanCustomPatterns env ps ms))"
  by (induction ps) (auto simp: list_all_iff Let_def split: option.splits prod.splits)

lemma evaluateSource_codes:
  "list_all (\<lambda>r. code r \<noteq> ''VALUE_ESCALATION'') (evaluateSource env conversation)"
  by (auto simp: evaluateSource_def crossMcp_def list_all_iff split: option.splits)

lemma checkCoherence_code: "checkCoherence conversation = Some r \<Longrightarrow> code r \<noteq> ''VALUE_ESCALATION''"
  by (auto simp: checkCoherence_def Let_def split: if_splits)

lemma sameRun_refl: "sameRun s s"
  by (simp add: sameRun_def)

lemma sameRun_trans: "sameRun a b \<Longrightarrow> sameRun b c \<Longrightarrow> sameRun a c"
  by (simp add: sameRun_def)

lemma sameRun_index: "sameRun s (s\<lparr>index := i\<rparr>)"
  by (simp add: sameRun_def quiet_def)

lemma push_sameRun: "list_all (\<lambda>r. code r \<noteq> ''VALUE_ESCALATION'') rs \<Longrightarrow> sameRun s (push rs s)"
  by (simp add: sameRun_def push_def quiet_def)

lemma push_index: "index (push rs s) = index s" and push_decoded: "ctx_decoded (push rs s) = ctx_decoded s"
  by (simp_all add: push_def)

lemma promptInjection_codes:
  "list_all (\<lambda>r. code r \<noteq> ''VALUE_ESCALATION'') (fst (promptInjectionDetection env config conversation))"
  using scanMessages_codes [of env "messages conversation"]
        scanCustomPatterns_codes [of env "suspiciousPatterns config" "messages conversation"]
  by (auto simp: promptInjectionDetection_def Let_def split: prod.splits)

lemma sourceVerification_sameRun:
  "sameRun s (sourceVerification env config conversation s)
   \<and> index (sourceVerification env config conversation s) = index s
   \<and> ctx_decoded (sourceVerification env config conversation s) = ctx_decoded s"
  by (simp add: sourceVerification_def push_sameRun evaluateSource_codes sameRun_refl push_index push_decoded)

lemma coherenceChecking_sameRun:
  "sameRun s (coherenceChecking config conversation s)
   \<and> index (coherenceChecking config conversation s) = index s
   \<and> ctx_decoded (coherenceChecking config conversation s) = ctx_decoded s"
  by (auto simp: coherenceChecking_def sameRun_refl push_index push_decoded
           intro!: push_sameRun dest: checkCoherence_code split: option.splits)

lemma escalationDetection_sameRun:
  "ctx_decoded s = None \<Longrightarrow> escalationDetection env config s = s"
  by (simp add: escalationDetection_def)

lemma contextRiskScore_sameRun:
  "sameRun s (contextRiskScore s) \<and> index (contextRiskScore s) = index s"
  by (simp add: contextRiskScore_def sameRun_def quiet_def Let_def)

lemma contextAnalyzer_undecoded:
  assumes "ctx_decoded s = None"
  shows "sameRun s (snd (contextAnalyzer env s noop))
         \<and> index (snd (contextAnalyzer env s noop)) = index s"
proof (cases "ctx_conversationContext s")
  case None
  then show ?thesis by (simp add: contextAnalyzer_def noop_def sameRun_refl)
next
  case (Some conversation)
  define config where "config = contextAnalysis (ctx_policy s)"
  obtain injections thrown where pi: "promptInjectionDetection env config conversation = (injections, thrown)"
    by (cases "promptInjectionDetection env config conversation")
  define s1 where "s1 = push injections s"
  define s2 where "s2 = sourceVerification env config conversation s1"
  define s3 where "s3 = coherenceChecking config conversation s2"
  have "list_all (\<lambda>r. code r \<noteq> ''VALUE_ESCALATION'') injections"
    using promptInjection_codes [of env config conversation] pi by simp
  then have r1: "sameRun s s1 \<and> index s1 = index s \<and> ctx_decoded s1 = None"
    unfolding s1_def using assms by (simp add: push_sameRun push_index push_decoded)
  have r2: "sameRun s1 s2 \<and> index s2 = index s1 \<and> ctx_decoded s2 = ctx_decoded s1"
    unfolding s2_def by (rule sourceVerification_sameRun)
  have r3: "sameRun s2 s3 \<and> index s3 = index s2 \<and> ctx_decoded s3 = ctx_decoded s2"
    unfolding s3_def by (rule coherenceChecking_sameRun)
  have none: "ctx_decoded s3 = None" using r1 r2 r3 by simp
  have r5: "sameRun s3 (contextRiskScore s3) \<and> index (contextRiskScore s3) = index s3"
    by (rule contextRiskScore_sameRun)
  have "snd (contextAnalyzer env s noop) = s1 \<or> snd (contextAnalyzer env s noop) = contextRiskScore s3"
    using Some pi escalationDetection_sameRun [OF none, of env config]
    by (simp add: contextAnalyzer_def noop_def Let_def s1_def s2_def s3_def config_def
             split: option.splits)
  with r1 r2 r3 r5 show ?thesis
    by (metis sameRun_trans)
qed

lemma decoder_throws:
  assumes "StringToBigInt v = None" "tx_value (ctx_transaction s) = Some v"
  shows "transactionDecoder s next = (Some (SyntaxError (''Cannot convert '' @ v @ '' to a BigInt'')), s)"
  using assms by (simp add: transactionDecoder_def BigInt_def Let_def)

lemma stages_length: "length (stages env sh) = 8 + length (customMiddlewares sh)"
  by (simp add: stages_def)

lemma stages_0: "stages env sh ! 0 = contextAnalyzer env"
  by (simp add: stages_def)

lemma stages_1: "stages env sh ! Suc 0 = transactionDecoder"
  by (simp add: stages_def)

text \<open>The pipeline on a fresh context: the context analyzer runs first, then the decoder.\<close>

lemma buildPipeline_first:
  "buildPipeline env sh s next =
     andThen (contextAnalyzer env (s\<lparr>index := 0\<rparr>) noop) (dispatch (stages env sh) next (Suc 0))"
proof -
  have "dispatch (stages env sh) next 0 (s\<lparr>index := - 1\<rparr>)
        = contextAnalyzer env (s\<lparr>index := 0\<rparr>) (dispatch (stages env sh) next (Suc 0))"
    using dispatch_step [of "s\<lparr>index := - 1\<rparr>" 0 "stages env sh" "next"]
    by (simp add: stages_length stages_0)
  then show ?thesis
    by (simp add: buildPipeline_def compose_def contextAnalyzer_next [symmetric])
qed

lemma dispatch_decoder:
  "index s < 1 \<Longrightarrow>
   dispatch (stages env sh) next (Suc 0) s
     = transactionDecoder (s\<lparr>index := 1\<rparr>) (dispatch (stages env sh) next (Suc (Suc 0)))"
  using dispatch_step [of s "Suc 0" "stages env sh" "next"]
  by (simp add: stages_length stages_1)

lemma pipeline_raises:
  assumes "StringToBigInt v = None" and "tx_value (ctx_transaction s) = Some v"
      and "ctx_decoded s = None"
  shows "\<exists>e s'. buildPipeline env sh s next = (Some e, s')
           \<and> recentTransactionValues s' = recentTransactionValues s
           \<and> (ctx_conversationContext s = None \<longrightarrow>
                e = SyntaxError (''Cannot convert '' @ v @ '' to a BigInt''))"
proof -
  let ?s0 = "s\<lparr>index := 0\<rparr>"
  obtain r s1 where run: "contextAnalyzer env ?s0 noop = (r, s1)"
    by (cases "contextAnalyzer env ?s0 noop")
  have same: "sameRun ?s0 s1" and idx0: "index s1 = 0"
    using contextAnalyzer_undecoded [of ?s0 env] assms(3) run by simp_all
  show ?thesis
  proof (cases r)
    case (Some e)
    have "ctx_conversationContext s \<noteq> None"
      using run Some by (auto simp: contextAnalyzer_def noop_def split: option.splits)
    then show ?thesis
      using run Some same by (auto simp: buildPipeline_first andThen_def sameRun_def)
  next
    case None
    have idx: "index s1 < 1" using idx0 by simp
    have val: "tx_value (ctx_transaction (s1\<lparr>index := 1\<rparr>)) = Some v"
      using same assms(2) by (simp add: sameRun_def)
    have "buildPipeline env sh s next
          = (Some (SyntaxError (''Cannot convert '' @ v @ '' to a BigInt'')), s1\<lparr>index := 1\<rparr>)"
      using run None
      by (simp add: buildPipeline_first andThen_def dispatch_decoder [OF idx]
                    decoder_throws [OF assms(1) val])
    then show ?thesis
      using same by (simp add: sameRun_def)
  qed
qed

lemma evaluateInternal_raises:
  assumes "\<not> frozen sh" and "StringToBigInt v = None" and "tx_value tx = Some v"
  shows "\<exists>e sh'. evaluateInternal config env sh tx conversation = (Inl e, sh')
           \<and> auditLog sh' = auditLog sh
           \<and> (conversation = None \<longrightarrow> e = SyntaxError (''Cannot convert '' @ v @ '' to a BigInt''))"
proof -
  let ?sh1 = "beginEvaluation config env sh"
  let ?s = "startState (createMiddlewareContext (Some tx) conversation (Some (policy ?sh1)))
              (escalationTracker ?sh1)"
  have "tx_value (ctx_transaction ?s) = Some v" "ctx_decoded ?s = None"
       "ctx_conversationContext ?s = conversation"
    using assms(3) by (simp_all add: startState_def createMiddlewareContext_def)
  from pipeline_raises [OF assms(2) this(1,2), of env ?sh1 noop] this(3)
  obtain e s' where "runPipeline env ?sh1 tx conversation = (Some e, s')"
    and "conversation = None \<longrightarrow> e = SyntaxError (''Cannot convert '' @ v @ '' to a BigInt'')"
    by (auto simp: runPipeline_def)
  moreover have "auditLog ?sh1 = auditLog sh"
    by (simp add: beginEvaluation_def checkDailyReset_def Let_def)
  ultimately show ?thesis
    using assms(1) by (simp add: evaluateInternal_def Let_def)
qed

lemma tailStageI:
  assumes "\<And>s next. m s next = andThen (m s noop) next"
      and "\<And>s. sameRun s (snd (m s noop))"
      and "\<And>s. index (snd (m s noop)) = index s"
  shows "tailStage m"
  unfolding tailStage_def by (intro allI conjI assms)

lemma tailStage_next: "tailStage m \<Longrightarrow> m s next = andThen (m s noop) next"
  unfolding tailStage_def by blast

lemma tailStage_same: "tailStage m \<Longrightarrow> sameRun s (snd (m s noop))"
  unfolding tailStage_def by blast

lemma tailStage_index: "tailStage m \<Longrightarrow> index (snd (m s noop)) = index s"
  unfolding tailStage_def by blast

lemma decodeCall_codes:
  "decodeCall name params d = Inr (d', pushed) \<Longrightarrow> list_all (\<lambda>r. code r \<noteq> ''VALUE_ESCALATION'') pushed"
  unfolding decodeCall_def Let_def
  apply (simp split: if_splits sum.splits)
  apply auto
  done

lemma decodeData_codes:
  "decodeData transaction data wei = Inr (d', pushed) \<Longrightarrow> list_all (\<lambda>r. code r \<noteq> ''VALUE_ESCALATION'') pushed"
  by (auto simp: decodeData_def Let_def dest: decodeCall_codes split: option.splits)

lemma ethWithCalldata_codes:
  "list_all (\<lambda>r. code r \<noteq> ''VALUE_ESCALATION'') (ethWithCalldata data d)"
  by (simp add: ethWithCalldata_def)

lemma sameRun_decoded: "sameRun s s' \<Longrightarrow> sameRun s (s'\<lparr>ctx_decoded := d\<rparr>)"
  by (simp add: sameRun_def quiet_def)

lemma sameRun_estimate: "sameRun s s' \<Longrightarrow> sameRun s (s'\<lparr>ctx_metadata_estimatedValueUsd := d\<rparr>)"
  by (simp add: sameRun_def quiet_def)

lemma transactionDecoder_tail: "tailStage transactionDecoder"
proof (rule tailStageI)
  fix s "next"
  show "transactionDecoder s next = andThen (transactionDecoder s noop) next"
    by (simp add: transactionDecoder_def andThen_def noop_def Let_def split: prod.splits sum.splits)
next
  fix s
  show "sameRun s (snd (transactionDecoder s noop))"
    by (auto simp: transactionDecoder_def noop_def Let_def sameRun_refl
             intro!: sameRun_decoded push_sameRun ethWithCalldata_codes
             dest: decodeData_codes split: prod.splits sum.splits)
next
  fix s
  show "index (snd (transactionDecoder s noop)) = index s"
    by (simp add: transactionDecoder_def noop_def Let_def push_index split: prod.splits sum.splits)
qed

lemma valueAssessor_tail: "tailStage (createValueAssessor config)"
proof (rule tailStageI)
  fix s "next"
  show "createValueAssessor config s next = andThen (createValueAssessor config s noop) next"
    by (simp add: createValueAssessor_def andThen_def noop_def Let_def split: option.splits sum.splits)
next
  fix s
  show "sameRun s (snd (createValueAssessor config s noop))"
    by (simp add: createValueAssessor_def noop_def Let_def sameRun_refl sameRun_def quiet_def
             split: option.splits sum.splits)
next
  fix s
  show "index (snd (createValueAssessor config s noop)) = index s"
    by (simp add: createValueAssessor_def noop_def Let_def split: option.splits sum.splits)
qed

lemma riskAggregator_tail: "tailStage riskAggregator"
proof (rule tailStageI)
  fix s "next"
  show "riskAggregator s next = andThen (riskAggregator s noop) next"
    by (simp add: riskAggregator_def andThen_def noop_def Let_def)
next
  fix s
  show "sameRun s (snd (riskAggregator s noop))"
    by (simp add: riskAggregator_def noop_def Let_def sameRun_def quiet_def split: option.splits)
next
  fix s
  show "index (snd (riskAggregator s noop)) = index s"
    by (simp add: riskAggregator_def noop_def Let_def split: option.splits)
qed

lemma passThrough_tail: "tailStage passThrough"
  by (rule tailStageI) (simp_all add: passThrough_def andThen_def noop_def sameRun_refl)

lemma sameRun_scores: "sameRun s s' \<Longrightarrow> sameRun s (s'\<lparr>ctx_riskScores := x\<rparr>)"
  by (simp add: sameRun_def quiet_def)

lemma createAddressChecker_tail: "tailStage createAddressChecker"
proof (rule tailStageI)
  fix s "next"
  show "createAddressChecker s next = andThen (createAddressChecker s noop) next"
    by (simp add: createAddressChecker_def andThen_def noop_def Let_def)
next
  fix s
  show "sameRun s (snd (createAddressChecker s noop))"
    by (auto simp: createAddressChecker_def noop_def Let_def sameRun_refl
             intro!: sameRun_scores push_sameRun)
next
  fix s
  show "index (snd (createAddressChecker s noop)) = index s"
    by (simp add: createAddressChecker_def noop_def Let_def push_index)
qed

lemma createContractChecker_tail: "tailStage createContractChecker"
  by (rule tailStageI) (simp_all add: createContractChecker_def andThen_def noop_def sameRun_refl)

lemma createAddressChecker_completes: "fst (createAddressChecker s noop) = None"
  by (simp add: createAddressChecker_def noop_def Let_def)

text \<open>A run of tail stages from position \<open>i\<close> up to position \<open>n\<close>.\<close>

lemma dispatch_tail:
  assumes "\<forall>j. i \<le> j \<and> j < n \<longrightarrow> tailStage (ms ! j)" and "n \<le> length ms"
      and "index s < int i" and "i \<le> n"
  shows "\<exists>r s'. dispatch ms next i s = andThen (r, s') (dispatch ms next n)
           \<and> sameRun s s' \<and> (r = None \<longrightarrow> index s' < int n)"
  using assms
proof (induction "n - i" arbitrary: i s)
  case 0
  then have "i = n" by simp
  then show ?case
    using "0.prems"(3) by (intro exI [of _ None] exI [of _ s]) (simp add: andThen_def sameRun_refl)
next
  case (Suc k)
  then have lt: "i < n" by simp
  let ?s0 = "s\<lparr>index := int i\<rparr>"
  have tail: "tailStage (ms ! i)" using Suc.prems(1) lt by simp
  obtain r1 s1 where run: "(ms ! i) ?s0 noop = (r1, s1)" by (cases "(ms ! i) ?s0 noop")
  have same1: "sameRun s s1"
    using tailStage_same [OF tail, of ?s0] run sameRun_index [of s "int i"] sameRun_trans [of s ?s0 s1]
    by simp
  have idx1: "index s1 = int i"
    using tailStage_index [OF tail, of ?s0] run by simp
  have "dispatch ms next i s = (ms ! i) ?s0 (dispatch ms next (Suc i))"
    using dispatch_step [of s i ms "next"] Suc.prems(2,3) lt by simp
  then have step: "dispatch ms next i s = andThen (r1, s1) (dispatch ms next (Suc i))"
    using tailStage_next [OF tail, of ?s0 "dispatch ms next (Suc i)"] run by simp
  show ?case
  proof (cases r1)
    case (Some e)
    then show ?thesis
      using step same1 by (intro exI [of _ "Some e"] exI [of _ s1]) (simp add: andThen_def)
  next
    case None
    have "\<exists>r s'. dispatch ms next (Suc i) s1 = andThen (r, s') (dispatch ms next n)
            \<and> sameRun s1 s' \<and> (r = None \<longrightarrow> index s' < int n)"
      using Suc.hyps(2) Suc.prems(1,2) lt idx1 by (intro Suc.hyps(1)) auto
    then show ?thesis
      using step None same1 by (auto simp: andThen_def intro: sameRun_trans)
  qed
qed

lemma dispatch_tail_ok:
  assumes "\<forall>j. i \<le> j \<and> j < n \<longrightarrow> tailStage (ms ! j)"
      and "\<forall>j s. i \<le> j \<and> j < n \<and> Q s \<longrightarrow> fst ((ms ! j) s noop) = None"
      and "\<forall>s s' x. sameRun s s' \<and> Q s \<longrightarrow> Q (s'\<lparr>index := x\<rparr>)"
      and "n \<le> length ms" and "index s < int i" and "i \<le> n" and "Q s"
  shows "\<exists>s'. dispatch ms next i s = dispatch ms next n s'
           \<and> sameRun s s' \<and> index s' < int n \<and> Q s'"
  using assms
proof (induction "n - i" arbitrary: i s)
  case 0
  then show ?case
    by (intro exI [of _ s]) (simp add: sameRun_refl)
next
  case (Suc k)
  then have lt: "i < n" by simp
  let ?s0 = "s\<lparr>index := int i\<rparr>"
  have tail: "tailStage (ms ! i)" using Suc.prems(1) lt by simp
  have q0: "Q ?s0" using Suc.prems(3,7) sameRun_refl [of s] by blast
  obtain r1 s1 where run: "(ms ! i) ?s0 noop = (r1, s1)" by (cases "(ms ! i) ?s0 noop")
  have r1: "r1 = None" using Suc.prems(2) lt q0 run by (metis fst_conv le_refl)
  have same01: "sameRun ?s0 s1" using tailStage_same [OF tail, of ?s0] run by simp
  have same1: "sameRun s s1"
    using same01 sameRun_index [of s "int i"] sameRun_trans [of s ?s0 s1] by simp
  have idx1: "index s1 = int i"
    using tailStage_index [OF tail, of ?s0] run by simp
  have q1: "Q s1" using Suc.prems(3) same01 q0 idx1 by (metis (full_types) PipelineState.update_convs(1) PipelineState.surjective)
  have "dispatch ms next i s = (ms ! i) ?s0 (dispatch ms next (Suc i))"
    using dispatch_step [of s i ms "next"] Suc.prems(4,5) lt by simp
  then have step: "dispatch ms next i s = dispatch ms next (Suc i) s1"
    using tailStage_next [OF tail, of ?s0 "dispatch ms next (Suc i)"] run r1 by (simp add: andThen_def)
  have "\<exists>s'. dispatch ms next (Suc i) s1 = dispatch ms next n s'
            \<and> sameRun s1 s' \<and> index s' < int n \<and> Q s'"
    using Suc.hyps(2) Suc.prems(1,2,3,4) lt idx1 q1 by (intro Suc.hyps(1)) auto
  then show ?case
    using step same1 by (auto intro: sameRun_trans)
qed

lemma stages_split: "stages env sh = contextAnalyzer env # middleStages env sh @ [policyEngine env]"
  by (simp add: stages_def middleStages_def)

lemma middleStages_tail:
  assumes "tailStage (addressChecker env)" "tailStage (contractChecker env)"
      and "tailStage (behavioralComparator env)" "list_all tailStage (customMiddlewares sh)"
  shows "list_all tailStage (middleStages env sh)"
  using assms
  by (simp add: middleStages_def transactionDecoder_tail valueAssessor_tail riskAggregator_tail)

lemma policyEngine_silent:
  assumes "policyEngine env s next = (r, s')" and "quiet s" and "ctx_metadata_verdict s = None"
  shows "recentTransactionValues s' = recentTransactionValues s \<and> silentVerdict s'"
  using assms
  by (auto simp: policyEngine_def Let_def silentVerdict_def quiet_def split: prod.splits sum.splits if_splits)

lemma pipeline_silent:
  assumes tails: "list_all tailStage (middleStages env sh)"
      and fresh: "ctx_decoded s = None" "ctx_metadata_verdict s = None" "quiet s"
  shows "\<exists>r s'. buildPipeline env sh s next = (r, s')
           \<and> recentTransactionValues s' = recentTransactionValues s \<and> silentVerdict s'"
proof -
  let ?ms = "stages env sh"
  let ?n = "Suc (length (middleStages env sh))"
  let ?s0 = "s\<lparr>index := 0\<rparr>"
  obtain r0 s1 where run0: "contextAnalyzer env ?s0 noop = (r0, s1)"
    by (cases "contextAnalyzer env ?s0 noop")
  have same0: "sameRun ?s0 s1" and idx0: "index s1 = 0"
    using contextAnalyzer_undecoded [of ?s0 env] fresh(1) run0 by simp_all
  have q0: "quiet ?s0" using fresh(3) by (simp add: quiet_def)
  have first: "buildPipeline env sh s next = andThen (r0, s1) (dispatch ?ms next (Suc 0))"
    using run0 by (simp add: buildPipeline_first)
  show ?thesis
  proof (cases r0)
    case (Some e)
    then show ?thesis
      using first same0 fresh(2) by (simp add: andThen_def sameRun_def silentVerdict_def)
  next
    case None
    have mid: "\<forall>j. Suc 0 \<le> j \<and> j < ?n \<longrightarrow> tailStage (?ms ! j)"
      using tails by (auto simp: stages_split nth_Cons nth_append list_all_length split: nat.splits)
    have "\<exists>r s'. dispatch ?ms next (Suc 0) s1 = andThen (r, s') (dispatch ?ms next ?n)
            \<and> sameRun s1 s' \<and> (r = None \<longrightarrow> index s' < int ?n)"
      using idx0 by (intro dispatch_tail [OF mid]) (simp_all add: stages_split)
    then obtain r s2 where run: "dispatch ?ms next (Suc 0) s1 = andThen (r, s2) (dispatch ?ms next ?n)"
      and same: "sameRun s1 s2" and idx: "r = None \<longrightarrow> index s2 < int ?n"
      by blast
    have same02: "sameRun ?s0 s2" using same0 same by (rule sameRun_trans)
    show ?thesis
    proof (cases r)
      case (Some e)
      then show ?thesis
        using first None run same02 fresh(2)
        by (simp add: andThen_def sameRun_def silentVerdict_def)
    next
      case None2: None
      let ?s3 = "s2\<lparr>index := int ?n\<rparr>"
      have "dispatch ?ms next ?n s2 = (?ms ! ?n) ?s3 (dispatch ?ms next (Suc ?n))"
        using idx None2 by (intro dispatch_step) (simp_all add: stages_split)
      then have last: "dispatch ?ms next ?n s2 = policyEngine env ?s3 (dispatch ?ms next (Suc ?n))"
        by (simp add: stages_split nth_append)
      obtain r3 s3 where pe: "policyEngine env ?s3 (dispatch ?ms next (Suc ?n)) = (r3, s3)"
        by (cases "policyEngine env ?s3 (dispatch ?ms next (Suc ?n))")
      have "quiet ?s3" "ctx_metadata_verdict ?s3 = None"
        using same02 q0 fresh(2) by (simp_all add: sameRun_def quiet_def)
      from policyEngine_silent [OF pe this]
      show ?thesis
        using first None run None2 last pe same02 by (simp add: andThen_def sameRun_def)
    qed
  qed
qed

lemma beginEvaluation_frame:
  "customMiddlewares (beginEvaluation config env sh) = customMiddlewares sh
   \<and> escalationTracker (beginEvaluation config env sh) = escalationTracker sh
   \<and> policy (beginEvaluation config env sh) = policy sh
   \<and> frozen (beginEvaluation config env sh) = frozen sh
   \<and> auditLog (beginEvaluation config env sh) = auditLog sh"
  by (simp add: beginEvaluation_def checkDailyReset_def Let_def)

lemma middleStages_begin: "middleStages env (beginEvaluation config env sh) = middleStages env sh"
  by (simp add: middleStages_def beginEvaluation_frame)

lemma kept_refl: "kept sh sh" by (simp add: kept_def)
lemma kept_trans: "kept a b \<Longrightarrow> kept b c \<Longrightarrow> kept a c" by (simp add: kept_def)

lemma recordAudit_kept: "kept sh (recordAudit sh tx v c e)"
  by (simp add: recordAudit_def Let_def kept_def)

lemma updateCounters_kept: "kept sh (snd (updateCounters config verdict sh))"
  by (simp add: updateCounters_def kept_def)

lemma trackDailyVolume_kept: "kept sh (snd (snd (trackDailyVolume tx verdict sh)))"
  by (simp add: trackDailyVolume_def kept_def Let_def split: sum.splits)

lemma autoFreeze_kept: "kept sh (snd (autoFreeze config verdict sh))"
  by (simp add: autoFreeze_def kept_def Let_def split: option.splits)

lemma autoFreeze_log: "auditLog (snd (autoFreeze config verdict sh)) = auditLog sh"
  by (simp add: autoFreeze_def Let_def split: option.splits)

lemma trackDailyVolume_codes:
  assumes "list_all (\<lambda>r. code r \<noteq> ''VALUE_ESCALATION'') (reasons verdict)"
  shows "list_all (\<lambda>r. code r \<noteq> ''VALUE_ESCALATION'') (reasons (fst (snd (trackDailyVolume tx verdict sh))))"
  using assms by (simp add: trackDailyVolume_def Let_def split: sum.splits)

text \<open>The statements after the pipeline, step by step.\<close>

lemma settle_steps:
  assumes "settle config tx conversation verdict sh = (r, sh')"
  obtains (counters) e where "updateCounters config verdict sh = (Some e, sh')" "r = Inl e"
  | (volume) sh1 e verdict1 where "updateCounters config verdict sh = (None, sh1)"
      "trackDailyVolume tx verdict sh1 = (Some e, verdict1, sh')" "r = Inl e"
  | (recorded) sh1 verdict1 sh2 thrown where "updateCounters config verdict sh = (None, sh1)"
      "trackDailyVolume tx verdict sh1 = (None, verdict1, sh2)"
      "autoFreeze config verdict1 (recordAudit sh2 tx verdict1 conversation None) = (thrown, sh')"
      "r = (case thrown of Some e \<Rightarrow> Inl e | None \<Rightarrow> Inr verdict1)"
proof -
  obtain c sh1 where uc: "updateCounters config verdict sh = (c, sh1)"
    by (cases "updateCounters config verdict sh")
  obtain t verdict1 sh2 where tv: "trackDailyVolume tx verdict sh1 = (t, verdict1, sh2)"
    by (cases "trackDailyVolume tx verdict sh1")
  obtain a sh3 where af: "autoFreeze config verdict1 (recordAudit sh2 tx verdict1 conversation None) = (a, sh3)"
    by (cases "autoFreeze config verdict1 (recordAudit sh2 tx verdict1 conversation None)")
  show thesis
  proof (cases c)
    case (Some e)
    then show ?thesis using assms uc counters by (simp add: settle_def)
  next
    case None
    show ?thesis
    proof (cases t)
      case (Some e)
      then show ?thesis using assms uc tv None volume by (simp add: settle_def)
    next
      case None2: None
      show ?thesis
        using assms uc tv af None None2 recorded [of sh1 verdict1 sh2 a]
        by (cases a) (simp_all add: settle_def)
    qed
  qed
qed

lemma settle_kept:
  assumes "settle config tx conversation verdict sh = (r, sh')"
  shows "kept sh sh'"
  using assms
proof (cases rule: settle_steps)
  case (counters e)
  then show ?thesis using updateCounters_kept [of sh config verdict] by simp
next
  case (volume sh1 e verdict1)
  then show ?thesis
    using updateCounters_kept [of sh config verdict] trackDailyVolume_kept [of sh1 tx verdict]
    by (metis kept_trans snd_conv)
next
  case (recorded sh1 verdict1 sh2 thrown)
  then show ?thesis
    using updateCounters_kept [of sh config verdict] trackDailyVolume_kept [of sh1 tx verdict]
          recordAudit_kept [of sh2 tx verdict1 conversation None]
          autoFreeze_kept [of "recordAudit sh2 tx verdict1 conversation None" config verdict1]
    by (metis kept_trans snd_conv)
qed

lemma settle_codes:
  assumes "settle config tx conversation verdict sh = (Inr v, sh')"
      and "list_all (\<lambda>r. code r \<noteq> ''VALUE_ESCALATION'') (reasons verdict)"
  shows "list_all (\<lambda>r. code r \<noteq> ''VALUE_ESCALATION'') (reasons v)"
  using assms(1)
proof (cases rule: settle_steps)
  case (recorded sh1 verdict1 sh2 thrown)
  then show ?thesis
    using trackDailyVolume_codes [OF assms(2), of tx sh1] by (auto split: option.splits)
qed simp_all

lemma startState_fresh:
  "ctx_decoded (startState (createMiddlewareContext t c p) tr) = None
   \<and> ctx_metadata_verdict (startState (createMiddlewareContext t c p) tr) = None
   \<and> quiet (startState (createMiddlewareContext t c p) tr)
   \<and> recentTransactionValues (startState (createMiddlewareContext t c p) tr) = tr
   \<and> ctx_conversationContext (startState (createMiddlewareContext t c p) tr) = c
   \<and> ctx_transaction (startState (createMiddlewareContext (Some tx) c p) tr) = tx"
  by (simp add: startState_def createMiddlewareContext_def quiet_def)

text \<open>The four ways in which \<open>evaluateInternal\<close> ends.\<close>

lemma evaluateInternal_cases:
  assumes "evaluateInternal config env sh tx conversation = (r, sh')"
  obtains (frozen) "frozen sh" "r = Inr (frozenVerdict env)"
      "sh' = recordAudit sh tx (frozenVerdict env) conversation (Some False)"
  | (thrown) e final where "\<not> frozen sh"
      "runPipeline env (beginEvaluation config env sh) tx conversation = (Some e, final)"
      "r = Inl e"
      "sh' = (beginEvaluation config env sh)\<lparr>escalationTracker := recentTransactionValues final\<rparr>"
  | (fallback) final where "\<not> frozen sh"
      "runPipeline env (beginEvaluation config env sh) tx conversation = (None, final)"
      "ctx_metadata_verdict final = None"
      "r = Inr (fallbackVerdict env)"
      "sh' = recordAudit ((beginEvaluation config env sh)\<lparr>escalationTracker := recentTransactionValues final\<rparr>)
               tx (fallbackVerdict env) conversation (Some False)"
  | (settled) final verdict where "\<not> frozen sh"
      "runPipeline env (beginEvaluation config env sh) tx conversation = (None, final)"
      "ctx_metadata_verdict final = Some verdict"
      "settle config tx conversation verdict
         ((beginEvaluation config env sh)\<lparr>escalationTracker := recentTransactionValues final\<rparr>) = (r, sh')"
proof (cases "frozen sh")
  case True
  then show ?thesis using assms frozen by (simp add: evaluateInternal_def)
next
  case False
  obtain t final where run: "runPipeline env (beginEvaluation config env sh) tx conversation = (t, final)"
    by (cases "runPipeline env (beginEvaluation config env sh) tx conversation")
  show ?thesis
  proof (cases t)
    case (Some e)
    then show ?thesis using assms False run thrown [of e final] by (simp add: evaluateInternal_def Let_def)
  next
    case None
    show ?thesis
    proof (cases "ctx_metadata_verdict final")
      case None2: None
      then show ?thesis
        using assms False run None fallback [of final] by (simp add: evaluateInternal_def Let_def)
    next
      case (Some verdict)
      then show ?thesis
        using assms False run None settled [of final verdict] by (simp add: evaluateInternal_def Let_def)
    qed
  qed
qed

lemma runPipeline_silent:
  assumes "list_all tailStage (middleStages env sh)"
      and "runPipeline env (beginEvaluation config env sh) tx conversation = (t, final)"
  shows "recentTransactionValues final = escalationTracker sh \<and> silentVerdict final"
proof -
  let ?sh1 = "beginEvaluation config env sh"
  let ?s = "startState (createMiddlewareContext (Some tx) conversation (Some (policy ?sh1)))
              (escalationTracker ?sh1)"
  have tails: "list_all tailStage (middleStages env ?sh1)"
    using assms(1) by (simp add: middleStages_begin)
  from pipeline_silent [OF tails, of ?s noop] startState_fresh [of "Some tx" conversation "Some (policy ?sh1)" "escalationTracker ?sh1"]
  show ?thesis
    using assms(2) by (auto simp: runPipeline_def beginEvaluation_frame)
qed

lemma evaluateInternal_customs:
  "customMiddlewares (snd (evaluateInternal config env sh tx conversation)) = customMiddlewares sh
   \<and> policy (snd (evaluateInternal config env sh tx conversation)) = policy sh
   \<and> (frozen sh \<longrightarrow> frozen (snd (evaluateInternal config env sh tx conversation)))"
proof -
  obtain r sh' where ev: "evaluateInternal config env sh tx conversation = (r, sh')"
    by (cases "evaluateInternal config env sh tx conversation")
  from ev have "customMiddlewares sh' = customMiddlewares sh \<and> policy sh' = policy sh
                \<and> (frozen sh \<longrightarrow> frozen sh')"
  proof (cases rule: evaluateInternal_cases)
    case frozen
    then show ?thesis by (simp add: recordAudit_def Let_def)
  next
    case (thrown e final)
    then show ?thesis by (simp add: beginEvaluation_frame)
  next
    case (fallback final)
    then show ?thesis by (simp add: recordAudit_def Let_def beginEvaluation_frame)
  next
    case (settled final verdict)
    then show ?thesis using settle_kept [OF settled(4)] by (simp add: kept_def beginEvaluation_frame)
  qed
  then show ?thesis using ev by simp
qed

lemma plain_middleStages:
  "customMiddlewares sh = [] \<Longrightarrow> list_all tailStage (middleStages (envAt t) sh)"
  by (simp add: middleStages_def envAt_def transactionDecoder_tail valueAssessor_tail riskAggregator_tail
                passThrough_tail createAddressChecker_tail createContractChecker_tail)

subsection \<open>C8: a transaction value that is not an integer\<close>

text \<open>
  C8 says that \<open>evaluate\<close> never raises and that an input-validation failure ends in a
  synthetic block verdict. \<open>validateTransactionRequest\<close> of pipeline.ts does reject the
  value \<^verbatim>\<open>'abc'\<close>, but \<open>evaluateInternal\<close> never calls it and runs the pipeline outside of
  any handler: the transaction decoder converts the value with \<^verbatim>\<open>BigInt\<close>, which raises a
  \<^verbatim>\<open>SyntaxError\<close>, and \<open>evaluate\<close> ends with that error instead of a verdict.
\<close>

theorem evaluate_raises_on_invalid_value:
  "validateTransactionRequest numberToString (transfer LOW_VALUE_ADDRESS ''abc'')
     = Some (''Invalid transaction value: '' @ quote @ ''abc'' @ quote @ '' is not a valid integer'')
   \<and> fst (evaluate testConfig (envAt 0) (createShield testConfig (envAt 0))
            (transfer LOW_VALUE_ADDRESS ''abc''))
     = Inl (SyntaxError ''Cannot convert abc to a BigInt'')"
proof -
  have "BigInt ''abc'' = Inl (SyntaxError ''Cannot convert abc to a BigInt'')"
    by code_simp
  moreover have "isValidEthereumAddress LOW_VALUE_ADDRESS"
    by code_simp
  ultimately have v: "validateTransactionRequest numberToString (transfer LOW_VALUE_ADDRESS ''abc'')
             = Some (''Invalid transaction value: '' @ quote @ ''abc'' @ quote @ '' is not a valid integer'')"
    by (simp add: validateTransactionRequest_def transfer_def isInteger_def LOW_VALUE_ADDRESS_def)
  have p: "StringToBigInt ''abc'' = None"
    by code_simp
  have "\<not> frozen (createShield testConfig (envAt 0))"
    by (simp add: createShield_def)
  from evaluateInternal_raises [OF this p, of "transfer LOW_VALUE_ADDRESS ''abc''" testConfig "envAt 0" None]
  have "fst (evaluate testConfig (envAt 0) (createShield testConfig (envAt 0))
            (transfer LOW_VALUE_ADDRESS ''abc''))
     = Inl (SyntaxError ''Cannot convert abc to a BigInt'')"
    by (auto simp: evaluate_def transfer_def)
  with v show ?thesis by simp
qed

theorem evaluate_raises_on_invalid_value_witness:
  "\<nexists>verdict. fst (evaluate testConfig (envAt 0) (createShield testConfig (envAt 0))
                        (transfer LOW_VALUE_ADDRESS ''abc'')) = Inr verdict"
  using evaluate_raises_on_invalid_value by simp

subsection \<open>C9: value escalation\<close>

text \<open>
  C9 says that the verdict of an evaluation with conversation context carries a
  \<^verbatim>\<open>VALUE_ESCALATION\<close> reason when the estimated value is at least 5 times the oldest
  sample of the last 30 minutes. The context analyzer calls \<open>detectEscalation\<close> only
  when the context holds a decoded transaction, and it is the first stage of the
  pipeline, before the decoder has run on the fresh context. So, whenever the stages
  between the context analyzer and the policy engine pass the context on without
  raising that reason themselves, no evaluation records a sample in the escalation
  tracker and no verdict carries \<^verbatim>\<open>VALUE_ESCALATION\<close>.
\<close>

theorem escalation_never_detected:
  assumes "list_all tailStage (middleStages env sh)"
  shows "escalationTracker (snd (evaluateInternal config env sh tx conversation)) = escalationTracker sh
         \<and> ''VALUE_ESCALATION'' \<notin> set (verdictCodes (evaluateInternal config env sh tx conversation))"
proof -
  obtain r sh' where ev: "evaluateInternal config env sh tx conversation = (r, sh')"
    by (cases "evaluateInternal config env sh tx conversation")
  from ev have "escalationTracker sh' = escalationTracker sh
      \<and> (\<forall>v. r = Inr v \<longrightarrow> list_all (\<lambda>x. code x \<noteq> ''VALUE_ESCALATION'') (reasons v))"
  proof (cases rule: evaluateInternal_cases)
    case frozen
    then show ?thesis
      using recordAudit_kept [of sh tx "frozenVerdict env" conversation "Some False"]
      by (simp add: kept_def frozenVerdict_def)
  next
    case (thrown e final)
    then show ?thesis using runPipeline_silent [OF assms thrown(2)] by simp
  next
    case (fallback final)
    then show ?thesis
      using runPipeline_silent [OF assms fallback(2)]
            recordAudit_kept [of "(beginEvaluation config env sh)\<lparr>escalationTracker := recentTransactionValues final\<rparr>"
                                 tx "fallbackVerdict env" conversation "Some False"]
      by (simp add: kept_def fallbackVerdict_def)
  next
    case (settled final verdict)
    have codes: "list_all (\<lambda>x. code x \<noteq> ''VALUE_ESCALATION'') (reasons verdict)"
      using runPipeline_silent [OF assms settled(2)] settled(3) by (simp add: silentVerdict_def)
    show ?thesis
      using runPipeline_silent [OF assms settled(2)] settle_kept [OF settled(4)] settle_codes [OF _ codes]
            settled(4)
      by (auto simp: kept_def)
  qed
  then show ?thesis
    using ev by (auto simp: verdictCodes_def list_all_iff split: sum.splits)
qed

text \<open>
  The two transfers of the escalation test, 0.01 ETH and then 0.05 ETH five minutes
  later, both with the payment conversation: the tracker is still empty after the
  second one and its verdict has no \<^verbatim>\<open>VALUE_ESCALATION\<close> reason, although
  \<open>detectEscalation\<close> gives that reason for these two values once it is reached.
\<close>

theorem escalation_never_detected_witness:
  "escalationTracker (snd (secondTransfer 1770940800000)) = []
   \<and> ''VALUE_ESCALATION'' \<notin> set (verdictCodes (secondTransfer 1770940800000))
   \<and> map_option code
        (fst (detectEscalation (1770940800000 + 5 * 60 * 1000)
                [(usdOf 10000000000000000 DEFAULT_ETH_PRICE_USD, 1770940800000)]
                (usdOf 50000000000000000 DEFAULT_ETH_PRICE_USD)))
      = Some ''VALUE_ESCALATION''"
proof -
  let ?t0 = "1770940800000 :: int"
  let ?sh0 = "createShield testConfig (envAt ?t0)"
  have c0: "customMiddlewares ?sh0 = []" and t0: "escalationTracker ?sh0 = []"
    by (simp_all add: createShield_def)
  have first: "escalationTracker (afterFirstTransfer ?t0) = []"
    using escalation_never_detected [OF plain_middleStages [OF c0], of testConfig]
    by (simp add: afterFirstTransfer_def evaluateWithContext_def t0)
  have c1: "customMiddlewares (afterFirstTransfer ?t0) = []"
    using evaluateInternal_customs [of testConfig "envAt ?t0" ?sh0] c0
    by (simp add: afterFirstTransfer_def evaluateWithContext_def)
  have second: "escalationTracker (snd (secondTransfer ?t0)) = []
      \<and> ''VALUE_ESCALATION'' \<notin> set (verdictCodes (secondTransfer ?t0))"
    using escalation_never_detected [OF plain_middleStages [OF c1], of testConfig] first
    by (simp add: secondTransfer_def evaluateWithContext_def)
  have reached: "map_option code
        (fst (detectEscalation (?t0 + 5 * 60 * 1000)
                [(usdOf 10000000000000000 DEFAULT_ETH_PRICE_USD, ?t0)]
                (usdOf 50000000000000000 DEFAULT_ETH_PRICE_USD)))
      = Some ''VALUE_ESCALATION''"
    by code_simp
  from second reached show ?thesis by simp
qed

subsection \<open>C10: evaluations of a frozen shield\<close>

text \<open>
  C10. While the shield is frozen, a call to \<open>evaluate\<close> (or \<open>evaluateWithContext\<close>)
  returns the synthetic freeze verdict and pushes exactly one audit entry, for this
  transaction and this verdict, with \<^verbatim>\<open>executed = false\<close>; the log keeps its last 10000
  entries, so below that bound the new log is the old one followed by the entry.
  Nothing else of the shield changes: in particular the evaluation count, the block
  count, the advisory count, the daily volume and the active policy are the same, and
  the shield is still frozen.
\<close>

theorem frozen_evaluate_frame:
  assumes "frozen sh"
  shows "\<exists>entry sh'.
           evaluateInternal config env sh tx conversation = (Inr (frozenVerdict env), sh')
           \<and> decision (frozenVerdict env) = Freeze
           \<and> sh' = sh\<lparr>auditLog := sliceLast 10000 (auditLog sh @ [entry])\<rparr>
           \<and> (length (auditLog sh) < 10000 \<longrightarrow> auditLog sh' = auditLog sh @ [entry])
           \<and> entry_verdict entry = frozenVerdict env
           \<and> entry_transaction entry = tx
           \<and> \<not> executed entry
           \<and> evaluationCount sh' = evaluationCount sh
           \<and> blockCount sh' = blockCount sh
           \<and> advisoryCount sh' = advisoryCount sh
           \<and> dailyVolumeWei sh' = dailyVolumeWei sh
           \<and> policy sh' = policy sh
           \<and> frozen sh'"
  using assms
  by (auto simp: evaluateInternal_def recordAudit_def Let_def sliceLast_def frozenVerdict_def)

theorem frozen_evaluate_frame_witness:
  "fst (evaluate testConfig (envAt 0) frozenShield (transfer LOW_VALUE_ADDRESS ''1''))
     = Inr (frozenVerdict (envAt 0))
   \<and> map executed (auditLog (snd (evaluate testConfig (envAt 0) frozenShield
                                     (transfer LOW_VALUE_ADDRESS ''1'')))) = [False]
   \<and> evaluationCount (snd (evaluate testConfig (envAt 0) frozenShield
                              (transfer LOW_VALUE_ADDRESS ''1''))) = 0"
proof -
  have f: "frozen frozenShield" and l: "auditLog frozenShield = []"
    and c: "evaluationCount frozenShield = 0"
    by (simp_all add: frozenShield_def freeze_def createShield_def)
  from frozen_evaluate_frame [OF f, of testConfig "envAt 0" "transfer LOW_VALUE_ADDRESS ''1''" None]
  show ?thesis
    using l c by (auto simp: evaluate_def)
qed

subsection \<open>C5: the guard rails of \<open>updatePolicy\<close>\<close>

text \<open>
  C5. \<open>updatePolicy\<close> assigns the result of \<open>mergePolicy\<close> to the active policy. When
  the update succeeds the new policy is the validated merge: it has at least one tier
  and at least one tier with the mode guardian or fortress. When the merged tiers are
  empty or hold no such tier, the call raises; in particular \<^verbatim>\<open>updatePolicy({ tiers: [] })\<close>
  raises. After a failed update the shield, and so its active policy, is as before.
\<close>

theorem updatePolicy_guardrails:
  "(case updatePolicy sh overrides of
      (None, sh') \<Rightarrow>
        mergePolicy (policy sh) overrides = Inr (policy sh')
        \<and> sh' = sh\<lparr>policy := policy sh'\<rparr>
        \<and> tiers (policy sh') \<noteq> []
        \<and> list_ex isBlockingTier (tiers (policy sh'))
    | (Some e, sh') \<Rightarrow> sh' = sh)
   \<and> (orElse (over_tiers overrides) (tiers (policy sh)) = []
        \<or> \<not> list_ex isBlockingTier (orElse (over_tiers overrides) (tiers (policy sh)))
      \<longrightarrow> fst (updatePolicy sh overrides) \<noteq> None)
   \<and> (over_tiers overrides = Some [] \<longrightarrow>
        fst (updatePolicy sh overrides) \<noteq> None \<and> snd (updatePolicy sh overrides) = sh)"
  by (auto simp: updatePolicy_def mergePolicy_def Let_def orElse_def split: sum.splits option.splits)

theorem updatePolicy_guardrails_witness:
  "fst (updatePolicy (createShield testConfig (envAt 0)) noTiers) \<noteq> None
   \<and> policy (snd (updatePolicy (createShield testConfig (envAt 0)) noTiers)) = config_policy testConfig"
  using updatePolicy_guardrails [of "createShield testConfig (envAt 0)" noTiers]
  by (simp add: noTiers_def noOverrides_def createShield_def)

subsection \<open>Lemmas about the frozen shield and the fallback verdict\<close>

lemma recentBlockCount_decisions:
  "recentBlockCount sh = length (filter isBlocking (sliceLast 10 (decisions sh)))"
  by (simp add: recentBlockCount_def decisions_def sliceLast_def drop_map filter_map o_def)

lemma autoFreeze_frozen:
  "isBlocking (decision v) \<Longrightarrow> 5 \<le> recentBlockCount sh \<Longrightarrow> frozen (snd (autoFreeze config v sh))"
  by (simp add: autoFreeze_def recentBlockCount_def Let_def split: option.splits)

lemma autoFreeze_count: "recentBlockCount (snd (autoFreeze config v sh)) = recentBlockCount sh"
  by (simp add: recentBlockCount_def autoFreeze_log)

lemma perform_frozen:
  assumes "frozen sh" and "c \<noteq> Unfreeze"
  shows "frozen (snd (perform config sh c))
         \<and> ((\<exists>env tx conversation. c = Evaluate env tx conversation)
              \<longrightarrow> isFreezeVerdict (fst (perform config sh c)))"
proof (cases c)
  case (Evaluate env tx conversation)
  then show ?thesis
    using assms(1)
    by (simp add: perform_def evaluateInternal_def recordAudit_def Let_def isFreezeVerdict_def
                  frozenVerdict_def)
next
  case (UpdatePolicy overrides)
  then show ?thesis
    using assms(1) by (simp add: perform_def updatePolicy_def split: sum.splits)
next
  case (Use m)
  then show ?thesis using assms(1) by (simp add: perform_def use_def)
next
  case (FreezeCall reason)
  then show ?thesis by (simp add: perform_def freeze_def split: option.splits)
next
  case Unfreeze
  then show ?thesis using assms(2) by simp
qed

lemma frozen_stays:
  "frozen sh \<Longrightarrow> Unfreeze \<notin> set calls \<Longrightarrow>
   frozen (snd (performAll config sh calls))
   \<and> list_all isFreezeVerdict (evaluations calls (fst (performAll config sh calls)))"
proof (induction calls arbitrary: sh)
  case Nil
  then show ?case by simp
next
  case (Cons c cs)
  obtain r sh1 where p: "perform config sh c = (r, sh1)" by (cases "perform config sh c")
  obtain rs sh2 where q: "performAll config sh1 cs = (rs, sh2)" by (cases "performAll config sh1 cs")
  have c: "c \<noteq> Unfreeze" using Cons.prems(2) by auto
  have f1: "frozen sh1" using perform_frozen [OF Cons.prems(1) c, of config] p by simp
  have ih: "frozen sh2 \<and> list_all isFreezeVerdict (evaluations cs rs)"
    using Cons.IH [OF f1] Cons.prems(2) q by simp
  show ?case
  proof (cases c)
    case (Evaluate env tx conversation)
    then have "isFreezeVerdict r" using perform_frozen [OF Cons.prems(1) c, of config] p by simp
    then show ?thesis using p q ih Evaluate by simp
  qed (use p q ih in simp_all)
qed

lemma decoder_completes:
  assumes "ctx_transaction s = transfer a v" and "BigInt v = Inr wei"
  shows "fst (transactionDecoder s noop) = None"
  using assms
  by (simp add: transactionDecoder_def transfer_def decodeData_def decodeSelector_def Let_def noop_def)

lemma valueAssessor_completes:
  assumes "ctx_transaction s = transfer a v" and "BigInt v = Inr wei"
  shows "fst (createValueAssessor None s noop) = None"
  using assms
  by (simp add: createValueAssessor_def transfer_def Let_def noop_def split: option.splits)

lemma swallow_pipeline:
  assumes custom: "customMiddlewares sh = swallow # rest" and v: "BigInt v = Inr wei"
      and tx: "ctx_transaction s = transfer a v" and conv: "ctx_conversationContext s = None"
      and slot: "ctx_metadata_verdict s = None"
  shows "\<exists>final. buildPipeline (envAt t) sh s next = (None, final)
           \<and> ctx_metadata_verdict final = None
           \<and> recentTransactionValues final = recentTransactionValues s"
proof -
  let ?ms = "stages (envAt t) sh"
  let ?s0 = "s\<lparr>index := 0\<rparr>"
  have first: "buildPipeline (envAt t) sh s next = dispatch ?ms next (Suc 0) ?s0"
    using conv by (simp add: buildPipeline_first contextAnalyzer_def noop_def andThen_def)
  have nth: "?ms ! 1 = transactionDecoder" "?ms ! 2 = createValueAssessor None"
    "?ms ! 3 = createAddressChecker" "?ms ! 4 = createContractChecker" "?ms ! 5 = passThrough"
    "?ms ! 6 = swallow"
    using custom by (simp_all add: stages_def envAt_def)
  have range: "j = 1 \<or> j = 2 \<or> j = 3 \<or> j = 4 \<or> j = 5" if "Suc 0 \<le> j" "j < 6" for j :: nat
    using that by arith
  have "\<exists>s'. dispatch ?ms next (Suc 0) ?s0 = dispatch ?ms next 6 s'
          \<and> sameRun ?s0 s' \<and> index s' < int 6 \<and> ctx_transaction s' = transfer a v"
  proof (rule dispatch_tail_ok [where Q = "\<lambda>s. ctx_transaction s = transfer a v"])
    show "\<forall>j. Suc 0 \<le> j \<and> j < 6 \<longrightarrow> tailStage (?ms ! j)"
      using range nth transactionDecoder_tail valueAssessor_tail [of None] passThrough_tail
            createAddressChecker_tail createContractChecker_tail
      by metis
    show "\<forall>j s. Suc 0 \<le> j \<and> j < 6 \<and> ctx_transaction s = transfer a v
            \<longrightarrow> fst ((?ms ! j) s noop) = None"
    proof (intro allI impI)
      fix j and s :: PipelineState
      assume h: "Suc 0 \<le> j \<and> j < 6 \<and> ctx_transaction s = transfer a v"
      have pass: "fst (passThrough s noop) = None" "fst (createContractChecker s noop) = None"
        by (simp_all add: passThrough_def createContractChecker_def noop_def)
      from h range [of j] nth decoder_completes [OF _ v, of s a] valueAssessor_completes [OF _ v, of s a]
           pass createAddressChecker_completes [of s]
      show "fst ((?ms ! j) s noop) = None"
        by metis
    qed
    show "\<forall>s s' x. sameRun s s' \<and> ctx_transaction s = transfer a v
            \<longrightarrow> ctx_transaction (s'\<lparr>index := x\<rparr>) = transfer a v"
      by (simp add: sameRun_def)
    show "6 \<le> length ?ms" by (simp add: stages_length)
    show "index ?s0 < int (Suc 0)" by simp
    show "Suc 0 \<le> 6" by simp
    show "ctx_transaction ?s0 = transfer a v" using tx by simp
  qed
  then obtain s' where run: "dispatch ?ms next (Suc 0) ?s0 = dispatch ?ms next 6 s'"
    and same: "sameRun ?s0 s'" and idx: "index s' < int 6"
    by blast
  have "dispatch ?ms next 6 s' = swallow (s'\<lparr>index := int 6\<rparr>) (dispatch ?ms next (Suc 6))"
    using dispatch_step [OF idx, of ?ms "next"] nth(6) by (simp add: stages_length)
  then have "buildPipeline (envAt t) sh s next = (None, s'\<lparr>index := int 6\<rparr>)"
    using first run by (simp add: swallow_def)
  then show ?thesis
    using same slot by (simp add: sameRun_def)
qed

lemma swallow_evaluate:
  assumes "\<not> frozen sh" and "customMiddlewares sh = swallow # rest" and "BigInt v = Inr wei"
  shows "\<exists>sh'. evaluateInternal config (envAt t) sh (transfer a v) None
                  = (Inr (fallbackVerdict (envAt t)), sh')
           \<and> \<not> frozen sh'
           \<and> customMiddlewares sh' = customMiddlewares sh
           \<and> decisions sh' = sliceLast 10000 (decisions sh @ [Block])"
proof -
  let ?sh1 = "beginEvaluation config (envAt t) sh"
  let ?s = "startState (createMiddlewareContext (Some (transfer a v)) None (Some (policy ?sh1)))
              (escalationTracker ?sh1)"
  have custom: "customMiddlewares ?sh1 = swallow # rest"
    using assms(2) by (simp add: beginEvaluation_frame)
  have "\<exists>final. buildPipeline (envAt t) ?sh1 ?s noop = (None, final)
           \<and> ctx_metadata_verdict final = None
           \<and> recentTransactionValues final = recentTransactionValues ?s"
    by (rule swallow_pipeline [OF custom assms(3)]) (simp_all add: startState_fresh)
  then obtain final where run: "runPipeline (envAt t) ?sh1 (transfer a v) None = (None, final)"
    and slot: "ctx_metadata_verdict final = None"
    by (auto simp: runPipeline_def)
  have ev: "evaluateInternal config (envAt t) sh (transfer a v) None
        = (Inr (fallbackVerdict (envAt t)),
           recordAudit (?sh1\<lparr>escalationTracker := recentTransactionValues final\<rparr>)
             (transfer a v) (fallbackVerdict (envAt t)) None (Some False))"
    using assms(1) run slot by (simp add: evaluateInternal_def Let_def)
  have log: "auditLog ?sh1 = auditLog sh" and fr: "frozen ?sh1 = frozen sh"
    and cm: "customMiddlewares ?sh1 = customMiddlewares sh"
    by (simp_all add: beginEvaluation_frame)
  show ?thesis
    unfolding ev using assms(1) log fr cm
    by (simp add: recordAudit_def Let_def decisions_def sliceLast_def fallbackVerdict_def drop_map)
qed

lemma swallow_run:
  assumes "\<not> frozen sh" and "customMiddlewares sh = swallow # rest" and "BigInt v = Inr wei"
      and "length (decisions sh) + n \<le> 10000"
  shows "\<exists>sh'. performAll config sh (replicate n (Evaluate (envAt t) (transfer a v) None))
                  = (replicate n (Verdict (fallbackVerdict (envAt t))), sh')
           \<and> \<not> frozen sh'
           \<and> decisions sh' = decisions sh @ replicate n Block"
  using assms(1,2,4)
proof (induction n arbitrary: sh)
  case 0
  then show ?case by simp
next
  case (Suc n)
  obtain sh1 where ev: "evaluateInternal config (envAt t) sh (transfer a v) None
                          = (Inr (fallbackVerdict (envAt t)), sh1)"
    and f1: "\<not> frozen sh1" and c1: "customMiddlewares sh1 = swallow # rest"
    and d1: "decisions sh1 = sliceLast 10000 (decisions sh @ [Block])"
    using swallow_evaluate [OF Suc.prems(1,2) assms(3), of config t a] Suc.prems(2) by auto
  have d1': "decisions sh1 = decisions sh @ [Block]"
    using d1 Suc.prems(3) by (simp add: sliceLast_def)
  then have len: "length (decisions sh1) + n \<le> 10000"
    using Suc.prems(3) by simp
  obtain sh' where run: "performAll config sh1 (replicate n (Evaluate (envAt t) (transfer a v) None))
                  = (replicate n (Verdict (fallbackVerdict (envAt t))), sh')"
    and f': "\<not> frozen sh'" and d': "decisions sh' = decisions sh1 @ replicate n Block"
    using Suc.IH [OF f1 c1 len] by blast
  show ?case
    using ev run f' d' d1' by (simp add: perform_def replicate_app_Cons_same)
qed

subsection \<open>C6: the automatic freeze\<close>

text \<open>
  C6 says that the shield freezes whenever a block or freeze verdict is recorded and at
  least 5 of the 10 most recent audit entries, that one included, are blocks or
  freezes. When the pipeline ends without a verdict, \<open>evaluateInternal\<close> records the
  block verdict \<^verbatim>\<open>PIPELINE_ERROR\<close> and returns at once: it neither counts the block nor
  runs the test for the freeze, which the path of the pipeline verdicts runs after
  each recorded block (\<open>autoFreeze_frozen\<close>). So an evaluation of a shield that is not
  frozen, whose pipeline completes without a verdict, records a block and leaves the
  shield unfrozen and the block count as it was, however many of the recent entries are
  blocks.
\<close>

theorem fallback_never_freezes:
  assumes "\<not> frozen sh"
      and "fst (runPipeline env (beginEvaluation config env sh) tx conversation) = None"
      and "pipelineVerdict config env sh tx conversation = None"
  shows "\<exists>sh'. evaluateInternal config env sh tx conversation = (Inr (fallbackVerdict env), sh')
           \<and> decision (fallbackVerdict env) = Block
           \<and> decisions sh' = sliceLast 10000 (decisions sh @ [Block])
           \<and> \<not> frozen sh'
           \<and> blockCount sh' = blockCount sh"
proof -
  let ?sh1 = "beginEvaluation config env sh"
  obtain thrown final where run: "runPipeline env ?sh1 tx conversation = (thrown, final)"
    by (cases "runPipeline env ?sh1 tx conversation")
  have none: "thrown = None" and slot: "ctx_metadata_verdict final = None"
    using assms(2,3) run by (simp_all add: pipelineVerdict_def)
  have ev: "evaluateInternal config env sh tx conversation
        = (Inr (fallbackVerdict env),
           recordAudit (?sh1\<lparr>escalationTracker := recentTransactionValues final\<rparr>)
             tx (fallbackVerdict env) conversation (Some False))"
    using assms(1) run none slot by (simp add: evaluateInternal_def Let_def)
  have log: "auditLog ?sh1 = auditLog sh" and fr: "frozen ?sh1 = frozen sh"
    by (simp_all add: beginEvaluation_frame)
  have count: "blockCount ?sh1 = blockCount sh"
    by (simp add: beginEvaluation_def checkDailyReset_def Let_def)
  show ?thesis
    unfolding ev using assms(1) log fr count
    by (simp add: recordAudit_def Let_def decisions_def sliceLast_def fallbackVerdict_def drop_map)
qed

theorem fallback_never_freezes_witness:
  "recentBlockCount swallowingShield = 4
   \<and> fst (evaluate limitedConfig (envAt 0) swallowingShield (transfer LOW_VALUE_ADDRESS ''1''))
       = Inr (fallbackVerdict (envAt 0))
   \<and> recentBlockCount (snd (evaluate limitedConfig (envAt 0) swallowingShield
                                (transfer LOW_VALUE_ADDRESS ''1''))) = 5
   \<and> \<not> frozen (snd (evaluate limitedConfig (envAt 0) swallowingShield
                         (transfer LOW_VALUE_ADDRESS ''1'')))
   \<and> blockCount (snd (evaluate limitedConfig (envAt 0) swallowingShield
                         (transfer LOW_VALUE_ADDRESS ''1''))) = 4"
proof -
  let ?tx = "transfer LOW_VALUE_ADDRESS ''1''"
  let ?sh1 = "beginEvaluation limitedConfig (envAt 0) swallowingShield"
  let ?s = "startState (createMiddlewareContext (Some ?tx) None (Some (policy ?sh1)))
              (escalationTracker ?sh1)"
  have v: "BigInt ''1'' = Inr 1" by code_simp
  have a: "\<not> frozen swallowingShield" and custom: "customMiddlewares swallowingShield = swallow # []"
    and count: "blockCount swallowingShield = 4"
    by (simp_all add: swallowingShield_def use_def fourBlocks_def createShield_def)
  have four: "replicate 4 x = [x, x, x, x]" for x :: 'a
    by (simp add: numeral_eq_Suc)
  have dec: "decisions swallowingShield = [Block, Block, Block, Block]"
    by (simp add: swallowingShield_def use_def fourBlocks_def decisions_def four blockedEntry_def
                  fallbackVerdict_def)
  have custom1: "customMiddlewares ?sh1 = swallow # []"
    using custom by (simp add: beginEvaluation_frame)
  have "\<exists>final. buildPipeline (envAt 0) ?sh1 ?s noop = (None, final)
           \<and> ctx_metadata_verdict final = None
           \<and> recentTransactionValues final = recentTransactionValues ?s"
    by (rule swallow_pipeline [OF custom1 v]) (simp_all add: startState_fresh)
  then have b: "fst (runPipeline (envAt 0) ?sh1 ?tx None) = None"
    and c: "pipelineVerdict limitedConfig (envAt 0) swallowingShield ?tx None = None"
    by (auto simp: runPipeline_def pipelineVerdict_def)
  from fallback_never_freezes [OF a b c]
  obtain sh' where ev: "evaluateInternal limitedConfig (envAt 0) swallowingShield ?tx None
                          = (Inr (fallbackVerdict (envAt 0)), sh')"
    and d': "decisions sh' = sliceLast 10000 (decisions swallowingShield @ [Block])"
    and f': "\<not> frozen sh'"
    and c': "blockCount sh' = blockCount swallowingShield"
    by blast
  have "recentBlockCount sh' = 5"
    using d' dec by (simp add: recentBlockCount_decisions sliceLast_def isBlocking_def)
  moreover have "recentBlockCount swallowingShield = 4"
    using dec by (simp add: recentBlockCount_decisions sliceLast_def isBlocking_def)
  ultimately show ?thesis
    using ev f' c' count by (simp add: evaluate_def)
qed

text \<open>
  Five evaluations in a row on a fresh shield with the custom middleware \<open>swallow\<close>:
  five blocks are recorded and the shield is not frozen.
\<close>

theorem pipeline_error_blocks_do_not_freeze:
  "evaluations (Use swallow # replicate 5 (Evaluate (envAt 0) (transfer LOW_VALUE_ADDRESS ''1'') None))
     (fst swallowedRun)
     = replicate 5 (Verdict (fallbackVerdict (envAt 0)))
   \<and> decision (fallbackVerdict (envAt 0)) = Block
   \<and> decisions (snd swallowedRun) = [Block, Block, Block, Block, Block]
   \<and> recentBlockCount (snd swallowedRun) = 5
   \<and> \<not> frozen (snd swallowedRun)"
proof -
  let ?sh = "use (createShield testConfig (envAt 0)) swallow"
  have v: "BigInt ''1'' = Inr 1" by code_simp
  have a: "\<not> frozen ?sh" and b: "customMiddlewares ?sh = swallow # []"
    and c: "length (decisions ?sh) + 5 \<le> 10000" and d: "decisions ?sh = []"
    by (simp_all add: use_def createShield_def decisions_def)
  obtain sh' where run: "performAll testConfig ?sh
        (replicate 5 (Evaluate (envAt 0) (transfer LOW_VALUE_ADDRESS ''1'') None))
      = (replicate 5 (Verdict (fallbackVerdict (envAt 0))), sh')"
    and f: "\<not> frozen sh'" and dec: "decisions sh' = decisions ?sh @ replicate 5 Block"
    using swallow_run [OF a b v c, of testConfig 0 LOW_VALUE_ADDRESS] by blast
  have whole: "swallowedRun = (Done # replicate 5 (Verdict (fallbackVerdict (envAt 0))), sh')"
    unfolding swallowedRun_def using run by (simp add: perform_def del: replicate.simps)
  have five: "replicate 5 x = [x, x, x, x, x]" for x :: 'a
    by (simp add: numeral_eq_Suc)
  have count: "recentBlockCount sh' = 5"
    using dec d by (simp add: recentBlockCount_decisions five sliceLast_def isBlocking_def)
  show ?thesis
    unfolding whole using f dec d count by (simp add: five fallbackVerdict_def)
qed

text \<open>
  The path of the pipeline verdicts: when an evaluation returns a block or freeze
  verdict of the pipeline (or the freeze verdict of a frozen shield) and at least 5 of
  the 10 most recent audit entries are blocks or freezes, the shield is frozen, and it
  stays frozen, every evaluation returning a freeze verdict, through every sequence of
  calls without \<^verbatim>\<open>unfreeze\<close>.
\<close>

lemma returned_block_freezes:
  assumes "returnedDecision (evaluateInternal config env sh tx conversation) = Some d"
      and "isBlocking d"
      and "frozen sh \<or> pipelineVerdict config env sh tx conversation \<noteq> None"
      and "5 \<le> recentBlockCount (snd (evaluateInternal config env sh tx conversation))"
      and "Unfreeze \<notin> set calls"
  shows "frozen (snd (evaluateInternal config env sh tx conversation))
         \<and> frozen (snd (performAll config (snd (evaluateInternal config env sh tx conversation)) calls))
         \<and> list_all isFreezeVerdict
             (evaluations calls
                (fst (performAll config (snd (evaluateInternal config env sh tx conversation)) calls)))"
proof -
  obtain r sh1 where ev: "evaluateInternal config env sh tx conversation = (r, sh1)"
    by (cases "evaluateInternal config env sh tx conversation")
  obtain verdict where r: "r = Inr verdict" and dec: "decision verdict = d"
    using assms(1) ev by (auto simp: returnedDecision_def split: sum.splits)
  from ev have "frozen sh1"
  proof (cases rule: evaluateInternal_cases)
    case frozen
    then show ?thesis by (simp add: recordAudit_def Let_def)
  next
    case (thrown e final)
    then show ?thesis using r by simp
  next
    case (fallback final)
    then show ?thesis using assms(3) by (simp add: pipelineVerdict_def)
  next
    case (settled final verdict0)
    from settled(4) show ?thesis
    proof (cases rule: settle_steps)
      case (counters e)
      then show ?thesis using r by simp
    next
      case (volume sh2 e verdict1)
      then show ?thesis using r by simp
    next
      case (recorded sh2 verdict1 sh3 thrown)
      let ?logged = "recordAudit sh3 tx verdict1 conversation None"
      have v: "verdict1 = verdict" using recorded(4) r by (simp split: option.splits)
      have "recentBlockCount ?logged = recentBlockCount sh1"
        using autoFreeze_count [of config verdict1 ?logged] recorded(3) by simp
      then have "5 \<le> recentBlockCount ?logged" using assms(4) ev by simp
      then show ?thesis
        using autoFreeze_frozen [of verdict1 ?logged config] recorded(3) v dec assms(2) by simp
    qed
  qed
  then show ?thesis
    using frozen_stays [OF _ assms(5), of sh1 config] ev by simp
qed

subsection \<open>Lemmas about hexadecimal amounts\<close>

text \<open>\<^verbatim>\<open>BigInt\<close> reads a literal in the same way in either case of its letters.\<close>

lemma digitVal_lowerChar: "digitVal (lowerChar c) = digitVal c"
proof -
  have "of_char c < (256::nat)" by simp
  then show ?thesis
    by (auto simp: digitVal_def lowerChar_def Let_def)
qed

lemma isWhiteSpace_lowerChar: "isWhiteSpace (lowerChar c) = isWhiteSpace c"
  by (auto simp: isWhiteSpace_def lowerChar_def Let_def)

lemma parseDigitsFrom_lower:
  "parseDigitsFrom radix acc (toLowerCase s) = parseDigitsFrom radix acc s"
  by (induction s arbitrary: acc) (simp_all add: toLowerCase_def digitVal_lowerChar split: option.splits)

lemma parseDigits_lower: "parseDigits radix (toLowerCase s) = parseDigits radix s"
  using parseDigitsFrom_lower [of radix 0 s] by (simp add: parseDigits_def toLowerCase_def)

lemma toLowerCase_idem: "toLowerCase (toLowerCase s) = toLowerCase s"
  by (auto simp: toLowerCase_def lowerChar_def Let_def)

lemma trim_lower: "trim (toLowerCase s) = toLowerCase (trim s)"
  by (simp add: trim_def toLowerCase_def dropWhile_map rev_map o_def isWhiteSpace_lowerChar)

lemma drop_lower: "drop n (toLowerCase s) = toLowerCase (drop n s)"
  by (simp add: toLowerCase_def drop_map)

lemma of_char_lowerChar:
  "(of_char (lowerChar c) :: nat)
     = (if 65 \<le> (of_char c :: nat) \<and> (of_char c :: nat) \<le> 90 then of_char c + 32 else of_char c)"
  by (simp add: lowerChar_def Let_def)

lemma lowerChar_sign:
  assumes "(of_char p :: nat) < 65"
  shows "(lowerChar c = p) = (c = p)"
proof
  assume "lowerChar c = p"
  then have "(of_char (lowerChar c) :: nat) = of_char p" by simp
  then have "(of_char c :: nat) = of_char p"
    using assms by (simp add: of_char_lowerChar split: if_splits)
  then show "c = p" by simp
next
  assume "c = p"
  then show "lowerChar c = p" using assms by (simp add: lowerChar_def Let_def)
qed

lemma startsWith_sign:
  "(of_char p :: nat) < 65 \<Longrightarrow> startsWith (toLowerCase s) [p] = startsWith s [p]"
  by (cases s) (simp_all add: toLowerCase_def lowerChar_sign)

lemma dropWhile_snoc: "\<not> P c \<Longrightarrow> dropWhile P (xs @ c # ys) = dropWhile P xs @ c # ys"
  by (induction xs) simp_all

lemma trim_Cons:
  "\<not> isWhiteSpace c \<Longrightarrow> trim (c # s) = c # rev (dropWhile isWhiteSpace (rev s))"
  by (simp add: trim_def dropWhile_snoc)

lemma StringToBigInt_hex:
  "StringToBigInt (''0x'' @ amount) = parseDigits 16 (rev (dropWhile isWhiteSpace (rev amount)))"
proof -
  have "trim (''0x'' @ amount) = ''0x'' @ rev (dropWhile isWhiteSpace (rev amount))"
    by (simp add: trim_Cons isWhiteSpace_def dropWhile_snoc)
  then show ?thesis
    by (simp add: StringToBigInt_def Let_def toLowerCase_def lowerChar_def)
qed

lemma StringToBigInt_lower: "StringToBigInt (toLowerCase s) = StringToBigInt s"
proof -
  have minus: "startsWith (toLowerCase t) ''-'' = startsWith t ''-''" for t
    by (rule startsWith_sign) simp
  have plus: "startsWith (toLowerCase t) ''+'' = startsWith t ''+''" for t
    by (rule startsWith_sign) simp
  have empty: "(toLowerCase t = []) = (t = [])" for t
    by (simp add: toLowerCase_def)
  show ?thesis
    unfolding StringToBigInt_def Let_def trim_lower toLowerCase_idem empty minus plus
              drop_lower parseDigits_lower
    by (rule refl)
qed

lemma BigInt_hex_lower:
  assumes "BigInt (''0x'' @ amount) = Inr n"
  shows "BigInt (''0x'' @ toLowerCase amount) = Inr n"
proof -
  have "''0x'' @ toLowerCase amount = toLowerCase (''0x'' @ amount)"
    by (simp add: toLowerCase_def lowerChar_def Let_def)
  then show ?thesis
    using assms by (simp add: BigInt_def StringToBigInt_lower del: append.simps split: option.splits)
qed

lemma hex_no_prefix:
  assumes "BigInt (''0x'' @ amount) = Inr n"
  shows "\<not> startsWith amount ''0x''"
proof
  assume "startsWith amount ''0x''"
  then obtain rest where a: "amount = ''0x'' @ rest"
    by (cases amount; cases "tl amount") auto
  have "rev (dropWhile isWhiteSpace (rev amount)) = ''0x'' @ rev (dropWhile isWhiteSpace (rev rest))"
    unfolding a by (simp add: dropWhile_snoc isWhiteSpace_def)
  then have "StringToBigInt (''0x'' @ amount) = None"
    unfolding StringToBigInt_hex by (simp add: parseDigits_def digitVal_def)
  then show False using assms by (simp add: BigInt_def)
qed

lemma isInfiniteApproval_large:
  assumes "BigInt (''0x'' @ amount) = Inr n" and "2 ^ 128 < n"
  shows "isInfiniteApproval amount"
  using hex_no_prefix [OF assms(1)] BigInt_hex_lower [OF assms(1)] assms(2)
  by (simp add: isInfiniteApproval_def Let_def del: append.simps)

lemma approve_decoded:
  assumes "decodeSelector data = Some ''approve''"
      and "extractParams data = spender # amount # rest"
      and "BigInt (''0x'' @ amount) = Inr n" and "2 ^ 128 < n"
  shows "\<exists>d pushed. decodeData transaction data wei = Inr (d, pushed)
           \<and> \<lparr>code = ''INFINITE_APPROVAL'', severity = Critical, source = SrcTransaction\<rparr> \<in> set pushed
           \<and> isApproval d \<and> \<not> isTransfer d
           \<and> parameters d = Some [(''spender'', PString (decodeAddress spender)),
                                   (''amount'', PString (''0x'' @ amount))]"
  using assms(1,2) isInfiniteApproval_large [OF assms(3,4)]
  by (simp add: decodeData_def decodeCall_def Let_def del: append.simps)

lemma approve_value:
  assumes "isApproval d" and "\<not> isTransfer d"
      and "parameters d = Some [(''spender'', PString spender), (''amount'', PString a)]"
      and "BigInt a = Inr n" and "2 ^ 128 < n"
  shows "100000 \<le> tokenValue tokenPrices target d est0"
  using assms by (simp add: tokenValue_def Let_def Math_max_def)

subsection \<open>C7: unlimited approvals\<close>

text \<open>
  C7 says that for every transaction whose calldata is an \<^verbatim>\<open>approve(address,uint256)\<close>
  call with an amount greater than \<open>2^128\<close> the decoder emits \<^verbatim>\<open>INFINITE_APPROVAL\<close> and
  the value assessor sets the estimate to at least 100000. The decoder converts the
  value of the transaction with \<^verbatim>\<open>BigInt\<close> before it looks at the calldata: for the
  unlimited approval with the value \<^verbatim>\<open>'abc'\<close> it throws, no reason is emitted, no
  decoded transaction exists, and the evaluation ends with the error.
\<close>

theorem approve_with_malformed_value:
  "map_option (decodeSelector) (tx_data malformedApprove) = Some (Some ''approve'')
   \<and> map_option (\<lambda>data. map decodeUint256 (drop 1 (extractParams data))) (tx_data malformedApprove)
       = Some [Inr (2 ^ 256 - 1)]
   \<and> fst (transactionDecoder malformedApproveContext noop)
       = Some (SyntaxError ''Cannot convert abc to a BigInt'')
   \<and> ctx_reasons (snd (transactionDecoder malformedApproveContext noop)) = []
   \<and> ctx_decoded (snd (transactionDecoder malformedApproveContext noop)) = None
   \<and> fst (evaluate testConfig (envAt 0) (createShield testConfig (envAt 0)) malformedApprove)
       = Inl (SyntaxError ''Cannot convert abc to a BigInt'')"
proof -
  have a: "map_option (decodeSelector) (tx_data malformedApprove) = Some (Some ''approve'')"
    by code_simp
  have b: "map_option (\<lambda>data. map decodeUint256 (drop 1 (extractParams data))) (tx_data malformedApprove)
       = Some [Inr (2 ^ 256 - 1)]"
    by code_simp
  have p: "StringToBigInt ''abc'' = None"
    by code_simp
  have v: "tx_value (ctx_transaction malformedApproveContext) = Some ''abc''"
    by (simp add: malformedApproveContext_def malformedApprove_def startState_def
                  createMiddlewareContext_def)
  have c: "transactionDecoder malformedApproveContext noop
             = (Some (SyntaxError ''Cannot convert abc to a BigInt''), malformedApproveContext)"
    using decoder_throws [OF p v, of noop] by simp
  have d: "ctx_reasons malformedApproveContext = []" "ctx_decoded malformedApproveContext = None"
    by (simp_all add: malformedApproveContext_def startState_def createMiddlewareContext_def)
  have "\<not> frozen (createShield testConfig (envAt 0))"
    by (simp add: createShield_def)
  from evaluateInternal_raises [OF this p, of malformedApprove testConfig "envAt 0" None]
  have e: "fst (evaluate testConfig (envAt 0) (createShield testConfig (envAt 0)) malformedApprove)
       = Inl (SyntaxError ''Cannot convert abc to a BigInt'')"
    by (auto simp: evaluate_def malformedApprove_def)
  from a b c d e show ?thesis by simp
qed

text \<open>
  C7, amended. Let the value of a transaction be an integer literal that \<^verbatim>\<open>Number\<close>
  converts to a finite double (or absent), and let its calldata carry the selector of
  \<^verbatim>\<open>approve(address,uint256)\<close> and at least two parameter words, the second of which is
  an amount greater than \<open>2^128\<close>. Then the decoder completes and has pushed the reason
  \<^verbatim>\<open>INFINITE_APPROVAL\<close> with the severity critical, and the value assessor, with any
  configuration of finite prices, completes and sets the \<^verbatim>\<open>estimatedValueUsd\<close> of the
  decoded transaction, and the estimate of the context, to at least 100000. (For a
  value beyond the range of a double the source's estimate of the native value can be
  NaN, which the maximum with 100000 keeps.)
\<close>

theorem infinite_approval_flagged:
  assumes "tx_data (ctx_transaction s) = Some data"
      and "decodeSelector data = Some ''approve''"
      and "extractParams data = spender # amount # rest"
      and "BigInt (''0x'' @ amount) = Inr n" and "2 ^ 128 < n"
      and "BigInt (case tx_value (ctx_transaction s) of None \<Rightarrow> ''0'' | Some v \<Rightarrow> v) = Inr wei"
      and "finiteAsNumber wei"
  shows "\<exists>s1 s2 d. transactionDecoder s noop = (None, s1)
           \<and> \<lparr>code = ''INFINITE_APPROVAL'', severity = Critical, source = SrcTransaction\<rparr>
               \<in> set (ctx_reasons s1)
           \<and> createValueAssessor config s1 noop = (None, s2)
           \<and> ctx_decoded s2 = Some d
           \<and> 100000 \<le> estimatedValueUsd d
           \<and> ctx_metadata_estimatedValueUsd s2 = Some (estimatedValueUsd d)"
proof -
  obtain d pushed where dec: "decodeData (ctx_transaction s) data wei = Inr (d, pushed)"
    and flag: "\<lparr>code = ''INFINITE_APPROVAL'', severity = Critical, source = SrcTransaction\<rparr> \<in> set pushed"
    and d: "isApproval d" "\<not> isTransfer d"
           "parameters d = Some [(''spender'', PString (decodeAddress spender)),
                                 (''amount'', PString (''0x'' @ amount))]"
    using approve_decoded [OF assms(2,3,4,5), of "ctx_transaction s" wei] by blast
  have long: "data \<noteq> [] \<and> data \<noteq> ''0x''"
    using assms(2) by (auto simp: decodeSelector_def split: if_splits)
  then have plain: "plainTransfer (ctx_transaction s) data d = d"
    by (simp add: plainTransfer_def)
  define s1 where "s1 = (push (pushed @ ethWithCalldata data d) s)\<lparr>ctx_decoded := Some d\<rparr>"
  have run1: "transactionDecoder s noop = (None, s1)"
    using assms(1,6) dec plain by (simp add: transactionDecoder_def Let_def noop_def s1_def)
  have reasons1: "\<lparr>code = ''INFINITE_APPROVAL'', severity = Critical, source = SrcTransaction\<rparr>
                    \<in> set (ctx_reasons s1)"
    using flag by (simp add: s1_def push_def)
  have tx1: "ctx_transaction s1 = ctx_transaction s" and dec1: "ctx_decoded s1 = Some d"
    by (simp_all add: s1_def push_def)
  obtain r s2 where run2: "createValueAssessor config s1 noop = (r, s2)"
    by (cases "createValueAssessor config s1 noop")
  have large: "100000 \<le> tokenValue tokenPrices target d est0" for tokenPrices target est0
    by (rule approve_value [OF d assms(4,5)])
  have "r = None \<and> (\<exists>d'. ctx_decoded s2 = Some d' \<and> 100000 \<le> estimatedValueUsd d'
                          \<and> ctx_metadata_estimatedValueUsd s2 = Some (estimatedValueUsd d'))"
    using run2 tx1 dec1 assms(6) large
    by (auto simp: createValueAssessor_def Let_def noop_def)
  then show ?thesis
    using run1 reasons1 run2 by blast
qed

theorem infinite_approval_flagged_witness:
  "\<exists>s1 s2 d. transactionDecoder approveContext noop = (None, s1)
     \<and> map code (ctx_reasons s1) = [''INFINITE_APPROVAL'']
     \<and> createValueAssessor None s1 noop = (None, s2)
     \<and> ctx_decoded s2 = Some d
     \<and> 100000 \<le> estimatedValueUsd d"
proof -
  let ?data = "''0x095ea7b3'' @ replicate 24 (CHR ''0'') @ drop 2 LOW_VALUE_ADDRESS
                 @ replicate 64 (CHR ''f'')"
  have a: "tx_data (ctx_transaction approveContext) = Some ?data"
    by (simp add: approveContext_def startState_def createMiddlewareContext_def infiniteApprove_def)
  have b: "decodeSelector ?data = Some ''approve''"
    by code_simp
  have c: "extractParams ?data
             = (replicate 24 (CHR ''0'') @ drop 2 LOW_VALUE_ADDRESS) # replicate 64 (CHR ''f'') # []"
    by code_simp
  have d: "BigInt (''0x'' @ replicate 64 (CHR ''f'')) = Inr (2 ^ 256 - 1)"
    by code_simp
  have e: "(2::int) ^ 128 < 2 ^ 256 - 1"
    by simp
  have f: "BigInt (case tx_value (ctx_transaction approveContext) of None \<Rightarrow> ''0'' | Some v \<Rightarrow> v) = Inr 0"
    by code_simp
  have g: "finiteAsNumber 0"
    by (simp add: finiteAsNumber_def)
  from infinite_approval_flagged [OF a b c d e f g, of None]
  obtain s1 s2 dd where run: "transactionDecoder approveContext noop = (None, s1)"
    "createValueAssessor None s1 noop = (None, s2)" "ctx_decoded s2 = Some dd"
    "100000 \<le> estimatedValueUsd dd"
    by blast
  have "map code (ctx_reasons (snd (transactionDecoder approveContext noop))) = [''INFINITE_APPROVAL'']"
    by code_simp
  then show ?thesis using run by auto
qed

subsection \<open>Lemmas about hexadecimal digits\<close>

text \<open>The hexadecimal digits of a number, padded with zeros, are read back as the number.\<close>

lemma digitChar_hex: "d < 16 \<Longrightarrow> digitVal (digitChar d) = Some d"
proof -
  have "list_all (\<lambda>d. digitVal (digitChar d) = Some d) [0..<16]"
    by code_simp
  then show "d < 16 \<Longrightarrow> digitVal (digitChar d) = Some d"
    by (simp add: list_all_iff)
qed

lemma parseDigitsFrom_append:
  "parseDigitsFrom radix acc (xs @ ys)
     = (case parseDigitsFrom radix acc xs of None \<Rightarrow> None | Some a \<Rightarrow> parseDigitsFrom radix a ys)"
  by (induction xs arbitrary: acc) (simp_all split: option.splits)

lemma toStringRadix_small: "0 \<le> n \<Longrightarrow> n < 16 \<Longrightarrow> toStringRadix 16 n = [digitChar (nat n)]"
  by (subst toStringRadix.simps) simp

lemma toStringRadix_large:
  "16 \<le> n \<Longrightarrow> toStringRadix 16 n = toStringRadix 16 (n div 16) @ [digitChar (nat (n mod 16))]"
  by (subst toStringRadix.simps) simp

lemma toStringRadix_nonempty: "toStringRadix radix n \<noteq> []"
  by (subst toStringRadix.simps) simp

lemma toStringRadix_hex:
  "0 \<le> n \<Longrightarrow> n < 16 ^ Suc k \<Longrightarrow>
   length (toStringRadix 16 n) \<le> Suc k
   \<and> list_all isHexChar (toStringRadix 16 n)
   \<and> parseDigitsFrom 16 acc (toStringRadix 16 n)
       = Some (acc * 16 ^ length (toStringRadix 16 n) + n)"
proof (induction k arbitrary: n acc)
  case 0
  then have "nat n < 16" by simp
  then show ?case
    using 0 digitChar_hex [of "nat n"] by (simp add: toStringRadix_small isHexChar_def)
next
  case (Suc k)
  show ?case
  proof (cases "n < 16")
    case True
    then have "nat n < 16" by simp
    then show ?thesis
      using True Suc.prems(1) digitChar_hex [of "nat n"]
      by (simp add: toStringRadix_small isHexChar_def)
  next
    case False
    then have big: "16 \<le> n" by simp
    have q: "0 \<le> n div 16" "n div 16 < 16 ^ Suc k"
    proof -
      show "0 \<le> n div 16" using Suc.prems(1) by simp
      define P :: int where "P = 16 ^ Suc k"
      have "n < 16 * P" using Suc.prems(2) by (simp add: P_def)
      then have "n div 16 < P" by arith
      then show "n div 16 < 16 ^ Suc k" by (simp add: P_def)
    qed
    have r: "nat (n mod 16) < 16" by simp
    note ih = Suc.IH [OF q]
    have digit: "digitVal (digitChar (nat (n mod 16))) = Some (nat (n mod 16))"
      by (rule digitChar_hex [OF r])
    show ?thesis
      using ih [of acc] digit
      by (simp add: toStringRadix_large [OF big] parseDigitsFrom_append isHexChar_def algebra_simps)
  qed
qed

lemma parseDigitsFrom_zeros:
  "parseDigitsFrom 16 0 (replicate m (CHR ''0'') @ xs) = parseDigitsFrom 16 0 xs"
  by (induction m) (simp_all add: digitVal_def)

lemma padStart_hex:
  assumes "0 \<le> n" and "n < 16 ^ Suc k"
  shows "length (padStart (Suc k) (CHR ''0'') (toStringRadix 16 n)) = Suc k
         \<and> list_all isHexChar (padStart (Suc k) (CHR ''0'') (toStringRadix 16 n))
         \<and> parseIntHex (padStart (Suc k) (CHR ''0'') (toStringRadix 16 n)) = Some n"
proof -
  let ?digits = "toStringRadix 16 n"
  let ?padded = "padStart (Suc k) (CHR ''0'') ?digits"
  have len: "length ?digits \<le> Suc k" and hex: "list_all isHexChar ?digits"
    and parse: "parseDigitsFrom 16 0 ?digits = Some n"
    using toStringRadix_hex [OF assms, of 0] by simp_all
  have zero: "isHexChar (CHR ''0'')"
    by (simp add: isHexChar_def digitVal_def)
  have l: "length ?padded = Suc k"
    using len by (simp add: padStart_def)
  have h: "list_all isHexChar ?padded"
    using hex zero by (auto simp: padStart_def list_all_iff)
  have tw: "takeWhile isHexChar ?padded = ?padded"
    using h by (simp add: list_all_iff)
  have ne: "?padded \<noteq> []"
    using l by auto
  have pd: "parseDigitsFrom 16 0 ?padded = Some n"
    using parse by (simp add: padStart_def parseDigitsFrom_zeros)
  have "parseIntHex ?padded = Some n"
    unfolding parseIntHex_def parseDigits_def tw using ne pd by simp
  with l h show ?thesis by simp
qed

lemma digestHex_hex: "length (digestHex tag) = 64 \<and> list_all isHexChar (digestHex tag)"
proof -
  have "(16::int) ^ Suc 63 = 2 ^ 256" by simp
  then have "tag mod 2 ^ 256 < 16 ^ Suc 63" by simp
  from padStart_hex [OF _ this] show ?thesis
    by (simp add: digestHex_def)
qed

subsection \<open>C4: the round trip of an approval token\<close>

text \<open>
  C4 says that a token generated with the time stamp \<open>t\<close> verifies if and only if
  \<open>now - t < 300000\<close>. The age test of \<open>verifyApprovalToken\<close> rejects an age greater than
  300000 ms and a negative age: a token that is exactly 300000 ms old is accepted, and
  a token whose time stamp lies one millisecond in the future is rejected.
\<close>

theorem approval_token_accepted_at_max_age:
  "verifyApprovalToken sampleMac (issuedAt + 300000) sampleToken ''0xabc123'' ''shared-secret''
   \<and> \<not> (issuedAt + 300000) - issuedAt < 300000
   \<and> \<not> verifyApprovalToken sampleMac (issuedAt - 1) sampleToken ''0xabc123'' ''shared-secret''
   \<and> (issuedAt - 1) - issuedAt < 300000"
  by code_simp

text \<open>
  C4, amended. For every transaction hash, shared secret and keyed tag function, and
  every time stamp \<open>t\<close> that is an integer with \<open>0 \<le> t < 2^53\<close> (given, or the time of the
  generation), the token generated with \<open>t\<close> verifies against the same hash and secret
  at the time \<open>now\<close> if and only if \<open>0 \<le> now - t \<le> 300000\<close>.
\<close>

theorem approval_token_round_trip:
  assumes "t = (case stamp of None \<Rightarrow> issued | Some t' \<Rightarrow> t')" and "0 \<le> t" and "t < 2 ^ 53"
  shows "verifyApprovalToken hmac now
           (generateApprovalToken hmac issued transactionHash sharedSecret stamp)
           transactionHash sharedSecret
         = (0 \<le> now - t \<and> now - t \<le> APPROVAL_TOKEN_MAX_AGE_MS)"
proof -
  define mac where "mac = digestHex (hmac sharedSecret (transactionHash @ toStringRadix 10 t))"
  define tsHex where "tsHex = padStart 16 (CHR ''0'') (toStringRadix 16 t)"
  have token: "generateApprovalToken hmac issued transactionHash sharedSecret stamp = mac @ tsHex"
    using assms(1) by (simp add: generateApprovalToken_def Let_def mac_def tsHex_def)
  have m: "length mac = 64" "list_all isHexChar mac"
    using digestHex_hex by (simp_all add: mac_def)
  have "t < 16 ^ Suc 15" using assms(3) by simp
  from padStart_hex [OF assms(2) this]
  have s: "length tsHex = 16" "list_all isHexChar tsHex" "parseIntHex tsHex = Some t"
    by (simp_all add: tsHex_def)
  have parts: "slice 0 64 (mac @ tsHex) = mac" "sliceFrom 64 (mac @ tsHex) = tsHex"
    using m(1) by (simp_all add: slice_def sliceFrom_def)
  have shape: "length (mac @ tsHex) = 80 \<and> list_all isHexChar (mac @ tsHex)"
    using m s by simp
  show ?thesis
    unfolding token verifyApprovalToken_def Let_def parts
    using shape s(3) by (auto simp: timingSafeEqual_def mac_def)
qed

theorem approval_token_round_trip_witness:
  "verifyApprovalToken sampleMac (issuedAt + 299999) sampleToken ''0xabc123'' ''shared-secret''
   \<and> \<not> verifyApprovalToken sampleMac (issuedAt + 300001) sampleToken ''0xabc123'' ''shared-secret''"
proof -
  have a: "issuedAt = (case Some issuedAt of None \<Rightarrow> issuedAt | Some t' \<Rightarrow> t')" by simp
  have b: "0 \<le> issuedAt" "issuedAt < 2 ^ 53" by (simp_all add: issuedAt_def)
  from approval_token_round_trip [OF a b, of sampleMac _ "''0xabc123''" "''shared-secret''"]
  show ?thesis
    by (simp add: sampleToken_def APPROVAL_TOKEN_MAX_AGE_MS_def)
qed

end
